theory Spec2Isabelle
  imports Complex_Main "HOL-Library.AList" "HOL-Library.Multiset"
begin

section \<open>The trading simulator of src/main.py\<close>

text \<open>
  The theory embeds the trading simulator of \<^verbatim>\<open>src/main.py\<close> (lines 32-60, 86-107,
  151-162 and 296-488): the endpoints \<^verbatim>\<open>initialize_simulator\<close>, \<^verbatim>\<open>get_simulator_state\<close>,
  \<^verbatim>\<open>execute_trade\<close>, \<^verbatim>\<open>get_trade_history\<close> and \<^verbatim>\<open>update_stock_prices\<close> with their helpers.

  The simulator is embedded twice. This section reads a Python \<^verbatim>\<open>float\<close> as an exact
  rational (\<^typ>\<open>rat\<close>): comparisons and the order of the checks are those of the source,
  rounding error, infinities, NaN and the \<^verbatim>\<open>OverflowError\<close> of a conversion are not
  modelled. It carries the properties of the order of the checks, of the average cost, of
  the reported totals, of the initialisation and of the trade history. The next section has
  the floats of Python, with their special values and their rounding; it carries the
  properties of limit prices, of sell orders and of the sign of the balance, which depend
  on them.

  Conventions of both embeddings:
  \<^item> a Python \<^verbatim>\<open>int\<close> is an \<^typ>\<open>int\<close>;
  \<^item> a \<^verbatim>\<open>dict\<close> whose order is observable (portfolio, price table) is an association list
    in insertion order, written to with \<^const>\<open>AList.update\<close> (replace in place, else append)
    and \<^const>\<open>AList.delete\<close>; the registry \<^verbatim>\<open>simulator_db\<close> is a map;
  \<^item> the module-level globals \<^verbatim>\<open>simulator_db\<close> and \<^verbatim>\<open>trades_db\<close> are the two fields of an
    explicit store that every endpoint takes and returns;
  \<^item> what an endpoint reads from its environment is an argument: each reading of
    \<^verbatim>\<open>datetime.now()\<close>, the fresh \<^verbatim>\<open>uuid4\<close> and the draws of \<^verbatim>\<open>random.uniform\<close>;
  \<^item> an exception is a value: an endpoint returns \<open>Inl\<close> of the error or \<open>Inr\<close> of its
    response, together with the store as the exception leaves it;
  \<^item> the constant \<^verbatim>\<open>"message"\<close> entry of a response is left out.
\<close>

subsection \<open>Data model (lines 32-60)\<close>

type_synonym datetime = int

type_synonym 'v dict = "(string \<times> 'v) list"

text \<open>An entry of \<^verbatim>\<open>portfolio\<close>: the inner dict \<^verbatim>\<open>{"shares": ..., "avg_price": ...}\<close>.\<close>

record holding =
  shares :: int
  avg_price :: rat

record TradingSimulatorState =
  user_id :: string
  level :: string
  balance :: rat
  initial_balance :: rat
  portfolio :: "holding dict"
  stock_prices :: "rat dict"
  trade_count :: int
  total_pnl :: rat
  created_at :: datetime
  last_updated :: datetime

record TradeOrder =
  symbol :: string
  action :: string
  quantity :: int
  order_type :: string
  limit_price :: "rat option"

record TradeExecution =
  te_id :: string
  te_user_id :: string
  te_symbol :: string
  te_action :: string
  te_quantity :: int
  te_price :: rat
  te_total_value :: rat
  te_timestamp :: datetime
  te_order_type :: string

record store =
  simulator_db :: "string \<rightharpoonup> TradingSimulatorState"
  trades_db :: "TradeExecution list"

subsection \<open>Errors\<close>

text \<open>\<^verbatim>\<open>OverflowError\<close> arises in the embedding over floats only.\<close>

datatype error = HTTPException nat string | ZeroDivisionError | KeyError | OverflowError

abbreviation InvalidLevel :: error where
  "InvalidLevel \<equiv> HTTPException 400 ''Invalid level''"

abbreviation AccountNotInitialized :: error where
  "AccountNotInitialized \<equiv> HTTPException 404 ''Simulator not initialized''"

abbreviation SymbolNotTradeable :: error where
  "SymbolNotTradeable \<equiv> HTTPException 400 ''Stock not available''"

abbreviation MissingLimitPrice :: error where
  "MissingLimitPrice \<equiv> HTTPException 400 ''Limit price required for limit orders''"

abbreviation UnfavorablePrice :: error where
  "UnfavorablePrice \<equiv> HTTPException 400 ''Market price not favorable for limit order''"

abbreviation InsufficientBalance :: error where
  "InsufficientBalance \<equiv> HTTPException 400 ''Insufficient balance''"

abbreviation InsufficientShares :: error where
  "InsufficientShares \<equiv> HTTPException 400 ''Insufficient shares''"

abbreviation InvalidAction :: error where
  "InvalidAction \<equiv> HTTPException 400 ''Invalid action''"

subsection \<open>Responses\<close>

record InitResponse =
  ir_level :: string
  ir_initial_balance :: rat
  ir_available_stocks :: "string list"
  ir_stock_prices :: "rat dict"

record StateResponse =
  sr_user_id :: string
  sr_level :: string
  sr_balance :: rat
  sr_portfolio :: "holding dict"
  sr_stock_prices :: "rat dict"
  sr_portfolio_value :: rat
  sr_total_value :: rat
  sr_initial_balance :: rat
  sr_pnl :: rat
  sr_trade_count :: int
  sr_last_updated :: datetime

text \<open>The \<^verbatim>\<open>"trade"\<close> entry of the response of \<^verbatim>\<open>execute_trade\<close>.\<close>

record TradeSummary =
  ts_id :: string
  ts_symbol :: string
  ts_action :: string
  ts_quantity :: int
  ts_price :: rat
  ts_total_value :: rat

record TradeResponse =
  tr_trade :: TradeSummary
  tr_new_balance :: rat
  tr_portfolio :: "holding dict"
  tr_total_value :: rat
  tr_pnl :: rat

record HistoryResponse =
  hr_user_id :: string
  hr_trades :: "TradeExecution list"
  hr_total_trades :: nat

record PricesResponse =
  pr_old_prices :: "rat dict"
  pr_new_prices :: "rat dict"
  pr_timestamp :: datetime

subsection \<open>Static tables (lines 86-101)\<close>

text \<open>
  In \<^verbatim>\<open>STOCK_DATA\<close> the list of each level starts with the list of the level below it; the
  three lists are written here as the first and its two extensions.
\<close>

definition beginner_stocks :: "string list" where
  "beginner_stocks = [''AAPL'', ''GOOGL'', ''MSFT'', ''AMZN'', ''TSLA'']"

definition intermediate_stocks :: "string list" where
  "intermediate_stocks = beginner_stocks @
     [''META'', ''NVDA'', ''JPM'', ''JNJ'', ''V'', ''PG'', ''UNH'', ''HD'', ''MA'', ''DIS'']"

definition advanced_stocks :: "string list" where
  "advanced_stocks = intermediate_stocks @
     [''BAC'', ''XOM'', ''CVX'', ''LLY'', ''ABBV'', ''PFE'', ''KO'', ''PEP'', ''TMO'', ''COST'',
      ''AVGO'', ''LIN'', ''NKE'', ''ACN'', ''CRM'']"

definition STOCK_DATA :: "(string list) dict" where
  "STOCK_DATA =
     [(''beginner'', beginner_stocks),
      (''intermediate'', intermediate_stocks),
      (''advanced'', advanced_stocks)]"

definition INITIAL_PRICES :: "rat dict" where
  "INITIAL_PRICES =
     [(''AAPL'', 175.50), (''GOOGL'', 142.80), (''MSFT'', 378.90), (''AMZN'', 145.30),
      (''TSLA'', 248.70), (''META'', 325.40), (''NVDA'', 485.20), (''JPM'', 178.60),
      (''JNJ'', 162.40), (''V'', 265.80), (''PG'', 158.90), (''UNH'', 542.30),
      (''HD'', 356.70), (''MA'', 398.50), (''DIS'', 92.40), (''BAC'', 34.20),
      (''XOM'', 108.60), (''CVX'', 146.80), (''LLY'', 568.90), (''ABBV'', 158.30),
      (''PFE'', 28.60), (''KO'', 62.40), (''PEP'', 178.90), (''TMO'', 542.60),
      (''COST'', 689.30), (''AVGO'', 892.40), (''LIN'', 425.60), (''NKE'', 108.90),
      (''ACN'', 342.70), (''CRM'', 256.80)]"

text \<open>The local table of \<^verbatim>\<open>initialize_simulator\<close> (line 304).\<close>

definition initial_balances :: "rat dict" where
  "initial_balances = [(''beginner'', 2000), (''intermediate'', 5000), (''advanced'', 10000)]"

subsection \<open>Helper functions (lines 151-162)\<close>

text \<open>
  \<^verbatim>\<open>round(x, 2)\<close>: to the nearest multiple of 1/100, a tie to the even one.
\<close>

definition py_round2 :: "rat \<Rightarrow> rat" where
  "py_round2 x =
     (let y = x * 100; f = \<lfloor>y\<rfloor>; d = y - of_int f
      in of_int (if d < 1 / 2 then f else if 1 / 2 < d then f + 1
                 else if even f then f else f + 1) / 100)"

text \<open>
  \<^verbatim>\<open>simulate_price_change\<close>; the second argument is the value that
  \<^verbatim>\<open>random.uniform(-0.02, 0.02)\<close> returns.
\<close>

definition simulate_price_change :: "rat \<Rightarrow> rat \<Rightarrow> rat" where
  "simulate_price_change current_price change_percent =
     py_round2 (current_price * (1 + change_percent))"

definition calculate_portfolio_value :: "holding dict \<Rightarrow> rat dict \<Rightarrow> rat" where
  "calculate_portfolio_value pf prices =
     fold (\<lambda>(symb, holdings) total.
             case map_of prices symb of
               None \<Rightarrow> total
             | Some p \<Rightarrow> total + of_int (shares holdings) * p) pf 0"

text \<open>The slice \<^verbatim>\<open>xs[:n]\<close>: a negative \<open>n\<close> counts from the end.\<close>

definition py_slice_to :: "'a list \<Rightarrow> int \<Rightarrow> 'a list" where
  "py_slice_to xs n = (if 0 \<le> n then take (nat n) xs else take (length xs - nat (- n)) xs)"

text \<open>
  \<^verbatim>\<open>xs.sort(key=f, reverse=True)\<close>: descending and stable (elements with equal keys keep
  their order), which is a stable ascending sort between two reversals.
\<close>

definition py_sort_reverse :: "('a \<Rightarrow> 'k::linorder) \<Rightarrow> 'a list \<Rightarrow> 'a list" where
  "py_sort_reverse f xs = rev (sort_key f (rev xs))"

subsection \<open>initialize_simulator (lines 297-330)\<close>

text \<open>
  The comprehension \<^verbatim>\<open>{symbol: INITIAL_PRICES[symbol] for symbol in available_stocks}\<close>;
  a symbol missing from the table raises \<^verbatim>\<open>KeyError\<close>.
\<close>

fun seed_prices :: "string list \<Rightarrow> rat dict \<Rightarrow> error + rat dict" where
  "seed_prices [] acc = Inr acc"
| "seed_prices (s # ss) acc =
     (case map_of INITIAL_PRICES s of
        None \<Rightarrow> Inl KeyError
      | Some p \<Rightarrow> seed_prices ss (AList.update s p acc))"

definition initialize_simulator ::
  "string \<Rightarrow> string \<Rightarrow> datetime \<Rightarrow> datetime \<Rightarrow> store \<Rightarrow> (error + InitResponse) \<times> store" where
  "initialize_simulator uid lvl now1 now2 db =
     (if lvl \<notin> set [''beginner'', ''intermediate'', ''advanced''] then (Inl InvalidLevel, db)
      else
        (case map_of initial_balances lvl of
           None \<Rightarrow> (Inl KeyError, db)
         | Some seed \<Rightarrow>
             (case map_of STOCK_DATA lvl of
                None \<Rightarrow> (Inl KeyError, db)
              | Some available_stocks \<Rightarrow>
                  (case seed_prices available_stocks [] of
                     Inl e \<Rightarrow> (Inl e, db)
                   | Inr prices \<Rightarrow>
                       (Inr \<lparr>ir_level = lvl, ir_initial_balance = seed,
                             ir_available_stocks = available_stocks, ir_stock_prices = prices\<rparr>,
                        db\<lparr>simulator_db := (simulator_db db)(uid \<mapsto>
                             \<lparr>user_id = uid, level = lvl, balance = seed, initial_balance = seed,
                              portfolio = [], stock_prices = prices, trade_count = 0,
                              total_pnl = 0, created_at = now1, last_updated = now2\<rparr>)\<rparr>)))))"

subsection \<open>get_simulator_state (lines 332-355)\<close>

definition get_simulator_state :: "string \<Rightarrow> store \<Rightarrow> error + StateResponse" where
  "get_simulator_state uid db =
     (case simulator_db db uid of
        None \<Rightarrow> Inl AccountNotInitialized
      | Some state \<Rightarrow>
          (let portfolio_value = calculate_portfolio_value (portfolio state) (stock_prices state);
               total_value = balance state + portfolio_value;
               pnl = total_value - initial_balance state
           in Inr \<lparr>sr_user_id = uid, sr_level = level state, sr_balance = balance state,
                   sr_portfolio = portfolio state, sr_stock_prices = stock_prices state,
                   sr_portfolio_value = portfolio_value, sr_total_value = total_value,
                   sr_initial_balance = initial_balance state, sr_pnl = pnl,
                   sr_trade_count = trade_count state, sr_last_updated = last_updated state\<rparr>))"

subsection \<open>execute_trade (lines 357-454)\<close>

text \<open>Lines 370-379: the price at which the order executes.\<close>

definition execution_price_of :: "TradeOrder \<Rightarrow> rat \<Rightarrow> error + rat" where
  "execution_price_of order current_price =
     (if order_type order = ''limit'' then
        (case limit_price order of
           None \<Rightarrow> Inl MissingLimitPrice
         | Some lp \<Rightarrow>
             if (action order = ''buy'' \<and> current_price > lp) \<or>
                (action order = ''sell'' \<and> current_price < lp)
             then Inl UnfavorablePrice
             else Inr lp)
      else Inr current_price)"

text \<open>
  Lines 389-401, the ledger update of a buy. The division of line 396 raises
  \<^verbatim>\<open>ZeroDivisionError\<close> when \<^verbatim>\<open>new_shares\<close> is 0, after line 390 has written to the
  portfolio: the portfolio is returned as the exception leaves it.
\<close>

definition apply_buy :: "string \<Rightarrow> int \<Rightarrow> rat \<Rightarrow> holding dict \<Rightarrow> error option \<times> holding dict" where
  "apply_buy symb qty execution_price pf =
     (let pf1 = (if map_of pf symb = None
                 then AList.update symb \<lparr>shares = 0, avg_price = 0\<rparr> pf else pf)
      in case map_of pf1 symb of
           None \<Rightarrow> (Some KeyError, pf1)
         | Some h \<Rightarrow>
             (let current_shares = shares h;
                  current_avg = avg_price h;
                  new_shares = current_shares + qty
              in if new_shares = 0 then (Some ZeroDivisionError, pf1)
                 else (None,
                       AList.update symb
                         \<lparr>shares = new_shares,
                          avg_price = (of_int current_shares * current_avg
                                       + of_int qty * execution_price) / of_int new_shares\<rparr>
                         pf1)))"

text \<open>Lines 408-412, the ledger update of a sell whose guard (line 404) has passed.\<close>

definition apply_sell :: "string \<Rightarrow> int \<Rightarrow> holding \<Rightarrow> holding dict \<Rightarrow> holding dict" where
  "apply_sell symb qty h pf =
     (let h' = h\<lparr>shares := shares h - qty\<rparr>;
          pf1 = AList.update symb h' pf
      in if shares h' = 0 then AList.delete symb pf1 else pf1)"

text \<open>
  Lines 417-454: the journal entry, the counters and the response. Line 436 assigns the
  account's total value to the variable \<^verbatim>\<open>total_value\<close>, which held the value of the trade:
  the journal entry (built before) carries the value of the trade, both \<^verbatim>\<open>"total_value"\<close>
  entries of the response carry the account's total value.
\<close>

definition record_trade ::
  "string \<Rightarrow> TradeOrder \<Rightarrow> rat \<Rightarrow> rat \<Rightarrow> string \<Rightarrow> datetime \<Rightarrow> datetime \<Rightarrow>
   TradingSimulatorState \<Rightarrow> store \<Rightarrow> (error + TradeResponse) \<times> store" where
  "record_trade uid order execution_price total_value new_id now1 now2 state db =
     (let trade = \<lparr>te_id = new_id, te_user_id = uid, te_symbol = symbol order,
                   te_action = action order, te_quantity = quantity order,
                   te_price = execution_price, te_total_value = total_value,
                   te_timestamp = now1, te_order_type = order_type order\<rparr>;
          state1 = state\<lparr>trade_count := trade_count state + 1, last_updated := now2\<rparr>;
          portfolio_value = calculate_portfolio_value (portfolio state1) (stock_prices state1);
          total_value' = balance state1 + portfolio_value;
          pnl = total_value' - initial_balance state1;
          state2 = state1\<lparr>total_pnl := pnl\<rparr>
      in (Inr \<lparr>tr_trade = \<lparr>ts_id = new_id, ts_symbol = symbol order, ts_action = action order,
                           ts_quantity = quantity order, ts_price = execution_price,
                           ts_total_value = total_value'\<rparr>,
               tr_new_balance = balance state2, tr_portfolio = portfolio state2,
               tr_total_value = total_value', tr_pnl = pnl\<rparr>,
          db\<lparr>simulator_db := (simulator_db db)(uid \<mapsto> state2),
             trades_db := trades_db db @ [trade]\<rparr>))"

text \<open>
  The object \<^verbatim>\<open>state\<close> is the one stored in \<^verbatim>\<open>simulator_db\<close>, so an exception raised after a
  write to it leaves the write in the store.
\<close>

definition execute_trade ::
  "string \<Rightarrow> TradeOrder \<Rightarrow> string \<Rightarrow> datetime \<Rightarrow> datetime \<Rightarrow> store \<Rightarrow>
   (error + TradeResponse) \<times> store" where
  "execute_trade uid order new_id now1 now2 db =
     (case simulator_db db uid of
        None \<Rightarrow> (Inl AccountNotInitialized, db)
      | Some state \<Rightarrow>
          (case map_of (stock_prices state) (symbol order) of
             None \<Rightarrow> (Inl SymbolNotTradeable, db)
           | Some current_price \<Rightarrow>
               (case execution_price_of order current_price of
                  Inl e \<Rightarrow> (Inl e, db)
                | Inr execution_price \<Rightarrow>
                    (let total_value = execution_price * of_int (quantity order) in
                     if action order = ''buy'' then
                       (if balance state < total_value then (Inl InsufficientBalance, db)
                        else
                          (let state1 = state\<lparr>balance := balance state - total_value\<rparr> in
                           case apply_buy (symbol order) (quantity order) execution_price
                                  (portfolio state1) of
                             (Some e, pf1) \<Rightarrow>
                               (Inl e, db\<lparr>simulator_db :=
                                  (simulator_db db)(uid \<mapsto> state1\<lparr>portfolio := pf1\<rparr>)\<rparr>)
                           | (None, pf2) \<Rightarrow>
                               record_trade uid order execution_price total_value new_id
                                 now1 now2 (state1\<lparr>portfolio := pf2\<rparr>) db))
                     else if action order = ''sell'' then
                       (case map_of (portfolio state) (symbol order) of
                          None \<Rightarrow> (Inl InsufficientShares, db)
                        | Some h \<Rightarrow>
                            if shares h < quantity order then (Inl InsufficientShares, db)
                            else
                              record_trade uid order execution_price total_value new_id
                                now1 now2
                                (state\<lparr>balance := balance state + total_value,
                                       portfolio := apply_sell (symbol order) (quantity order) h
                                                      (portfolio state)\<rparr>) db)
                     else (Inl InvalidAction, db)))))"

subsection \<open>get_trade_history (lines 456-466)\<close>

text \<open>The default of the parameter \<^verbatim>\<open>limit\<close> (line 457): a call without a limit is a call with 50.\<close>

definition default_limit :: int where
  "default_limit = 50"

definition get_trade_history :: "string \<Rightarrow> int \<Rightarrow> store \<Rightarrow> HistoryResponse" where
  "get_trade_history uid limit db =
     (let user_trades = filter (\<lambda>trade. te_user_id trade = uid) (trades_db db);
          user_trades = py_sort_reverse te_timestamp user_trades
      in \<lparr>hr_user_id = uid, hr_trades = py_slice_to user_trades limit,
          hr_total_trades = length user_trades\<rparr>)"

subsection \<open>update_stock_prices (lines 468-488)\<close>

text \<open>
  The loop of lines 478-479 over the price table; \<open>rnd k\<close> is the \<open>k\<close>-th value that
  \<^verbatim>\<open>random.uniform\<close> returns during the call.
\<close>

fun tick_prices :: "(nat \<Rightarrow> rat) \<Rightarrow> nat \<Rightarrow> rat dict \<Rightarrow> rat dict" where
  "tick_prices rnd k [] = []"
| "tick_prices rnd k ((symb, p) # rest) =
     (symb, simulate_price_change p (rnd k)) # tick_prices rnd (Suc k) rest"

definition update_stock_prices ::
  "string \<Rightarrow> (nat \<Rightarrow> rat) \<Rightarrow> datetime \<Rightarrow> store \<Rightarrow> (error + PricesResponse) \<times> store" where
  "update_stock_prices uid rnd now db =
     (case simulator_db db uid of
        None \<Rightarrow> (Inl AccountNotInitialized, db)
      | Some state \<Rightarrow>
          (let old_prices = stock_prices state;
               state1 = state\<lparr>stock_prices := tick_prices rnd 0 (stock_prices state)\<rparr>;
               state2 = state1\<lparr>last_updated := now\<rparr>
           in (Inr \<lparr>pr_old_prices = old_prices, pr_new_prices = stock_prices state2,
                    pr_timestamp = last_updated state2\<rparr>,
               db\<lparr>simulator_db := (simulator_db db)(uid \<mapsto> state2)\<rparr>)))"

subsection \<open>Sequences of requests\<close>

text \<open>
  A request to one of the five endpoints, with what the endpoint reads from its
  environment; \<open>handle\<close> is the store after the request, whatever the response.
\<close>

datatype request =
    Initialize string string datetime datetime
  | Trade string TradeOrder string datetime datetime
  | UpdatePrices string "nat \<Rightarrow> rat" datetime
  | GetState string
  | GetTrades string int

fun handle :: "request \<Rightarrow> store \<Rightarrow> store" where
  "handle (Initialize uid lvl now1 now2) db = snd (initialize_simulator uid lvl now1 now2 db)"
| "handle (Trade uid order new_id now1 now2) db = snd (execute_trade uid order new_id now1 now2 db)"
| "handle (UpdatePrices uid rnd now) db = snd (update_stock_prices uid rnd now db)"
| "handle (GetState uid) db = db"
| "handle (GetTrades uid limit) db = db"

definition run :: "request list \<Rightarrow> store \<Rightarrow> store" where
  "run reqs db = fold handle reqs db"

text \<open>The store of a process that has just started (lines 104-107).\<close>

definition empty_store :: store where
  "empty_store = \<lparr>simulator_db = Map.empty, trades_db = []\<rparr>"

subsection \<open>Views of the store\<close>

text \<open>
  The holding of a user in a symbol, and the same with an absent holding read as no shares
  at no cost.
\<close>

definition holding_of :: "store \<Rightarrow> string \<Rightarrow> string \<Rightarrow> holding option" where
  "holding_of db uid symb =
     (case simulator_db db uid of None \<Rightarrow> None | Some state \<Rightarrow> map_of (portfolio state) symb)"

definition position :: "store \<Rightarrow> string \<Rightarrow> string \<Rightarrow> int \<times> rat" where
  "position db uid symb =
     (case holding_of db uid symb of None \<Rightarrow> (0, 0) | Some h \<Rightarrow> (shares h, avg_price h))"

subsection \<open>The valuation in the words of the specification\<close>

text \<open>
  Section 4.2 of the specification: the market value is the sum over the holdings of shares
  times the current price of the symbol, a symbol absent from the price table contributing 0.
  It is compared with \<^const>\<open>calculate_portfolio_value\<close> in \<open>calculate_portfolio_value_eq\<close>.
\<close>

definition market_value :: "holding dict \<Rightarrow> rat dict \<Rightarrow> rat" where
  "market_value pf prices =
     (\<Sum>(symb, h) \<leftarrow> pf. case map_of prices symb of None \<Rightarrow> 0 | Some p \<Rightarrow> of_int (shares h) * p)"

text \<open>
  Section 8 of the specification: a reported balance, total value and profit agree with a
  session when the total is the balance plus the market value and the profit is the total
  minus the initial balance.
\<close>

definition consistent_report :: "TradingSimulatorState \<Rightarrow> rat \<Rightarrow> rat \<Rightarrow> rat \<Rightarrow> bool" where
  "consistent_report st bal total_value pnl \<longleftrightarrow>
     bal = balance st \<and>
     total_value = bal + market_value (portfolio st) (stock_prices st) \<and>
     pnl = total_value - initial_balance st"

subsection \<open>Conditions on requests and stores\<close>

text \<open>A journal entry of user \<open>uid\<close> on symbol \<open>symb\<close>.\<close>

definition of_position :: "string \<Rightarrow> string \<Rightarrow> TradeExecution \<Rightarrow> bool" where
  "of_position uid symb t \<longleftrightarrow> te_user_id t = uid \<and> te_symbol t = symb"

text \<open>
  Requests among which no sell of \<open>uid\<close> on \<open>symb\<close> occurs, and no initialisation of \<open>uid\<close>:
  buys of \<open>uid\<close> on \<open>symb\<close>, trades of \<open>uid\<close> on other symbols, requests of other users,
  price ticks and queries.
\<close>

fun no_sell_of :: "string \<Rightarrow> string \<Rightarrow> request \<Rightarrow> bool" where
  "no_sell_of uid symb (Trade u order new_id now1 now2) =
     (u = uid \<and> symbol order = symb \<longrightarrow> action order \<noteq> ''sell'')"
| "no_sell_of uid symb (UpdatePrices u rnd now) = True"
| "no_sell_of uid symb (GetState u) = True"
| "no_sell_of uid symb (GetTrades u limit) = True"
| "no_sell_of uid symb (Initialize u lvl now1 now2) = (u \<noteq> uid)"

text \<open>
  The store \<open>db'\<close> has gained the journal entries \<open>js\<close> over \<open>db\<close>; those of \<open>uid\<close> on \<open>symb\<close>
  are buys, and the position of \<open>uid\<close> in \<open>symb\<close> has moved by them: the shares grew by
  the quantities, and shares times average cost grew by the values paid.
\<close>

definition buys_recorded ::
  "string \<Rightarrow> string \<Rightarrow> store \<Rightarrow> store \<Rightarrow> TradeExecution list \<Rightarrow> bool" where
  "buys_recorded uid symb db db' js \<longleftrightarrow>
     trades_db db' = trades_db db @ js \<and>
     (\<forall>t \<in> set js. of_position uid symb t \<longrightarrow>
        te_action t = ''buy'' \<and> te_total_value t = te_price t * of_int (te_quantity t)) \<and>
     (case (position db uid symb, position db' uid symb) of
        ((s, a), (s', a')) \<Rightarrow>
          s' = s + (\<Sum>t \<leftarrow> filter (of_position uid symb) js. te_quantity t) \<and>
          of_int s' * a' = of_int s * a
            + (\<Sum>t \<leftarrow> filter (of_position uid symb) js. te_total_value t))"

subsection \<open>Example data\<close>

text \<open>
  A scenario at which the theorems below are evaluated: user \<^verbatim>\<open>u1\<close> opens a beginner
  account, buys 5 AAPL at the market (175.50), buys 3 more with a limit of 180 at the same
  clock reading, and sells all 8; or sells the first 5 again; or sells 3 of the first 5 and
  then buys 3 with a limit of 180; or sees prices rise by 2%.
\<close>

definition market_order :: "string \<Rightarrow> string \<Rightarrow> int \<Rightarrow> TradeOrder" where
  "market_order act symb qty =
     \<lparr>symbol = symb, action = act, quantity = qty, order_type = ''market'', limit_price = None\<rparr>"

definition limit_order :: "string \<Rightarrow> string \<Rightarrow> int \<Rightarrow> rat \<Rightarrow> TradeOrder" where
  "limit_order act symb qty lp =
     \<lparr>symbol = symb, action = act, quantity = qty, order_type = ''limit'', limit_price = Some lp\<rparr>"

definition beginner_state :: TradingSimulatorState where
  "beginner_state =
     \<lparr>user_id = ''u1'', level = ''beginner'', balance = 2000, initial_balance = 2000,
      portfolio = [], stock_prices = take 5 INITIAL_PRICES, trade_count = 0, total_pnl = 0,
      created_at = 1, last_updated = 1\<rparr>"

definition fresh_store :: store where
  "fresh_store = snd (initialize_simulator ''u1'' ''beginner'' 1 1 empty_store)"

definition first_trade :: TradeExecution where
  "first_trade =
     \<lparr>te_id = ''t1'', te_user_id = ''u1'', te_symbol = ''AAPL'', te_action = ''buy'',
      te_quantity = 5, te_price = 175.5, te_total_value = 877.5, te_timestamp = 2,
      te_order_type = ''market''\<rparr>"

definition traded_state :: TradingSimulatorState where
  "traded_state =
     \<lparr>user_id = ''u1'', level = ''beginner'', balance = 1122.5, initial_balance = 2000,
      portfolio = [(''AAPL'', \<lparr>shares = 5, avg_price = 175.5\<rparr>)],
      stock_prices = take 5 INITIAL_PRICES, trade_count = 1, total_pnl = 0,
      created_at = 1, last_updated = 2\<rparr>"

definition traded_store :: store where
  "traded_store = snd (execute_trade ''u1'' (market_order ''buy'' ''AAPL'' 5) ''t1'' 2 2 fresh_store)"

definition second_trade :: TradeExecution where
  "second_trade =
     \<lparr>te_id = ''t2'', te_user_id = ''u1'', te_symbol = ''AAPL'', te_action = ''buy'',
      te_quantity = 3, te_price = 180, te_total_value = 540, te_timestamp = 2,
      te_order_type = ''limit''\<rparr>"

definition averaged_state :: TradingSimulatorState where
  "averaged_state =
     \<lparr>user_id = ''u1'', level = ''beginner'', balance = 582.5, initial_balance = 2000,
      portfolio = [(''AAPL'', \<lparr>shares = 8, avg_price = 177.1875\<rparr>)],
      stock_prices = take 5 INITIAL_PRICES, trade_count = 2, total_pnl = - 13.5,
      created_at = 1, last_updated = 2\<rparr>"

definition averaged_store :: store where
  "averaged_store =
     snd (execute_trade ''u1'' (limit_order ''buy'' ''AAPL'' 3 180) ''t2'' 2 2 traded_store)"

definition third_trade :: TradeExecution where
  "third_trade =
     \<lparr>te_id = ''t3'', te_user_id = ''u1'', te_symbol = ''AAPL'', te_action = ''sell'',
      te_quantity = 8, te_price = 175.5, te_total_value = 1404, te_timestamp = 5,
      te_order_type = ''market''\<rparr>"

definition sold_state :: TradingSimulatorState where
  "sold_state =
     \<lparr>user_id = ''u1'', level = ''beginner'', balance = 1986.5, initial_balance = 2000,
      portfolio = [], stock_prices = take 5 INITIAL_PRICES, trade_count = 3,
      total_pnl = - 13.5, created_at = 1, last_updated = 5\<rparr>"

definition sold_store :: store where
  "sold_store =
     snd (execute_trade ''u1'' (market_order ''sell'' ''AAPL'' 8) ''t3'' 5 5 averaged_store)"

definition exit_trade :: TradeExecution where
  "exit_trade =
     \<lparr>te_id = ''t2'', te_user_id = ''u1'', te_symbol = ''AAPL'', te_action = ''sell'',
      te_quantity = 5, te_price = 175.5, te_total_value = 877.5, te_timestamp = 5,
      te_order_type = ''market''\<rparr>"

definition closed_store :: store where
  "closed_store =
     snd (execute_trade ''u1'' (market_order ''sell'' ''AAPL'' 5) ''t2'' 5 5 traded_store)"

definition partial_sale :: TradeExecution where
  "partial_sale =
     \<lparr>te_id = ''t2'', te_user_id = ''u1'', te_symbol = ''AAPL'', te_action = ''sell'',
      te_quantity = 3, te_price = 175.5, te_total_value = 526.5, te_timestamp = 3,
      te_order_type = ''market''\<rparr>"

definition reduced_state :: TradingSimulatorState where
  "reduced_state =
     \<lparr>user_id = ''u1'', level = ''beginner'', balance = 1649, initial_balance = 2000,
      portfolio = [(''AAPL'', \<lparr>shares = 2, avg_price = 175.5\<rparr>)],
      stock_prices = take 5 INITIAL_PRICES, trade_count = 2, total_pnl = 0,
      created_at = 1, last_updated = 3\<rparr>"

definition reduced_store :: store where
  "reduced_store =
     snd (execute_trade ''u1'' (market_order ''sell'' ''AAPL'' 3) ''t2'' 3 3 traded_store)"

definition later_buy :: TradeExecution where
  "later_buy =
     \<lparr>te_id = ''t3'', te_user_id = ''u1'', te_symbol = ''AAPL'', te_action = ''buy'',
      te_quantity = 3, te_price = 180, te_total_value = 540, te_timestamp = 4,
      te_order_type = ''limit''\<rparr>"

definition rebought_state :: TradingSimulatorState where
  "rebought_state =
     \<lparr>user_id = ''u1'', level = ''beginner'', balance = 1109, initial_balance = 2000,
      portfolio = [(''AAPL'', \<lparr>shares = 5, avg_price = 178.2\<rparr>)],
      stock_prices = take 5 INITIAL_PRICES, trade_count = 3, total_pnl = - 13.5,
      created_at = 1, last_updated = 4\<rparr>"

definition rebought_store :: store where
  "rebought_store =
     snd (execute_trade ''u1'' (limit_order ''buy'' ''AAPL'' 3 180) ''t3'' 4 4 reduced_store)"

definition up_two_percent :: "nat \<Rightarrow> rat" where
  "up_two_percent k = 0.02"

definition ticked_prices :: "rat dict" where
  "ticked_prices =
     [(''AAPL'', 179.01), (''GOOGL'', 145.66), (''MSFT'', 386.48), (''AMZN'', 148.21),
      (''TSLA'', 253.67)]"

definition ticked_store :: store where
  "ticked_store = snd (update_stock_prices ''u1'' up_two_percent 3 traded_store)"

section \<open>The simulator over floats with rounding, infinities and NaN\<close>

text \<open>
  The second embedding of \<^verbatim>\<open>initialize_simulator\<close>, \<^verbatim>\<open>execute_trade\<close> and
  \<^verbatim>\<open>update_stock_prices\<close>. It is the first one line by line, with the arithmetic of Python
  in place of the exact arithmetic:
  \<^item> a \<^verbatim>\<open>float\<close> is a finite value, an infinity or NaN (\<^verbatim>\<open>TradeOrder.limit_price\<close> admits
    all of them), compared as IEEE 754 compares them: every comparison with NaN is false;
  \<^item> the result of \<^verbatim>\<open>+\<close>, \<^verbatim>\<open>-\<close>, \<^verbatim>\<open>*\<close> and \<^verbatim>\<open>/\<close> on finite floats is the exact result
    rounded, and the rounding \<open>rnd\<close> is a parameter of every definition: it sends a
    rational to a float, to an infinity where the operation overflows. What is proved for
    every \<open>rnd\<close> holds of the rounding to the nearest double that CPython uses. The sign of
    a zero is not kept: no comparison and no operation of the simulator tells the two
    zeros apart (a division by either raises \<^verbatim>\<open>ZeroDivisionError\<close>);
  \<^item> an \<^verbatim>\<open>int\<close> that meets a float in an operation is converted first, and the conversion
    raises \<^verbatim>\<open>OverflowError\<close> when the rounded value is not finite (line 381, line 396 and
    line 161);
  \<^item> the entry \<^verbatim>\<open>"avg_price"\<close> of a holding is the \<^verbatim>\<open>int\<close> 0 that line 390 writes or the
    float that line 400 writes;
  \<^item> a float literal of the source is the rounded value of its decimal.
  Records and fields carry the names of the first embedding with the suffix \<open>_fl\<close>.
\<close>

subsection \<open>Floats\<close>

datatype pyfloat = Finite rat | PosInf | NegInf | NaN

type_synonym rounding = "rat \<Rightarrow> pyfloat"

text \<open>The comparisons \<^verbatim>\<open>a < b\<close> and \<^verbatim>\<open>a <= b\<close>; \<^verbatim>\<open>a > b\<close> is \<^verbatim>\<open>b < a\<close>.\<close>

fun flt :: "pyfloat \<Rightarrow> pyfloat \<Rightarrow> bool" where
  "flt (Finite x) (Finite y) = (x < y)"
| "flt (Finite x) PosInf = True"
| "flt NegInf (Finite y) = True"
| "flt NegInf PosInf = True"
| "flt a b = False"

fun fle :: "pyfloat \<Rightarrow> pyfloat \<Rightarrow> bool" where
  "fle (Finite x) (Finite y) = (x \<le> y)"
| "fle NaN b = False"
| "fle a NaN = False"
| "fle NegInf b = True"
| "fle a PosInf = True"
| "fle a b = False"

fun is_negative :: "pyfloat \<Rightarrow> bool" where
  "is_negative (Finite x) = (x < 0)"
| "is_negative NegInf = True"
| "is_negative a = False"

fun fneg :: "pyfloat \<Rightarrow> pyfloat" where
  "fneg (Finite x) = Finite (- x)"
| "fneg PosInf = NegInf"
| "fneg NegInf = PosInf"
| "fneg NaN = NaN"

fun fadd :: "rounding \<Rightarrow> pyfloat \<Rightarrow> pyfloat \<Rightarrow> pyfloat" where
  "fadd rnd (Finite x) (Finite y) = rnd (x + y)"
| "fadd rnd NaN b = NaN"
| "fadd rnd a NaN = NaN"
| "fadd rnd PosInf NegInf = NaN"
| "fadd rnd NegInf PosInf = NaN"
| "fadd rnd PosInf b = PosInf"
| "fadd rnd a PosInf = PosInf"
| "fadd rnd NegInf b = NegInf"
| "fadd rnd a NegInf = NegInf"

definition fsub :: "rounding \<Rightarrow> pyfloat \<Rightarrow> pyfloat \<Rightarrow> pyfloat" where
  "fsub rnd a b = fadd rnd a (fneg b)"

text \<open>A product with an infinity: NaN if the other factor is zero, else the infinity of the
  sign of the product.\<close>

fun fmul :: "rounding \<Rightarrow> pyfloat \<Rightarrow> pyfloat \<Rightarrow> pyfloat" where
  "fmul rnd (Finite x) (Finite y) = rnd (x * y)"
| "fmul rnd NaN b = NaN"
| "fmul rnd a NaN = NaN"
| "fmul rnd a b =
     (if a = Finite 0 \<or> b = Finite 0 then NaN
      else if is_negative a = is_negative b then PosInf else NegInf)"

text \<open>The quotient \<^verbatim>\<open>a / b\<close> for a divisor other than zero.\<close>

fun fdiv :: "rounding \<Rightarrow> pyfloat \<Rightarrow> pyfloat \<Rightarrow> pyfloat" where
  "fdiv rnd (Finite x) (Finite y) = rnd (x / y)"
| "fdiv rnd NaN b = NaN"
| "fdiv rnd a NaN = NaN"
| "fdiv rnd (Finite x) b = Finite 0"
| "fdiv rnd a (Finite y) = (if is_negative a = (y < 0) then PosInf else NegInf)"
| "fdiv rnd a b = NaN"

text \<open>
  The conversion of an \<^verbatim>\<open>int\<close> operand (\<^verbatim>\<open>PyLong_AsDouble\<close>): the rounded value, or
  \<^verbatim>\<open>OverflowError\<close> (\<^verbatim>\<open>int too large to convert to float\<close>).
\<close>

definition to_float :: "rounding \<Rightarrow> int \<Rightarrow> error + pyfloat" where
  "to_float rnd n = (case rnd (of_int n) of Finite x \<Rightarrow> Inr (Finite x) | _ \<Rightarrow> Inl OverflowError)"

text \<open>
  \<^verbatim>\<open>round(x, 2)\<close> of a float: the decimal nearest to the exact value of \<open>x\<close>
  (\<^const>\<open>py_round2\<close>), rounded to a float; an infinity and NaN round to themselves.
\<close>

fun round2 :: "rounding \<Rightarrow> pyfloat \<Rightarrow> pyfloat" where
  "round2 rnd (Finite x) = rnd (py_round2 x)"
| "round2 rnd a = a"

text \<open>
  A value of type \<^verbatim>\<open>int\<close> or \<^verbatim>\<open>float\<close>, and the three operations of line 396 on it:
  \<^verbatim>\<open>n * v\<close> for an \<^verbatim>\<open>int\<close> \<open>n\<close>, \<^verbatim>\<open>v + f\<close> for a float \<open>f\<close>, and \<^verbatim>\<open>f / n\<close>, which converts \<open>n\<close>
  and then raises \<^verbatim>\<open>ZeroDivisionError\<close> for a zero divisor.
\<close>

datatype number = PyInt int | PyFloat pyfloat

definition int_times :: "rounding \<Rightarrow> int \<Rightarrow> number \<Rightarrow> error + number" where
  "int_times rnd n v =
     (case v of
        PyInt m \<Rightarrow> Inr (PyInt (n * m))
      | PyFloat f \<Rightarrow>
          (case to_float rnd n of
             Inl e \<Rightarrow> Inl e
           | Inr x \<Rightarrow> Inr (PyFloat (fmul rnd x f))))"

definition number_plus :: "rounding \<Rightarrow> number \<Rightarrow> pyfloat \<Rightarrow> error + pyfloat" where
  "number_plus rnd v f =
     (case v of
        PyInt m \<Rightarrow>
          (case to_float rnd m of
             Inl e \<Rightarrow> Inl e
           | Inr x \<Rightarrow> Inr (fadd rnd x f))
      | PyFloat g \<Rightarrow> Inr (fadd rnd g f))"

definition float_div_int :: "rounding \<Rightarrow> pyfloat \<Rightarrow> int \<Rightarrow> error + pyfloat" where
  "float_div_int rnd f n =
     (case to_float rnd n of
        Inl e \<Rightarrow> Inl e
      | Inr d \<Rightarrow> if d = Finite 0 then Inl ZeroDivisionError else Inr (fdiv rnd f d))"

text \<open>
  The rounding that overflows where the rounding to the nearest double does, at
  \<open>2\<^sup>1\<^sup>0\<^sup>2\<^sup>4 - 2\<^sup>9\<^sup>7\<^sup>0\<close>, and is exact below: it agrees with the rounding to the nearest double
  wherever the exact result is a double. The examples are evaluated with it, on orders for
  AAPL: the price 175.50 and the quantities, costs, proceeds and balances computed there
  are doubles.
\<close>

definition overflow_threshold :: rat where
  "overflow_threshold = 2 ^ 1024 - 2 ^ 970"

definition within_range :: rounding where
  "within_range x =
     (if overflow_threshold \<le> \<bar>x\<bar> then (if 0 < x then PosInf else NegInf) else Finite x)"

subsection \<open>Data model (lines 32-60)\<close>

record holding_fl =
  shares_fl :: int
  avg_price_fl :: number

record TradingSimulatorState_fl =
  user_id_fl :: string
  level_fl :: string
  balance_fl :: pyfloat
  initial_balance_fl :: pyfloat
  portfolio_fl :: "holding_fl dict"
  stock_prices_fl :: "pyfloat dict"
  trade_count_fl :: int
  total_pnl_fl :: pyfloat
  created_at_fl :: datetime
  last_updated_fl :: datetime

record TradeOrder_fl =
  symbol_fl :: string
  action_fl :: string
  quantity_fl :: int
  order_type_fl :: string
  limit_price_fl :: "pyfloat option"

record TradeExecution_fl =
  te_id_fl :: string
  te_user_id_fl :: string
  te_symbol_fl :: string
  te_action_fl :: string
  te_quantity_fl :: int
  te_price_fl :: pyfloat
  te_total_value_fl :: pyfloat
  te_timestamp_fl :: datetime
  te_order_type_fl :: string

record store_fl =
  simulator_db_fl :: "string \<rightharpoonup> TradingSimulatorState_fl"
  trades_db_fl :: "TradeExecution_fl list"

record InitResponse_fl =
  ir_level_fl :: string
  ir_initial_balance_fl :: int
  ir_available_stocks_fl :: "string list"
  ir_stock_prices_fl :: "pyfloat dict"

record TradeSummary_fl =
  ts_id_fl :: string
  ts_symbol_fl :: string
  ts_action_fl :: string
  ts_quantity_fl :: int
  ts_price_fl :: pyfloat
  ts_total_value_fl :: pyfloat

record TradeResponse_fl =
  tr_trade_fl :: TradeSummary_fl
  tr_new_balance_fl :: pyfloat
  tr_portfolio_fl :: "holding_fl dict"
  tr_total_value_fl :: pyfloat
  tr_pnl_fl :: pyfloat

record PricesResponse_fl =
  pr_old_prices_fl :: "pyfloat dict"
  pr_new_prices_fl :: "pyfloat dict"
  pr_timestamp_fl :: datetime

subsection \<open>Helper functions (lines 151-162)\<close>

text \<open>
  \<^verbatim>\<open>simulate_price_change\<close>; \<open>change_percent\<close> is the value that \<^verbatim>\<open>random.uniform\<close> returns,
  a finite float. In \<^verbatim>\<open>1 + change_percent\<close> the \<^verbatim>\<open>int\<close> 1 is converted to the float 1.
\<close>

definition simulate_price_change_fl :: "rounding \<Rightarrow> pyfloat \<Rightarrow> rat \<Rightarrow> pyfloat" where
  "simulate_price_change_fl rnd current_price change_percent =
     round2 rnd (fmul rnd current_price (fadd rnd (Finite 1) (Finite change_percent)))"

text \<open>
  \<^verbatim>\<open>calculate_portfolio_value\<close>: the loop of lines 159-161 from the running total \<open>subtotal\<close>; the product
  of line 161 converts the \<^verbatim>\<open>int\<close> \<^verbatim>\<open>shares\<close>.
\<close>

fun portfolio_value_from ::
  "rounding \<Rightarrow> holding_fl dict \<Rightarrow> pyfloat dict \<Rightarrow> pyfloat \<Rightarrow> error + pyfloat" where
  "portfolio_value_from rnd [] prices subtotal = Inr subtotal"
| "portfolio_value_from rnd ((symb, holdings) # rest) prices subtotal =
     (case map_of prices symb of
        None \<Rightarrow> portfolio_value_from rnd rest prices subtotal
      | Some p \<Rightarrow>
          (case to_float rnd (shares_fl holdings) of
             Inl e \<Rightarrow> Inl e
           | Inr s \<Rightarrow> portfolio_value_from rnd rest prices (fadd rnd subtotal (fmul rnd s p))))"

definition calculate_portfolio_value_fl ::
  "rounding \<Rightarrow> holding_fl dict \<Rightarrow> pyfloat dict \<Rightarrow> error + pyfloat" where
  "calculate_portfolio_value_fl rnd pf prices = portfolio_value_from rnd pf prices (Finite 0)"

subsection \<open>initialize_simulator (lines 297-330)\<close>

text \<open>The seeds of line 304 are of type \<^verbatim>\<open>int\<close>; the entries of \<^verbatim>\<open>INITIAL_PRICES\<close> are float
  literals.\<close>

definition initial_balances_fl :: "int dict" where
  "initial_balances_fl = [(''beginner'', 2000), (''intermediate'', 5000), (''advanced'', 10000)]"

fun seed_prices_fl :: "rounding \<Rightarrow> string list \<Rightarrow> pyfloat dict \<Rightarrow> error + pyfloat dict" where
  "seed_prices_fl rnd [] acc = Inr acc"
| "seed_prices_fl rnd (s # ss) acc =
     (case map_of INITIAL_PRICES s of
        None \<Rightarrow> Inl KeyError
      | Some p \<Rightarrow> seed_prices_fl rnd ss (AList.update s (rnd p) acc))"

text \<open>
  The model \<^verbatim>\<open>TradingSimulatorState\<close> converts the seed to the float of the same value (the
  three seeds are doubles).
\<close>

definition initialize_simulator_fl ::
  "rounding \<Rightarrow> string \<Rightarrow> string \<Rightarrow> datetime \<Rightarrow> datetime \<Rightarrow> store_fl \<Rightarrow>
   (error + InitResponse_fl) \<times> store_fl" where
  "initialize_simulator_fl rnd uid lvl now1 now2 db =
     (if lvl \<notin> set [''beginner'', ''intermediate'', ''advanced''] then (Inl InvalidLevel, db)
      else
        (case map_of initial_balances_fl lvl of
           None \<Rightarrow> (Inl KeyError, db)
         | Some seed \<Rightarrow>
             (case map_of STOCK_DATA lvl of
                None \<Rightarrow> (Inl KeyError, db)
              | Some available_stocks \<Rightarrow>
                  (case seed_prices_fl rnd available_stocks [] of
                     Inl e \<Rightarrow> (Inl e, db)
                   | Inr prices \<Rightarrow>
                       (Inr \<lparr>ir_level_fl = lvl, ir_initial_balance_fl = seed,
                             ir_available_stocks_fl = available_stocks,
                             ir_stock_prices_fl = prices\<rparr>,
                        db\<lparr>simulator_db_fl := (simulator_db_fl db)(uid \<mapsto>
                             \<lparr>user_id_fl = uid, level_fl = lvl,
                              balance_fl = Finite (of_int seed),
                              initial_balance_fl = Finite (of_int seed),
                              portfolio_fl = [], stock_prices_fl = prices, trade_count_fl = 0,
                              total_pnl_fl = Finite 0, created_at_fl = now1,
                              last_updated_fl = now2\<rparr>)\<rparr>)))))"

subsection \<open>execute_trade (lines 357-454)\<close>

text \<open>Lines 370-379: \<^verbatim>\<open>current_price > order.limit_price\<close> is \<open>flt lp current_price\<close>.\<close>

definition execution_price_fl :: "TradeOrder_fl \<Rightarrow> pyfloat \<Rightarrow> error + pyfloat" where
  "execution_price_fl order current_price =
     (if order_type_fl order = ''limit'' then
        (case limit_price_fl order of
           None \<Rightarrow> Inl MissingLimitPrice
         | Some lp \<Rightarrow>
             if (action_fl order = ''buy'' \<and> flt lp current_price) \<or>
                (action_fl order = ''sell'' \<and> flt current_price lp)
             then Inl UnfavorablePrice
             else Inr lp)
      else Inr current_price)"

text \<open>
  Line 396, evaluated from left to right: \<^verbatim>\<open>current_shares * current_avg\<close>,
  \<^verbatim>\<open>order.quantity * execution_price\<close>, their sum, and the quotient by \<^verbatim>\<open>new_shares\<close>.
\<close>

definition new_avg_of ::
  "rounding \<Rightarrow> int \<Rightarrow> number \<Rightarrow> int \<Rightarrow> pyfloat \<Rightarrow> int \<Rightarrow> error + pyfloat" where
  "new_avg_of rnd current_shares current_avg qty execution_price new_shares =
     (case int_times rnd current_shares current_avg of
        Inl e \<Rightarrow> Inl e
      | Inr old_cost \<Rightarrow>
          (case to_float rnd qty of
             Inl e \<Rightarrow> Inl e
           | Inr q \<Rightarrow>
               (case number_plus rnd old_cost (fmul rnd q execution_price) of
                  Inl e \<Rightarrow> Inl e
                | Inr cost \<Rightarrow> float_div_int rnd cost new_shares)))"

text \<open>
  Lines 389-401, the ledger update of a buy; an exception of line 396 leaves the portfolio
  as line 390 has written it.
\<close>

definition apply_buy_fl ::
  "rounding \<Rightarrow> string \<Rightarrow> int \<Rightarrow> pyfloat \<Rightarrow> holding_fl dict \<Rightarrow> error option \<times> holding_fl dict" where
  "apply_buy_fl rnd symb qty execution_price pf =
     (let pf1 = (if map_of pf symb = None
                 then AList.update symb \<lparr>shares_fl = 0, avg_price_fl = PyInt 0\<rparr> pf else pf)
      in case map_of pf1 symb of
           None \<Rightarrow> (Some KeyError, pf1)
         | Some h \<Rightarrow>
             (let current_shares = shares_fl h;
                  current_avg = avg_price_fl h;
                  new_shares = current_shares + qty
              in case new_avg_of rnd current_shares current_avg qty execution_price new_shares of
                   Inl e \<Rightarrow> (Some e, pf1)
                 | Inr new_avg \<Rightarrow>
                     (None,
                      AList.update symb
                        \<lparr>shares_fl = new_shares, avg_price_fl = PyFloat new_avg\<rparr> pf1)))"

text \<open>Lines 408-412, the ledger update of a sell whose guard (line 404) has passed.\<close>

definition apply_sell_fl :: "string \<Rightarrow> int \<Rightarrow> holding_fl \<Rightarrow> holding_fl dict \<Rightarrow> holding_fl dict" where
  "apply_sell_fl symb qty h pf =
     (let h' = h\<lparr>shares_fl := shares_fl h - qty\<rparr>;
          pf1 = AList.update symb h' pf
      in if shares_fl h' = 0 then AList.delete symb pf1 else pf1)"

text \<open>
  Lines 417-454. The journal entry is appended (line 429) and the counters are written
  (lines 432-433) before the valuation of line 435, whose \<^verbatim>\<open>OverflowError\<close> leaves them
  written.
\<close>

definition record_trade_fl ::
  "rounding \<Rightarrow> string \<Rightarrow> TradeOrder_fl \<Rightarrow> pyfloat \<Rightarrow> pyfloat \<Rightarrow> string \<Rightarrow> datetime \<Rightarrow> datetime \<Rightarrow>
   TradingSimulatorState_fl \<Rightarrow> store_fl \<Rightarrow> (error + TradeResponse_fl) \<times> store_fl" where
  "record_trade_fl rnd uid order execution_price total_value new_id now1 now2 state db =
     (let trade = \<lparr>te_id_fl = new_id, te_user_id_fl = uid, te_symbol_fl = symbol_fl order,
                   te_action_fl = action_fl order, te_quantity_fl = quantity_fl order,
                   te_price_fl = execution_price, te_total_value_fl = total_value,
                   te_timestamp_fl = now1, te_order_type_fl = order_type_fl order\<rparr>;
          db1 = db\<lparr>trades_db_fl := trades_db_fl db @ [trade]\<rparr>;
          state1 = state\<lparr>trade_count_fl := trade_count_fl state + 1, last_updated_fl := now2\<rparr>
      in case calculate_portfolio_value_fl rnd (portfolio_fl state1) (stock_prices_fl state1) of
           Inl e \<Rightarrow> (Inl e, db1\<lparr>simulator_db_fl := (simulator_db_fl db1)(uid \<mapsto> state1)\<rparr>)
         | Inr portfolio_value \<Rightarrow>
             (let total_value' = fadd rnd (balance_fl state1) portfolio_value;
                  pnl = fsub rnd total_value' (initial_balance_fl state1);
                  state2 = state1\<lparr>total_pnl_fl := pnl\<rparr>
              in (Inr \<lparr>tr_trade_fl =
                         \<lparr>ts_id_fl = new_id, ts_symbol_fl = symbol_fl order,
                          ts_action_fl = action_fl order, ts_quantity_fl = quantity_fl order,
                          ts_price_fl = execution_price, ts_total_value_fl = total_value'\<rparr>,
                       tr_new_balance_fl = balance_fl state2,
                       tr_portfolio_fl = portfolio_fl state2,
                       tr_total_value_fl = total_value', tr_pnl_fl = pnl\<rparr>,
                  db1\<lparr>simulator_db_fl := (simulator_db_fl db1)(uid \<mapsto> state2)\<rparr>)))"

definition execute_trade_fl ::
  "rounding \<Rightarrow> string \<Rightarrow> TradeOrder_fl \<Rightarrow> string \<Rightarrow> datetime \<Rightarrow> datetime \<Rightarrow> store_fl \<Rightarrow>
   (error + TradeResponse_fl) \<times> store_fl" where
  "execute_trade_fl rnd uid order new_id now1 now2 db =
     (case simulator_db_fl db uid of
        None \<Rightarrow> (Inl AccountNotInitialized, db)
      | Some state \<Rightarrow>
          (case map_of (stock_prices_fl state) (symbol_fl order) of
             None \<Rightarrow> (Inl SymbolNotTradeable, db)
           | Some current_price \<Rightarrow>
               (case execution_price_fl order current_price of
                  Inl e \<Rightarrow> (Inl e, db)
                | Inr execution_price \<Rightarrow>
                    (case to_float rnd (quantity_fl order) of
                       Inl e \<Rightarrow> (Inl e, db)
                     | Inr qty \<Rightarrow>
                         (let total_value = fmul rnd execution_price qty in
                          if action_fl order = ''buy'' then
                            (if flt (balance_fl state) total_value
                             then (Inl InsufficientBalance, db)
                             else
                               (let state1 = state\<lparr>balance_fl :=
                                                     fsub rnd (balance_fl state) total_value\<rparr> in
                                case apply_buy_fl rnd (symbol_fl order) (quantity_fl order)
                                       execution_price (portfolio_fl state1) of
                                  (Some e, pf1) \<Rightarrow>
                                    (Inl e, db\<lparr>simulator_db_fl :=
                                       (simulator_db_fl db)(uid \<mapsto> state1\<lparr>portfolio_fl := pf1\<rparr>)\<rparr>)
                                | (None, pf2) \<Rightarrow>
                                    record_trade_fl rnd uid order execution_price total_value
                                      new_id now1 now2 (state1\<lparr>portfolio_fl := pf2\<rparr>) db))
                          else if action_fl order = ''sell'' then
                            (case map_of (portfolio_fl state) (symbol_fl order) of
                               None \<Rightarrow> (Inl InsufficientShares, db)
                             | Some h \<Rightarrow>
                                 if shares_fl h < quantity_fl order
                                 then (Inl InsufficientShares, db)
                                 else
                                   record_trade_fl rnd uid order execution_price total_value
                                     new_id now1 now2
                                     (state\<lparr>balance_fl := fadd rnd (balance_fl state) total_value,
                                            portfolio_fl :=
                                              apply_sell_fl (symbol_fl order) (quantity_fl order) h
                                                (portfolio_fl state)\<rparr>) db)
                          else (Inl InvalidAction, db))))))"

subsection \<open>update_stock_prices (lines 468-488)\<close>

fun tick_prices_fl :: "rounding \<Rightarrow> (nat \<Rightarrow> rat) \<Rightarrow> nat \<Rightarrow> pyfloat dict \<Rightarrow> pyfloat dict" where
  "tick_prices_fl rnd draw k [] = []"
| "tick_prices_fl rnd draw k ((symb, p) # rest) =
     (symb, simulate_price_change_fl rnd p (draw k)) # tick_prices_fl rnd draw (Suc k) rest"

definition update_stock_prices_fl ::
  "rounding \<Rightarrow> string \<Rightarrow> (nat \<Rightarrow> rat) \<Rightarrow> datetime \<Rightarrow> store_fl \<Rightarrow>
   (error + PricesResponse_fl) \<times> store_fl" where
  "update_stock_prices_fl rnd uid draw now db =
     (case simulator_db_fl db uid of
        None \<Rightarrow> (Inl AccountNotInitialized, db)
      | Some state \<Rightarrow>
          (let old_prices = stock_prices_fl state;
               state1 = state\<lparr>stock_prices_fl := tick_prices_fl rnd draw 0 (stock_prices_fl state)\<rparr>;
               state2 = state1\<lparr>last_updated_fl := now\<rparr>
           in (Inr \<lparr>pr_old_prices_fl = old_prices, pr_new_prices_fl = stock_prices_fl state2,
                    pr_timestamp_fl = last_updated_fl state2\<rparr>,
               db\<lparr>simulator_db_fl := (simulator_db_fl db)(uid \<mapsto> state2)\<rparr>)))"

subsection \<open>Sequences of requests\<close>

text \<open>
  The requests of the first embedding; the two queries (\<^verbatim>\<open>get_simulator_state\<close>,
  \<^verbatim>\<open>get_trade_history\<close>) write nothing to the store.
\<close>

datatype request_fl =
    Initialize_fl string string datetime datetime
  | Trade_fl string TradeOrder_fl string datetime datetime
  | UpdatePrices_fl string "nat \<Rightarrow> rat" datetime
  | GetState_fl string
  | GetTrades_fl string int

fun handle_fl :: "rounding \<Rightarrow> request_fl \<Rightarrow> store_fl \<Rightarrow> store_fl" where
  "handle_fl rnd (Initialize_fl uid lvl now1 now2) db =
     snd (initialize_simulator_fl rnd uid lvl now1 now2 db)"
| "handle_fl rnd (Trade_fl uid order new_id now1 now2) db =
     snd (execute_trade_fl rnd uid order new_id now1 now2 db)"
| "handle_fl rnd (UpdatePrices_fl uid draw now) db = snd (update_stock_prices_fl rnd uid draw now db)"
| "handle_fl rnd (GetState_fl uid) db = db"
| "handle_fl rnd (GetTrades_fl uid limit) db = db"

definition run_fl :: "rounding \<Rightarrow> request_fl list \<Rightarrow> store_fl \<Rightarrow> store_fl" where
  "run_fl rnd reqs db = fold (handle_fl rnd) reqs db"

definition empty_store_fl :: store_fl where
  "empty_store_fl = \<lparr>simulator_db_fl = Map.empty, trades_db_fl = []\<rparr>"

subsection \<open>Views of the store\<close>

text \<open>
  Lines 360-381 on their own: the price at which an order would execute and its quantity as
  a float, or the error of the checks that come before the ledger is read (account missing,
  symbol not tradeable, limit price missing, limit price not favourable, quantity too
  large for a float).
\<close>

definition fill_of :: "rounding \<Rightarrow> store_fl \<Rightarrow> string \<Rightarrow> TradeOrder_fl \<Rightarrow> error + pyfloat \<times> pyfloat" where
  "fill_of rnd db uid order =
     (case simulator_db_fl db uid of
        None \<Rightarrow> Inl AccountNotInitialized
      | Some state \<Rightarrow>
          (case map_of (stock_prices_fl state) (symbol_fl order) of
             None \<Rightarrow> Inl SymbolNotTradeable
           | Some current_price \<Rightarrow>
               (case execution_price_fl order current_price of
                  Inl e \<Rightarrow> Inl e
                | Inr execution_price \<Rightarrow>
                    (case to_float rnd (quantity_fl order) of
                       Inl e \<Rightarrow> Inl e
                     | Inr qty \<Rightarrow> Inr (execution_price, qty)))))"

definition holding_of_fl :: "store_fl \<Rightarrow> string \<Rightarrow> string \<Rightarrow> holding_fl option" where
  "holding_of_fl db uid symb =
     (case simulator_db_fl db uid of None \<Rightarrow> None | Some state \<Rightarrow> map_of (portfolio_fl state) symb)"

definition balance_of_fl :: "store_fl \<Rightarrow> string \<Rightarrow> pyfloat option" where
  "balance_of_fl db uid = map_option balance_fl (simulator_db_fl db uid)"

subsection \<open>Conditions on requests and stores\<close>

text \<open>A float is not negative when \<^verbatim>\<open>a < 0\<close> is false: a finite value from 0 on, the positive
  infinity, or NaN.\<close>

definition not_negative :: "pyfloat \<Rightarrow> bool" where
  "not_negative a \<longleftrightarrow> \<not> flt a (Finite 0)"

text \<open>A rounding keeps the sign when it sends no rational from 0 on to a negative float, as
  the rounding to the nearest double does.\<close>

definition keeps_sign :: "rounding \<Rightarrow> bool" where
  "keeps_sign rnd \<longleftrightarrow> (\<forall>x. 0 \<le> x \<longrightarrow> not_negative (rnd x))"

text \<open>
  A request is admissible when, if it is a sell order, its quantity is not negative and its
  limit price (for a limit order that gives one) is not negative, and, if it is a price tick,
  no draw is below -1 (\<^verbatim>\<open>random.uniform(-0.02, 0.02)\<close> returns floats between the two
  bounds). Buy orders, initialisations and queries are always admissible.
\<close>

fun admissible_fl :: "request_fl \<Rightarrow> bool" where
  "admissible_fl (Trade_fl uid order new_id now1 now2) =
     (action_fl order = ''sell'' \<longrightarrow>
        0 \<le> quantity_fl order \<and>
        (case limit_price_fl order of
           None \<Rightarrow> True
         | Some lp \<Rightarrow> order_type_fl order = ''limit'' \<longrightarrow> not_negative lp))"
| "admissible_fl (UpdatePrices_fl uid draw now) = (\<forall>k. - 1 \<le> draw k)"
| "admissible_fl (Initialize_fl uid lvl now1 now2) = True"
| "admissible_fl (GetState_fl uid) = True"
| "admissible_fl (GetTrades_fl uid limit) = True"

definition not_negative_store :: "store_fl \<Rightarrow> bool" where
  "not_negative_store db \<longleftrightarrow>
     (\<forall>uid st. simulator_db_fl db uid = Some st \<longrightarrow>
        not_negative (balance_fl st) \<and> (\<forall>(s, p) \<in> set (stock_prices_fl st). not_negative p))"

subsection \<open>Example data\<close>

definition market_order_fl :: "string \<Rightarrow> string \<Rightarrow> int \<Rightarrow> TradeOrder_fl" where
  "market_order_fl act symb qty =
     \<lparr>symbol_fl = symb, action_fl = act, quantity_fl = qty, order_type_fl = ''market'',
      limit_price_fl = None\<rparr>"

definition limit_order_fl :: "string \<Rightarrow> string \<Rightarrow> int \<Rightarrow> pyfloat \<Rightarrow> TradeOrder_fl" where
  "limit_order_fl act symb qty lp =
     \<lparr>symbol_fl = symb, action_fl = act, quantity_fl = qty, order_type_fl = ''limit'',
      limit_price_fl = Some lp\<rparr>"

definition beginner_prices_fl :: "pyfloat dict" where
  "beginner_prices_fl =
     [(''AAPL'', Finite 175.50), (''GOOGL'', Finite 142.80), (''MSFT'', Finite 378.90),
      (''AMZN'', Finite 145.30), (''TSLA'', Finite 248.70)]"

definition beginner_state_fl :: TradingSimulatorState_fl where
  "beginner_state_fl =
     \<lparr>user_id_fl = ''u1'', level_fl = ''beginner'', balance_fl = Finite 2000,
      initial_balance_fl = Finite 2000, portfolio_fl = [], stock_prices_fl = beginner_prices_fl,
      trade_count_fl = 0, total_pnl_fl = Finite 0, created_at_fl = 1, last_updated_fl = 1\<rparr>"

definition fresh_store_fl :: store_fl where
  "fresh_store_fl = \<lparr>simulator_db_fl = [''u1'' \<mapsto> beginner_state_fl], trades_db_fl = []\<rparr>"

definition first_trade_fl :: TradeExecution_fl where
  "first_trade_fl =
     \<lparr>te_id_fl = ''t1'', te_user_id_fl = ''u1'', te_symbol_fl = ''AAPL'', te_action_fl = ''buy'',
      te_quantity_fl = 5, te_price_fl = Finite 175.5, te_total_value_fl = Finite 877.5,
      te_timestamp_fl = 2, te_order_type_fl = ''market''\<rparr>"

definition traded_state_fl :: TradingSimulatorState_fl where
  "traded_state_fl =
     \<lparr>user_id_fl = ''u1'', level_fl = ''beginner'', balance_fl = Finite 1122.5,
      initial_balance_fl = Finite 2000,
      portfolio_fl = [(''AAPL'', \<lparr>shares_fl = 5, avg_price_fl = PyFloat (Finite 175.5)\<rparr>)],
      stock_prices_fl = beginner_prices_fl, trade_count_fl = 1, total_pnl_fl = Finite 0,
      created_at_fl = 1, last_updated_fl = 2\<rparr>"

definition traded_store_fl :: store_fl where
  "traded_store_fl =
     \<lparr>simulator_db_fl = [''u1'' \<mapsto> traded_state_fl], trades_db_fl = [first_trade_fl]\<rparr>"

section \<open>Properties of the exact embedding\<close>

subsection \<open>The static tables and the seeding of an account\<close>

lemma seed_prices_beginner: "seed_prices beginner_stocks [] = Inr (take 5 INITIAL_PRICES)"
  by (simp add: beginner_stocks_def INITIAL_PRICES_def)

lemma seed_prices_intermediate: "seed_prices intermediate_stocks [] = Inr (take 15 INITIAL_PRICES)"
  by (simp add: intermediate_stocks_def beginner_stocks_def INITIAL_PRICES_def)

lemma seed_prices_advanced: "seed_prices advanced_stocks [] = Inr INITIAL_PRICES"
  by (simp add: advanced_stocks_def intermediate_stocks_def beginner_stocks_def INITIAL_PRICES_def)

lemma distinct_INITIAL_PRICES: "distinct (map fst INITIAL_PRICES)"
  by (simp add: INITIAL_PRICES_def)

lemma keys_beginner: "map fst (take 5 INITIAL_PRICES) = beginner_stocks"
  by (simp add: beginner_stocks_def INITIAL_PRICES_def)

lemma keys_intermediate: "map fst (take 15 INITIAL_PRICES) = intermediate_stocks"
  by (simp add: intermediate_stocks_def beginner_stocks_def INITIAL_PRICES_def)

lemma keys_advanced: "map fst INITIAL_PRICES = advanced_stocks"
  by (simp add: advanced_stocks_def intermediate_stocks_def beginner_stocks_def INITIAL_PRICES_def)

lemma take_INITIAL_PRICES:
  "(s, p) \<in> set (take n INITIAL_PRICES) \<Longrightarrow> map_of INITIAL_PRICES s = Some p"
  using distinct_INITIAL_PRICES by (meson in_set_takeD map_of_is_SomeI)

lemma initialize_simulator_valid:
  assumes "lvl \<in> {''beginner'', ''intermediate'', ''advanced''}"
    and "map_of initial_balances lvl = Some seed"
    and "map_of STOCK_DATA lvl = Some stocks"
    and "seed_prices stocks [] = Inr prices"
  shows "initialize_simulator uid lvl now1 now2 db =
           (Inr \<lparr>ir_level = lvl, ir_initial_balance = seed,
                 ir_available_stocks = stocks, ir_stock_prices = prices\<rparr>,
            db\<lparr>simulator_db := (simulator_db db)(uid \<mapsto>
                 \<lparr>user_id = uid, level = lvl, balance = seed, initial_balance = seed,
                  portfolio = [], stock_prices = prices, trade_count = 0,
                  total_pnl = 0, created_at = now1, last_updated = now2\<rparr>)\<rparr>)"
  using assms by (simp add: initialize_simulator_def)

lemma level_tables:
  assumes "lvl \<in> {''beginner'', ''intermediate'', ''advanced''}"
  obtains seed stocks prices where
    "map_of initial_balances lvl = Some seed"
    "seed = (if lvl = ''beginner'' then 2000 else if lvl = ''intermediate'' then 5000 else 10000)"
    "map_of STOCK_DATA lvl = Some stocks"
    "seed_prices stocks [] = Inr prices"
    "map fst prices = stocks"
    "\<forall>(s, p) \<in> set prices. map_of INITIAL_PRICES s = Some p"
proof -
  consider "lvl = ''beginner''" | "lvl = ''intermediate''" | "lvl = ''advanced''"
    using assms by auto
  then show thesis
  proof cases
    case 1
    show thesis
    proof (rule that)
      show "map_of initial_balances lvl = Some 2000" using 1 by (simp add: initial_balances_def)
      show "(2000::rat) = (if lvl = ''beginner'' then 2000 else if lvl = ''intermediate'' then 5000 else 10000)"
        using 1 by simp
      show "map_of STOCK_DATA lvl = Some beginner_stocks" using 1 by (simp add: STOCK_DATA_def)
      show "seed_prices beginner_stocks [] = Inr (take 5 INITIAL_PRICES)" by (rule seed_prices_beginner)
      show "map fst (take 5 INITIAL_PRICES) = beginner_stocks" by (rule keys_beginner)
      show "\<forall>(s, p) \<in> set (take 5 INITIAL_PRICES). map_of INITIAL_PRICES s = Some p"
        using take_INITIAL_PRICES by auto
    qed
  next
    case 2
    show thesis
    proof (rule that)
      show "map_of initial_balances lvl = Some 5000" using 2 by (simp add: initial_balances_def)
      show "(5000::rat) = (if lvl = ''beginner'' then 2000 else if lvl = ''intermediate'' then 5000 else 10000)"
        using 2 by simp
      show "map_of STOCK_DATA lvl = Some intermediate_stocks" using 2 by (simp add: STOCK_DATA_def)
      show "seed_prices intermediate_stocks [] = Inr (take 15 INITIAL_PRICES)"
        by (rule seed_prices_intermediate)
      show "map fst (take 15 INITIAL_PRICES) = intermediate_stocks" by (rule keys_intermediate)
      show "\<forall>(s, p) \<in> set (take 15 INITIAL_PRICES). map_of INITIAL_PRICES s = Some p"
        using take_INITIAL_PRICES by auto
    qed
  next
    case 3
    show thesis
    proof (rule that)
      show "map_of initial_balances lvl = Some 10000" using 3 by (simp add: initial_balances_def)
      show "(10000::rat) = (if lvl = ''beginner'' then 2000 else if lvl = ''intermediate'' then 5000 else 10000)"
        using 3 by simp
      show "map_of STOCK_DATA lvl = Some advanced_stocks" using 3 by (simp add: STOCK_DATA_def)
      show "seed_prices advanced_stocks [] = Inr INITIAL_PRICES" by (rule seed_prices_advanced)
      show "map fst INITIAL_PRICES = advanced_stocks" by (rule keys_advanced)
      show "\<forall>(s, p) \<in> set INITIAL_PRICES. map_of INITIAL_PRICES s = Some p"
        using distinct_INITIAL_PRICES by auto
    qed
  qed
qed

lemma initialize_simulator_other:
  "u \<noteq> uid \<Longrightarrow>
   simulator_db (snd (initialize_simulator u lvl now1 now2 db)) uid = simulator_db db uid \<and>
   trades_db (snd (initialize_simulator u lvl now1 now2 db)) = trades_db db"
  by (auto simp: initialize_simulator_def split: option.splits sum.splits)

subsection \<open>Writes to a dict\<close>

lemma update_absent: "map_of pf k = None \<Longrightarrow> AList.update k v pf = pf @ [(k, v)]"
  by (induction pf) (auto split: if_splits)

lemma update_append_absent:
  "map_of pf k = None \<Longrightarrow> AList.update k v' (pf @ [(k, v)]) = pf @ [(k, v')]"
  by (induction pf) (auto split: if_splits)

subsection \<open>The ledger updates\<close>

lemma apply_buy_error:
  "apply_buy symb qty p pf = (Some e, pf1) \<Longrightarrow> e = ZeroDivisionError"
  by (auto simp: apply_buy_def Let_def update_conv' split: option.splits if_splits)

lemma apply_buy_cases:
  obtains (raises) pf1 where "apply_buy symb qty p pf = (Some ZeroDivisionError, pf1)"
  | (ok) pf2 where "apply_buy symb qty p pf = (None, pf2)"
proof (cases "apply_buy symb qty p pf")
  case (Pair eo pf')
  show thesis
  proof (cases eo)
    case None
    with Pair ok show thesis by simp
  next
    case (Some e)
    with Pair apply_buy_error [of symb qty p pf e pf'] raises show thesis by simp
  qed
qed

lemma apply_buy_new:
  "map_of pf symb = None \<Longrightarrow> qty \<noteq> 0 \<Longrightarrow>
   apply_buy symb qty p pf = (None, pf @ [(symb, \<lparr>shares = qty, avg_price = p\<rparr>)])"
  by (simp add: apply_buy_def Let_def update_absent update_append_absent map_add_def)

lemma apply_buy_new_zero:
  "map_of pf symb = None \<Longrightarrow>
   apply_buy symb 0 p pf = (Some ZeroDivisionError, pf @ [(symb, \<lparr>shares = 0, avg_price = 0\<rparr>)])"
  by (simp add: apply_buy_def Let_def update_absent map_add_def)

lemma apply_buy_held:
  "map_of pf symb = Some h \<Longrightarrow> shares h + qty \<noteq> 0 \<Longrightarrow>
   apply_buy symb qty p pf =
     (None, AList.update symb
        \<lparr>shares = shares h + qty,
         avg_price = (of_int (shares h) * avg_price h + of_int qty * p) / of_int (shares h + qty)\<rparr> pf)"
  by (simp add: apply_buy_def Let_def)

lemma apply_buy_held_zero:
  "map_of pf symb = Some h \<Longrightarrow> shares h + qty = 0 \<Longrightarrow>
   apply_buy symb qty p pf = (Some ZeroDivisionError, pf)"
  by (simp add: apply_buy_def Let_def)

lemma apply_buy_raises_position:
  assumes "apply_buy symb qty p pf = (Some e, pf1)"
  shows "(case map_of pf1 symb of None \<Rightarrow> (0, 0) | Some h \<Rightarrow> (shares h, avg_price h))
       = (case map_of pf symb of None \<Rightarrow> (0, 0) | Some h \<Rightarrow> (shares h, avg_price h))"
proof (cases "map_of pf symb")
  case None
  with assms show ?thesis
    by (auto simp: apply_buy_def Let_def update_absent map_add_def split: if_splits)
next
  case (Some h)
  with assms show ?thesis
    by (auto simp: apply_buy_def Let_def split: if_splits)
qed

lemma apply_buy_ok_position:
  assumes "apply_buy symb qty p pf = (None, pf2)"
    and "(case map_of pf symb of None \<Rightarrow> (0, 0) | Some h \<Rightarrow> (shares h, avg_price h)) = (s, a)"
  shows "s + qty \<noteq> 0 \<and>
         map_of pf2 symb
           = Some \<lparr>shares = s + qty,
                   avg_price = (of_int s * a + of_int qty * p) / of_int (s + qty)\<rparr>"
proof (cases "map_of pf symb")
  case None
  with assms show ?thesis
    by (auto simp: apply_buy_def Let_def update_absent update_append_absent map_add_def
        split: if_splits)
next
  case (Some h)
  with assms show ?thesis
    by (auto simp: apply_buy_def Let_def update_conv' split: if_splits)
qed

subsection \<open>The paths through execute_trade\<close>

text \<open>One equation for each path through \<^const>\<open>execute_trade\<close>, in the order of the source.\<close>

lemma record_trade_Inr:
  "record_trade uid order p tv new_id now1 now2 state db \<noteq> (Inl e, db')"
  by (simp add: record_trade_def Let_def)

lemma record_trade_eq:
  "record_trade uid order execution_price total_value new_id now1 now2 state db =
     (Inr \<lparr>tr_trade = \<lparr>ts_id = new_id, ts_symbol = symbol order, ts_action = action order,
                         ts_quantity = quantity order, ts_price = execution_price,
                         ts_total_value = balance state
                           + calculate_portfolio_value (portfolio state) (stock_prices state)\<rparr>,
            tr_new_balance = balance state, tr_portfolio = portfolio state,
            tr_total_value = balance state
              + calculate_portfolio_value (portfolio state) (stock_prices state),
            tr_pnl = balance state
              + calculate_portfolio_value (portfolio state) (stock_prices state)
              - initial_balance state\<rparr>,
      db\<lparr>simulator_db := (simulator_db db)(uid \<mapsto>
           state\<lparr>trade_count := trade_count state + 1, last_updated := now2,
                 total_pnl := balance state
                   + calculate_portfolio_value (portfolio state) (stock_prices state)
                   - initial_balance state\<rparr>),
         trades_db := trades_db db @
           [\<lparr>te_id = new_id, te_user_id = uid, te_symbol = symbol order,
             te_action = action order, te_quantity = quantity order,
             te_price = execution_price, te_total_value = total_value,
             te_timestamp = now1, te_order_type = order_type order\<rparr>]\<rparr>)"
  by (simp add: record_trade_def Let_def)

lemma execution_price_of_error:
  "execution_price_of order p = Inl e \<Longrightarrow> e = MissingLimitPrice \<or> e = UnfavorablePrice"
  by (auto simp: execution_price_of_def split: if_splits option.splits)

lemma execution_price_of_market:
  "order_type order \<noteq> ''limit'' \<Longrightarrow> execution_price_of order p = Inr p"
  by (simp add: execution_price_of_def)

lemma execute_trade_not_initialized:
  "simulator_db db uid = None \<Longrightarrow>
   execute_trade uid order new_id now1 now2 db = (Inl AccountNotInitialized, db)"
  by (simp add: execute_trade_def Let_def)

lemma execute_trade_not_tradeable:
  "simulator_db db uid = Some state \<Longrightarrow> map_of (stock_prices state) (symbol order) = None \<Longrightarrow>
   execute_trade uid order new_id now1 now2 db = (Inl SymbolNotTradeable, db)"
  by (simp add: execute_trade_def Let_def)

lemma execute_trade_price_error:
  "simulator_db db uid = Some state \<Longrightarrow>
   map_of (stock_prices state) (symbol order) = Some current_price \<Longrightarrow>
   execution_price_of order current_price = Inl e \<Longrightarrow>
   execute_trade uid order new_id now1 now2 db = (Inl e, db)"
  by (simp add: execute_trade_def Let_def)

lemma execute_trade_buy_insufficient:
  "simulator_db db uid = Some state \<Longrightarrow>
   map_of (stock_prices state) (symbol order) = Some current_price \<Longrightarrow>
   execution_price_of order current_price = Inr execution_price \<Longrightarrow>
   action order = ''buy'' \<Longrightarrow>
   balance state < execution_price * of_int (quantity order) \<Longrightarrow>
   execute_trade uid order new_id now1 now2 db = (Inl InsufficientBalance, db)"
  by (simp add: execute_trade_def Let_def)

lemma execute_trade_buy_raises:
  "simulator_db db uid = Some state \<Longrightarrow>
   map_of (stock_prices state) (symbol order) = Some current_price \<Longrightarrow>
   execution_price_of order current_price = Inr execution_price \<Longrightarrow>
   action order = ''buy'' \<Longrightarrow>
   \<not> balance state < execution_price * of_int (quantity order) \<Longrightarrow>
   apply_buy (symbol order) (quantity order) execution_price (portfolio state) = (Some e, pf1) \<Longrightarrow>
   execute_trade uid order new_id now1 now2 db =
     (Inl e, db\<lparr>simulator_db := (simulator_db db)(uid \<mapsto>
        state\<lparr>balance := balance state - execution_price * of_int (quantity order),
              portfolio := pf1\<rparr>)\<rparr>)"
  by (simp add: execute_trade_def Let_def)

lemma execute_trade_buy_ok:
  "simulator_db db uid = Some state \<Longrightarrow>
   map_of (stock_prices state) (symbol order) = Some current_price \<Longrightarrow>
   execution_price_of order current_price = Inr execution_price \<Longrightarrow>
   action order = ''buy'' \<Longrightarrow>
   \<not> balance state < execution_price * of_int (quantity order) \<Longrightarrow>
   apply_buy (symbol order) (quantity order) execution_price (portfolio state) = (None, pf2) \<Longrightarrow>
   execute_trade uid order new_id now1 now2 db =
     record_trade uid order execution_price (execution_price * of_int (quantity order))
       new_id now1 now2
       (state\<lparr>balance := balance state - execution_price * of_int (quantity order),
              portfolio := pf2\<rparr>) db"
  by (simp add: execute_trade_def Let_def)

lemma execute_trade_sell_insufficient:
  "simulator_db db uid = Some state \<Longrightarrow>
   map_of (stock_prices state) (symbol order) = Some current_price \<Longrightarrow>
   execution_price_of order current_price = Inr execution_price \<Longrightarrow>
   action order = ''sell'' \<Longrightarrow>
   (case map_of (portfolio state) (symbol order) of
      None \<Rightarrow> True | Some h \<Rightarrow> shares h < quantity order) \<Longrightarrow>
   execute_trade uid order new_id now1 now2 db = (Inl InsufficientShares, db)"
  by (simp add: execute_trade_def split: option.splits)

lemma execute_trade_sell_ok:
  "simulator_db db uid = Some state \<Longrightarrow>
   map_of (stock_prices state) (symbol order) = Some current_price \<Longrightarrow>
   execution_price_of order current_price = Inr execution_price \<Longrightarrow>
   action order = ''sell'' \<Longrightarrow>
   map_of (portfolio state) (symbol order) = Some h \<Longrightarrow>
   \<not> shares h < quantity order \<Longrightarrow>
   execute_trade uid order new_id now1 now2 db =
     record_trade uid order execution_price (execution_price * of_int (quantity order))
       new_id now1 now2
       (state\<lparr>balance := balance state + execution_price * of_int (quantity order),
              portfolio := apply_sell (symbol order) (quantity order) h (portfolio state)\<rparr>) db"
  by (simp add: execute_trade_def Let_def)

lemma execute_trade_invalid_action:
  "simulator_db db uid = Some state \<Longrightarrow>
   map_of (stock_prices state) (symbol order) = Some current_price \<Longrightarrow>
   execution_price_of order current_price = Inr execution_price \<Longrightarrow>
   action order \<noteq> ''buy'' \<Longrightarrow> action order \<noteq> ''sell'' \<Longrightarrow>
   execute_trade uid order new_id now1 now2 db = (Inl InvalidAction, db)"
  by (simp add: execute_trade_def Let_def)

text \<open>Every call of \<^const>\<open>execute_trade\<close> takes exactly one of the nine paths.\<close>

lemma execute_trade_cases [case_names not_initialized not_tradeable price_error
    buy_insufficient buy_raises buy_ok sell_insufficient sell_ok invalid_action]:
  obtains
    (not_initialized) "simulator_db db uid = None"
      "execute_trade uid order new_id now1 now2 db = (Inl AccountNotInitialized, db)"
  | (not_tradeable) state where "simulator_db db uid = Some state"
      "map_of (stock_prices state) (symbol order) = None"
      "execute_trade uid order new_id now1 now2 db = (Inl SymbolNotTradeable, db)"
  | (price_error) state current_price e where "simulator_db db uid = Some state"
      "map_of (stock_prices state) (symbol order) = Some current_price"
      "execution_price_of order current_price = Inl e"
      "execute_trade uid order new_id now1 now2 db = (Inl e, db)"
  | (buy_insufficient) state current_price execution_price where
      "simulator_db db uid = Some state"
      "map_of (stock_prices state) (symbol order) = Some current_price"
      "execution_price_of order current_price = Inr execution_price"
      "action order = ''buy''"
      "balance state < execution_price * of_int (quantity order)"
      "execute_trade uid order new_id now1 now2 db = (Inl InsufficientBalance, db)"
  | (buy_raises) state current_price execution_price pf1 where
      "simulator_db db uid = Some state"
      "map_of (stock_prices state) (symbol order) = Some current_price"
      "execution_price_of order current_price = Inr execution_price"
      "action order = ''buy''"
      "\<not> balance state < execution_price * of_int (quantity order)"
      "apply_buy (symbol order) (quantity order) execution_price (portfolio state)
         = (Some ZeroDivisionError, pf1)"
      "execute_trade uid order new_id now1 now2 db =
         (Inl ZeroDivisionError, db\<lparr>simulator_db := (simulator_db db)(uid \<mapsto>
            state\<lparr>balance := balance state - execution_price * of_int (quantity order),
                  portfolio := pf1\<rparr>)\<rparr>)"
  | (buy_ok) state current_price execution_price pf2 where
      "simulator_db db uid = Some state"
      "map_of (stock_prices state) (symbol order) = Some current_price"
      "execution_price_of order current_price = Inr execution_price"
      "action order = ''buy''"
      "\<not> balance state < execution_price * of_int (quantity order)"
      "apply_buy (symbol order) (quantity order) execution_price (portfolio state) = (None, pf2)"
      "execute_trade uid order new_id now1 now2 db =
         record_trade uid order execution_price (execution_price * of_int (quantity order))
           new_id now1 now2
           (state\<lparr>balance := balance state - execution_price * of_int (quantity order),
                  portfolio := pf2\<rparr>) db"
  | (sell_insufficient) state current_price execution_price where
      "simulator_db db uid = Some state"
      "map_of (stock_prices state) (symbol order) = Some current_price"
      "execution_price_of order current_price = Inr execution_price"
      "action order = ''sell''"
      "case map_of (portfolio state) (symbol order) of
         None \<Rightarrow> True | Some h \<Rightarrow> shares h < quantity order"
      "execute_trade uid order new_id now1 now2 db = (Inl InsufficientShares, db)"
  | (sell_ok) state current_price execution_price h where
      "simulator_db db uid = Some state"
      "map_of (stock_prices state) (symbol order) = Some current_price"
      "execution_price_of order current_price = Inr execution_price"
      "action order = ''sell''"
      "map_of (portfolio state) (symbol order) = Some h"
      "\<not> shares h < quantity order"
      "execute_trade uid order new_id now1 now2 db =
         record_trade uid order execution_price (execution_price * of_int (quantity order))
           new_id now1 now2
           (state\<lparr>balance := balance state + execution_price * of_int (quantity order),
                  portfolio := apply_sell (symbol order) (quantity order) h (portfolio state)\<rparr>) db"
  | (invalid_action) state current_price execution_price where
      "simulator_db db uid = Some state"
      "map_of (stock_prices state) (symbol order) = Some current_price"
      "execution_price_of order current_price = Inr execution_price"
      "action order \<noteq> ''buy''" "action order \<noteq> ''sell''"
      "execute_trade uid order new_id now1 now2 db = (Inl InvalidAction, db)"
proof (cases "simulator_db db uid")
  case None
  then show thesis
    using not_initialized execute_trade_not_initialized by blast
next
  case (Some state)
  note st = Some
  show thesis
  proof (cases "map_of (stock_prices state) (symbol order)")
    case None
    with st show thesis
      using not_tradeable execute_trade_not_tradeable by blast
  next
    case (Some current_price)
    note cp = Some
    show thesis
    proof (cases "execution_price_of order current_price")
      case (Inl e)
      with st cp show thesis
        using price_error execute_trade_price_error by blast
    next
      case (Inr execution_price)
      note ep = Inr
      consider (b) "action order = ''buy''" | (s) "action order = ''sell''"
        | (o) "action order \<noteq> ''buy''" "action order \<noteq> ''sell''"
        by blast
      then show thesis
      proof cases
        case b
        show thesis
        proof (cases "balance state < execution_price * of_int (quantity order)")
          case True
          with st cp ep b show thesis
            using buy_insufficient execute_trade_buy_insufficient by blast
        next
          case False
          show thesis
          proof (cases rule: apply_buy_cases
              [of "symbol order" "quantity order" execution_price "portfolio state"])
            case (raises pf1)
            with st cp ep b False show thesis
              using buy_raises execute_trade_buy_raises by blast
          next
            case (ok pf2)
            with st cp ep b False show thesis
              using buy_ok execute_trade_buy_ok by blast
          qed
        qed
      next
        case s
        show thesis
        proof (cases "map_of (portfolio state) (symbol order)")
          case None
          with st cp ep s show thesis
            using sell_insufficient [OF st cp ep s] execute_trade_sell_insufficient [OF st cp ep s]
            by simp
        next
          case (Some h)
          show thesis
          proof (cases "shares h < quantity order")
            case True
            with Some st cp ep s show thesis
              using sell_insufficient [OF st cp ep s] execute_trade_sell_insufficient [OF st cp ep s]
              by simp
          next
            case False
            with Some st cp ep s show thesis
              using sell_ok execute_trade_sell_ok by blast
          qed
        qed
      next
        case o
        with st cp ep show thesis
          using invalid_action execute_trade_invalid_action by blast
      qed
    qed
  qed
qed

lemma execute_trade_Inr_recorded:
  assumes "execute_trade uid order new_id now1 now2 db = (Inr t, db')"
  obtains state current_price execution_price st1 where
    "simulator_db db uid = Some state"
    "map_of (stock_prices state) (symbol order) = Some current_price"
    "execution_price_of order current_price = Inr execution_price"
    "stock_prices st1 = stock_prices state" "initial_balance st1 = initial_balance state"
    "record_trade uid order execution_price (execution_price * of_int (quantity order))
       new_id now1 now2 st1 db = (Inr t, db')"
proof (cases rule: execute_trade_cases [of db uid order new_id now1 now2])
  case (buy_ok state current_price execution_price pf2)
  with assms that
    [of state current_price execution_price
        "state\<lparr>balance := balance state - execution_price * of_int (quantity order),
               portfolio := pf2\<rparr>"]
  show ?thesis by simp
next
  case (sell_ok state current_price execution_price h)
  with assms that
    [of state current_price execution_price
        "state\<lparr>balance := balance state + execution_price * of_int (quantity order),
               portfolio := apply_sell (symbol order) (quantity order) h (portfolio state)\<rparr>"]
  show ?thesis by simp
qed (use assms in simp_all)

subsection \<open>The valuation\<close>

lemma fold_portfolio_value:
  "fold (\<lambda>(symb, holdings) total.
           case map_of prices symb of
             None \<Rightarrow> total
           | Some p \<Rightarrow> total + of_int (shares holdings) * p) pf a
   = a + market_value pf prices"
  by (induction pf arbitrary: a) (auto simp: market_value_def split: option.splits)

lemma calculate_portfolio_value_eq:
  "calculate_portfolio_value pf prices = market_value pf prices"
  by (simp add: calculate_portfolio_value_def fold_portfolio_value)

subsection \<open>The scenario, evaluated\<close>

lemma market_order_sel [simp]:
  "symbol (market_order act symb qty) = symb"
  "action (market_order act symb qty) = act"
  "quantity (market_order act symb qty) = qty"
  "order_type (market_order act symb qty) = ''market''"
  "limit_price (market_order act symb qty) = None"
  by (simp_all add: market_order_def)

lemma limit_order_sel [simp]:
  "symbol (limit_order act symb qty lp) = symb"
  "action (limit_order act symb qty lp) = act"
  "quantity (limit_order act symb qty lp) = qty"
  "order_type (limit_order act symb qty lp) = ''limit''"
  "limit_price (limit_order act symb qty lp) = Some lp"
  by (simp_all add: limit_order_def)

lemma beginner_state_sel [simp]:
  "balance beginner_state = 2000" "initial_balance beginner_state = 2000"
  "portfolio beginner_state = []" "stock_prices beginner_state = take 5 INITIAL_PRICES"
  "trade_count beginner_state = 0"
  by (simp_all add: beginner_state_def)

lemma fresh_store_eq:
  "fresh_store = \<lparr>simulator_db = [''u1'' \<mapsto> beginner_state], trades_db = []\<rparr>"
  unfolding fresh_store_def beginner_state_def empty_store_def
  by (simp add: initialize_simulator_def initial_balances_def STOCK_DATA_def seed_prices_beginner)

lemma fresh_store_u1: "simulator_db fresh_store ''u1'' = Some beginner_state"
  by (simp add: fresh_store_eq)

lemma aapl: "map_of (take 5 INITIAL_PRICES) ''AAPL'' = Some 175.5"
  by (simp add: INITIAL_PRICES_def)

lemmas eval_defs =
  execute_trade_def market_order_def limit_order_def execution_price_of_def apply_buy_def
  apply_sell_def record_trade_def Let_def calculate_portfolio_value_def INITIAL_PRICES_def

lemma traded_store_eq:
  "execute_trade ''u1'' (market_order ''buy'' ''AAPL'' 5) ''t1'' 2 2 fresh_store =
     (Inr \<lparr>tr_trade = \<lparr>ts_id = ''t1'', ts_symbol = ''AAPL'', ts_action = ''buy'',
                         ts_quantity = 5, ts_price = 175.5, ts_total_value = 2000\<rparr>,
            tr_new_balance = 1122.5,
            tr_portfolio = [(''AAPL'', \<lparr>shares = 5, avg_price = 175.5\<rparr>)],
            tr_total_value = 2000, tr_pnl = 0\<rparr>,
      \<lparr>simulator_db = [''u1'' \<mapsto> traded_state], trades_db = [first_trade]\<rparr>)"
  by (simp add: execute_trade_def fresh_store_eq beginner_state_def market_order_def
      execution_price_of_def apply_buy_def record_trade_def Let_def
      calculate_portfolio_value_def INITIAL_PRICES_def traded_state_def first_trade_def)

lemma traded_store_simps:
  "traded_store = \<lparr>simulator_db = [''u1'' \<mapsto> traded_state], trades_db = [first_trade]\<rparr>"
  by (simp add: traded_store_def traded_store_eq)

lemma traded_store_u1: "simulator_db traded_store ''u1'' = Some traded_state"
  by (simp add: traded_store_simps)

lemma traded_state_sel [simp]:
  "balance traded_state = 1122.5" "initial_balance traded_state = 2000"
  "portfolio traded_state = [(''AAPL'', \<lparr>shares = 5, avg_price = 175.5\<rparr>)]"
  "stock_prices traded_state = take 5 INITIAL_PRICES"
  by (simp_all add: traded_state_def)

lemma averaged_store_eq:
  "execute_trade ''u1'' (limit_order ''buy'' ''AAPL'' 3 180) ''t2'' 2 2 traded_store =
     (Inr \<lparr>tr_trade = \<lparr>ts_id = ''t2'', ts_symbol = ''AAPL'', ts_action = ''buy'',
                         ts_quantity = 3, ts_price = 180, ts_total_value = 1986.5\<rparr>,
            tr_new_balance = 582.5,
            tr_portfolio = [(''AAPL'', \<lparr>shares = 8, avg_price = 177.1875\<rparr>)],
            tr_total_value = 1986.5, tr_pnl = - 13.5\<rparr>,
      \<lparr>simulator_db = [''u1'' \<mapsto> averaged_state], trades_db = [first_trade, second_trade]\<rparr>)"
  by (simp add: eval_defs traded_store_simps traded_state_def averaged_state_def
      first_trade_def second_trade_def)

lemma averaged_store_simps:
  "averaged_store =
     \<lparr>simulator_db = [''u1'' \<mapsto> averaged_state], trades_db = [first_trade, second_trade]\<rparr>"
  by (simp add: averaged_store_def averaged_store_eq)

lemma averaged_store_u1: "simulator_db averaged_store ''u1'' = Some averaged_state"
  by (simp add: averaged_store_simps)

lemma averaged_state_sel [simp]:
  "balance averaged_state = 582.5" "initial_balance averaged_state = 2000"
  "portfolio averaged_state = [(''AAPL'', \<lparr>shares = 8, avg_price = 177.1875\<rparr>)]"
  "stock_prices averaged_state = take 5 INITIAL_PRICES"
  by (simp_all add: averaged_state_def)

lemma sold_store_simps:
  "sold_store =
     \<lparr>simulator_db = [''u1'' \<mapsto> sold_state],
      trades_db = [first_trade, second_trade, third_trade]\<rparr>"
  by (simp add: sold_store_def eval_defs averaged_store_simps averaged_state_def sold_state_def
      third_trade_def)

lemma closed_store_journal: "trades_db closed_store = [first_trade, exit_trade]"
  by (simp add: closed_store_def eval_defs traded_store_simps traded_state_def exit_trade_def)

lemma reduced_store_simps:
  "reduced_store =
     \<lparr>simulator_db = [''u1'' \<mapsto> reduced_state], trades_db = [first_trade, partial_sale]\<rparr>"
  by (simp add: reduced_store_def eval_defs traded_store_simps traded_state_def reduced_state_def
      partial_sale_def)

lemma rebought_store_simps:
  "rebought_store =
     \<lparr>simulator_db = [''u1'' \<mapsto> rebought_state],
      trades_db = [first_trade, partial_sale, later_buy]\<rparr>"
  by (simp add: rebought_store_def eval_defs reduced_store_simps reduced_state_def
      rebought_state_def later_buy_def)

lemma run_two_buys:
  "run [Trade ''u1'' (market_order ''buy'' ''AAPL'' 5) ''t1'' 2 2,
        Trade ''u1'' (limit_order ''buy'' ''AAPL'' 3 180) ''t2'' 2 2] fresh_store
     = averaged_store"
  by (simp add: run_def traded_store_def [symmetric] averaged_store_def [symmetric])

lemma floor_rat_numeral:
  "\<lfloor>(numeral a / numeral b :: rat)\<rfloor> = numeral a div numeral b"
proof -
  have "\<lfloor>(of_int (numeral a) / of_int (numeral b) :: rat)\<rfloor> = numeral a div numeral b"
    by (rule floor_divide_of_int_eq)
  then show ?thesis by simp
qed

lemma tick_example: "tick_prices up_two_percent 0 (take 5 INITIAL_PRICES) = ticked_prices"
  by (simp add: INITIAL_PRICES_def simulate_price_change_def py_round2_def Let_def
      ticked_prices_def floor_rat_numeral up_two_percent_def)

lemma ticked_store_eq:
  "update_stock_prices ''u1'' up_two_percent 3 traded_store =
     (Inr \<lparr>pr_old_prices = take 5 INITIAL_PRICES, pr_new_prices = ticked_prices,
            pr_timestamp = 3\<rparr>,
      \<lparr>simulator_db = [''u1'' \<mapsto> traded_state\<lparr>stock_prices := ticked_prices, last_updated := 3\<rparr>],
       trades_db = [first_trade]\<rparr>)"
  by (simp add: update_stock_prices_def Let_def traded_store_simps tick_example)

lemma state_traded:
  "get_simulator_state ''u1'' traded_store =
     Inr \<lparr>sr_user_id = ''u1'', sr_level = ''beginner'', sr_balance = 1122.5,
           sr_portfolio = [(''AAPL'', \<lparr>shares = 5, avg_price = 175.5\<rparr>)],
           sr_stock_prices = take 5 INITIAL_PRICES, sr_portfolio_value = 877.5,
           sr_total_value = 2000, sr_initial_balance = 2000, sr_pnl = 0, sr_trade_count = 1,
           sr_last_updated = 2\<rparr>"
  by (simp add: get_simulator_state_def traded_store_simps traded_state_def Let_def
      calculate_portfolio_value_def INITIAL_PRICES_def)

lemma state_ticked:
  "get_simulator_state ''u1'' ticked_store =
     Inr \<lparr>sr_user_id = ''u1'', sr_level = ''beginner'', sr_balance = 1122.5,
           sr_portfolio = [(''AAPL'', \<lparr>shares = 5, avg_price = 175.5\<rparr>)],
           sr_stock_prices = ticked_prices, sr_portfolio_value = 895.05,
           sr_total_value = 2017.55, sr_initial_balance = 2000, sr_pnl = 17.55,
           sr_trade_count = 1, sr_last_updated = 3\<rparr>"
  by (simp add: get_simulator_state_def ticked_store_def ticked_store_eq traded_state_def Let_def
      calculate_portfolio_value_def ticked_prices_def)

lemma history_averaged:
  "get_trade_history ''u1'' limit averaged_store =
     \<lparr>hr_user_id = ''u1'', hr_trades = py_slice_to [first_trade, second_trade] limit,
      hr_total_trades = 2\<rparr>"
  by (simp add: get_trade_history_def Let_def averaged_store_simps py_sort_reverse_def
      first_trade_def second_trade_def)

lemma history_sold:
  "get_trade_history ''u1'' limit sold_store =
     \<lparr>hr_user_id = ''u1'', hr_trades = py_slice_to [third_trade, first_trade, second_trade] limit,
      hr_total_trades = 3\<rparr>"
  by (simp add: get_trade_history_def Let_def sold_store_simps py_sort_reverse_def
      first_trade_def second_trade_def third_trade_def)

subsection \<open>Failed validation leaves the store untouched\<close>

text \<open>
  Claim C1. When \<^const>\<open>execute_trade\<close> fails one of its validations (account missing, symbol
  not tradeable, limit price missing, unfavourable limit price, insufficient balance,
  insufficient shares, invalid action), the store after the call is the store before it:
  balance, holdings, trade count and journal are all unchanged.
\<close>

theorem execute_trade_failed_validation_no_mutation:
  assumes "execute_trade uid order new_id now1 now2 db = (Inl e, db')"
    and "e \<in> {AccountNotInitialized, SymbolNotTradeable, MissingLimitPrice, UnfavorablePrice,
              InsufficientBalance, InsufficientShares, InvalidAction}"
  shows "db' = db"
proof (cases "simulator_db db uid")
  case None
  with assms(1) show ?thesis by (simp add: execute_trade_def)
next
  case (Some state)
  note st = Some
  show ?thesis
  proof (cases "map_of (stock_prices state) (symbol order)")
    case None
    with st assms(1) show ?thesis by (simp add: execute_trade_def)
  next
    case (Some current_price)
    note cp = Some
    show ?thesis
    proof (cases "execution_price_of order current_price")
      case (Inl e')
      with st cp assms(1) show ?thesis by (simp add: execute_trade_def)
    next
      case (Inr execution_price)
      note ep = Inr
      show ?thesis
      proof (cases "action order = ''buy''")
        case True
        with st cp ep assms show ?thesis
          by (auto simp: execute_trade_def Let_def record_trade_Inr split: if_splits prod.splits option.splits dest!: apply_buy_error)
      next
        case False
        with st cp ep assms(1) show ?thesis
          by (auto simp: execute_trade_def Let_def record_trade_Inr split: if_splits prod.splits option.splits)
      qed
    qed
  qed
qed

text \<open>
  The example of section 8 of the specification: buying 1000 AAPL at 175.50 against a balance
  of 2000 fails with \<open>InsufficientBalance\<close> and changes nothing.
\<close>

theorem execute_trade_failed_validation_no_mutation_witness:
  "fst (execute_trade ''u1'' (market_order ''buy'' ''AAPL'' 1000) ''t1'' 2 2 fresh_store)
     = Inl InsufficientBalance \<and>
   snd (execute_trade ''u1'' (market_order ''buy'' ''AAPL'' 1000) ''t1'' 2 2 fresh_store)
     = fresh_store"
proof -
  let ?r = "execute_trade ''u1'' (market_order ''buy'' ''AAPL'' 1000) ''t1'' 2 2 fresh_store"
  have "?r = (Inl InsufficientBalance, fresh_store)"
    by (rule execute_trade_buy_insufficient [OF fresh_store_u1, where current_price = "175.5" and execution_price = "175.5"])
       (simp_all add: aapl execution_price_of_market)
  then have e: "fst ?r = Inl InsufficientBalance" by simp
  then have "?r = (Inl InsufficientBalance, snd ?r)"
    by (simp add: prod_eq_iff)
  from execute_trade_failed_validation_no_mutation [OF this] e show ?thesis
    by simp
qed

subsection \<open>The average cost of a sequence of buys\<close>

lemma position_state:
  "simulator_db db uid = Some state \<Longrightarrow>
   position db uid symb =
     (case map_of (portfolio state) symb of None \<Rightarrow> (0, 0) | Some h \<Rightarrow> (shares h, avg_price h))"
  by (simp add: position_def holding_of_def)

lemma buys_recorded_refl: "buys_recorded uid symb db db []"
  by (simp add: buys_recorded_def split: prod.splits)

lemma buys_recorded_same_position:
  "trades_db db' = trades_db db \<Longrightarrow> position db' uid symb = position db uid symb \<Longrightarrow>
   buys_recorded uid symb db db' []"
  by (simp add: buys_recorded_def split: prod.splits)

lemma buys_recorded_other:
  assumes "trades_db db' = trades_db db @ js"
    and "\<forall>t \<in> set js. \<not> of_position uid symb t"
    and "position db' uid symb = position db uid symb"
  shows "buys_recorded uid symb db db' js"
proof -
  from assms(2) have "filter (of_position uid symb) js = []"
    by (simp add: filter_empty_conv)
  with assms show ?thesis
    by (simp add: buys_recorded_def split: prod.splits)
qed

lemma buys_recorded_trans:
  assumes "buys_recorded uid symb db db1 js1" and "buys_recorded uid symb db1 db2 js2"
  shows "buys_recorded uid symb db db2 (js1 @ js2)"
  using assms by (auto simp: buys_recorded_def split: prod.splits)

lemma buy_updates_average:
  assumes "execute_trade uid order new_id now1 now2 db = (Inr t, db')"
    and "action order = ''buy''"
    and "position db uid (symbol order) = (s, a)"
  shows "s + quantity order \<noteq> 0 \<and>
         holding_of db' uid (symbol order)
           = Some \<lparr>shares = s + quantity order,
                   avg_price = (of_int s * a + of_int (quantity order) * ts_price (tr_trade t))
                                 / of_int (s + quantity order)\<rparr> \<and>
         trades_db db' = trades_db db @
           [\<lparr>te_id = new_id, te_user_id = uid, te_symbol = symbol order,
             te_action = action order, te_quantity = quantity order,
             te_price = ts_price (tr_trade t),
             te_total_value = ts_price (tr_trade t) * of_int (quantity order),
             te_timestamp = now1, te_order_type = order_type order\<rparr>]"
proof (cases rule: execute_trade_cases [of db uid order new_id now1 now2])
  case (buy_ok state current_price execution_price pf2)
  from assms(3) buy_ok(1)
  have "(case map_of (portfolio state) (symbol order) of
           None \<Rightarrow> (0, 0) | Some h \<Rightarrow> (shares h, avg_price h)) = (s, a)"
    by (simp add: position_state)
  from apply_buy_ok_position [OF buy_ok(6) this] buy_ok(7) assms(1)
  show ?thesis
    by (auto simp: record_trade_eq holding_of_def)
qed (use assms(1,2) in simp_all)

lemma execute_trade_buy_recorded:
  assumes "action order = ''buy''"
  shows "\<exists>js. buys_recorded uid (symbol order) db
               (snd (execute_trade uid order new_id now1 now2 db)) js"
proof (cases rule: execute_trade_cases [of db uid order new_id now1 now2])
  case (buy_raises state current_price execution_price pf1)
  have "position (snd (execute_trade uid order new_id now1 now2 db)) uid (symbol order)
          = position db uid (symbol order)"
    using apply_buy_raises_position [OF buy_raises(6)] buy_raises(1,7)
    by (simp add: position_def holding_of_def)
  with buy_raises(7) show ?thesis
    by (intro exI [of _ "[]"] buys_recorded_same_position) simp_all
next
  case (buy_ok state current_price execution_price pf2)
  obtain s a where sa: "position db uid (symbol order) = (s, a)"
    by (cases "position db uid (symbol order)")
  obtain t db' where r: "execute_trade uid order new_id now1 now2 db = (Inr t, db')"
    using buy_ok(7) by (simp add: record_trade_eq)
  let ?tr = "\<lparr>te_id = new_id, te_user_id = uid, te_symbol = symbol order,
             te_action = action order, te_quantity = quantity order,
             te_price = ts_price (tr_trade t),
             te_total_value = ts_price (tr_trade t) * of_int (quantity order),
             te_timestamp = now1, te_order_type = order_type order\<rparr>"
  from buy_updates_average [OF r assms sa]
  have nz: "s + quantity order \<noteq> 0"
    and h: "holding_of db' uid (symbol order)
           = Some \<lparr>shares = s + quantity order,
                   avg_price = (of_int s * a + of_int (quantity order) * ts_price (tr_trade t))
                                 / of_int (s + quantity order)\<rparr>"
    and j: "trades_db db' = trades_db db @ [?tr]"
    by simp_all
  from nz have "of_int (s + quantity order) *
      ((of_int s * a + of_int (quantity order) * ts_price (tr_trade t))
         / of_int (s + quantity order))
      = of_int s * a + ts_price (tr_trade t) * rat_of_int (quantity order)"
    by (simp add: mult.commute)
  with sa h j assms have "buys_recorded uid (symbol order) db db' [?tr]"
    by (simp add: buys_recorded_def position_def of_position_def)
  with r show ?thesis
    by auto
qed (use assms in \<open>auto intro: buys_recorded_refl\<close>)

lemma update_stock_prices_portfolio:
  "holding_of (snd (update_stock_prices u rnd now db)) uid symb = holding_of db uid symb \<and>
   trades_db (snd (update_stock_prices u rnd now db)) = trades_db db"
  by (auto simp: update_stock_prices_def holding_of_def Let_def split: option.splits)

lemma apply_buy_other:
  "k \<noteq> symb \<Longrightarrow> map_of (snd (apply_buy k qty p pf)) symb = map_of pf symb"
  by (auto simp: apply_buy_def Let_def update_conv' split: option.splits)

lemma apply_sell_other:
  "k \<noteq> symb \<Longrightarrow> map_of (apply_sell k qty h pf) symb = map_of pf symb"
  by (simp add: apply_sell_def Let_def update_conv' delete_conv')

lemma execute_trade_other_recorded:
  assumes "u \<noteq> uid \<or> symbol order \<noteq> symb"
  shows "\<exists>js. buys_recorded uid symb db (snd (execute_trade u order new_id now1 now2 db)) js"
proof (cases rule: execute_trade_cases [of db u order new_id now1 now2])
  case (buy_raises state current_price execution_price pf1)
  from assms buy_raises(6)
  have "u = uid \<longrightarrow> map_of pf1 symb = map_of (portfolio state) symb"
    using apply_buy_other [of "symbol order" symb "quantity order" execution_price "portfolio state"]
    by auto
  with buy_raises(1,7)
  have "position (snd (execute_trade u order new_id now1 now2 db)) uid symb = position db uid symb"
    by (simp add: position_def holding_of_def)
  with buy_raises(7) show ?thesis
    by (intro exI [of _ "[]"] buys_recorded_same_position) simp_all
next
  case (buy_ok state current_price execution_price pf2)
  let ?tr = "\<lparr>te_id = new_id, te_user_id = u, te_symbol = symbol order,
             te_action = action order, te_quantity = quantity order,
             te_price = execution_price,
             te_total_value = execution_price * of_int (quantity order),
             te_timestamp = now1, te_order_type = order_type order\<rparr>"
  from assms buy_ok(6)
  have "u = uid \<longrightarrow> map_of pf2 symb = map_of (portfolio state) symb"
    using apply_buy_other [of "symbol order" symb "quantity order" execution_price "portfolio state"]
    by auto
  with buy_ok(1,7)
  have "position (snd (execute_trade u order new_id now1 now2 db)) uid symb = position db uid symb"
    by (simp add: record_trade_eq position_def holding_of_def)
  moreover from buy_ok(7)
  have "trades_db (snd (execute_trade u order new_id now1 now2 db)) = trades_db db @ [?tr]"
    by (simp add: record_trade_eq)
  moreover from assms have "\<forall>t \<in> set [?tr]. \<not> of_position uid symb t"
    by (auto simp: of_position_def)
  ultimately show ?thesis
    by (intro exI [of _ "[?tr]"] buys_recorded_other)
next
  case (sell_ok state current_price execution_price h)
  let ?tr = "\<lparr>te_id = new_id, te_user_id = u, te_symbol = symbol order,
             te_action = action order, te_quantity = quantity order,
             te_price = execution_price,
             te_total_value = execution_price * of_int (quantity order),
             te_timestamp = now1, te_order_type = order_type order\<rparr>"
  from assms
  have "u = uid \<longrightarrow>
      map_of (apply_sell (symbol order) (quantity order) h (portfolio state)) symb
        = map_of (portfolio state) symb"
    by (auto simp: apply_sell_other)
  with sell_ok(1,7)
  have "position (snd (execute_trade u order new_id now1 now2 db)) uid symb = position db uid symb"
    by (simp add: record_trade_eq position_def holding_of_def)
  moreover from sell_ok(7)
  have "trades_db (snd (execute_trade u order new_id now1 now2 db)) = trades_db db @ [?tr]"
    by (simp add: record_trade_eq)
  moreover from assms have "\<forall>t \<in> set [?tr]. \<not> of_position uid symb t"
    by (auto simp: of_position_def)
  ultimately show ?thesis
    by (intro exI [of _ "[?tr]"] buys_recorded_other)
qed (auto intro: buys_recorded_refl)

lemma execute_trade_no_action:
  assumes "action order \<noteq> ''buy''" and "action order \<noteq> ''sell''"
  shows "snd (execute_trade u order new_id now1 now2 db) = db"
  by (cases rule: execute_trade_cases [of db u order new_id now1 now2])
     (use assms in simp_all)

lemma handle_buy_recorded:
  assumes "no_sell_of uid symb r"
  shows "\<exists>js. buys_recorded uid symb db (handle r db) js"
proof (cases r)
  case (Initialize u lvl now1 now2)
  with assms initialize_simulator_other [of u uid lvl now1 now2 db] show ?thesis
    by (intro exI [of _ "[]"] buys_recorded_same_position)
       (simp_all add: position_def holding_of_def)
next
  case (Trade u order new_id now1 now2)
  show ?thesis
  proof (cases "u = uid \<and> symbol order = symb")
    case False
    with Trade execute_trade_other_recorded [of u uid order symb db new_id now1 now2]
    show ?thesis by auto
  next
    case True
    with assms Trade have ns: "action order \<noteq> ''sell''" by simp
    show ?thesis
    proof (cases "action order = ''buy''")
      case b: True
      with True Trade execute_trade_buy_recorded [of order uid db new_id now1 now2]
      show ?thesis by auto
    next
      case nb: False
      with ns Trade execute_trade_no_action [of order u new_id now1 now2 db] show ?thesis
        by (auto intro: buys_recorded_refl)
    qed
  qed
next
  case (UpdatePrices u rnd now)
  with update_stock_prices_portfolio [of u rnd now db uid symb] show ?thesis
    by (intro exI [of _ "[]"] buys_recorded_same_position) (simp_all add: position_def)
next
  case (GetState u)
  then show ?thesis by (auto intro: buys_recorded_refl)
next
  case (GetTrades u limit)
  then show ?thesis by (auto intro: buys_recorded_refl)
qed

lemma run_buys_recorded:
  "\<forall>r \<in> set reqs. no_sell_of uid symb r \<Longrightarrow> \<exists>js. buys_recorded uid symb db (run reqs db) js"
proof (induction reqs arbitrary: db)
  case Nil
  then show ?case by (auto simp: run_def intro: buys_recorded_refl)
next
  case (Cons r reqs)
  from Cons.prems obtain js1 where 1: "buys_recorded uid symb db (handle r db) js1"
    using handle_buy_recorded [of uid symb r db] by auto
  from Cons.IH [of "handle r db"] Cons.prems
  obtain js2 where 2: "buys_recorded uid symb (handle r db) (run reqs (handle r db)) js2"
    by auto
  from buys_recorded_trans [OF 1 2] show ?case
    by (auto simp: run_def)
qed




subsection \<open>Reported totals\<close>



subsection \<open>A buy of quantity 0\<close>



subsection \<open>Initialising again\<close>

text \<open>
  Claim C8. Initialising a user who has a session, at a valid level, stores the session that
  an initialisation on the empty store would store (balance and initial balance the seed of
  the level, no holdings, the price table of the level, trade counter 0), and leaves the
  journal as it was: the history of the user is the same before and after, for every limit.
\<close>

theorem reinitialize_keeps_journal:
  assumes "simulator_db db uid = Some old"
    and "lvl \<in> {''beginner'', ''intermediate'', ''advanced''}"
    and "initialize_simulator uid lvl now1 now2 db = (res, db')"
  shows "\<exists>r st. res = Inr r \<and> simulator_db db' uid = Some st \<and>
           simulator_db (snd (initialize_simulator uid lvl now1 now2 empty_store)) uid = Some st \<and>
           balance st = (if lvl = ''beginner'' then 2000
                         else if lvl = ''intermediate'' then 5000 else 10000) \<and>
           initial_balance st = balance st \<and> portfolio st = [] \<and> trade_count st = 0 \<and>
           map_of STOCK_DATA lvl = Some (map fst (stock_prices st)) \<and>
           (\<forall>(s, p) \<in> set (stock_prices st). map_of INITIAL_PRICES s = Some p) \<and>
           trades_db db' = trades_db db \<and>
           (\<forall>limit. get_trade_history uid limit db' = get_trade_history uid limit db)"
proof -
  from level_tables [OF assms(2)] obtain seed stocks prices where t:
    "map_of initial_balances lvl = Some seed"
    "seed = (if lvl = ''beginner'' then 2000 else if lvl = ''intermediate'' then 5000 else 10000)"
    "map_of STOCK_DATA lvl = Some stocks"
    "seed_prices stocks [] = Inr prices"
    "map fst prices = stocks"
    "\<forall>(s, p) \<in> set prices. map_of INITIAL_PRICES s = Some p"
    by blast
  let ?st = "\<lparr>user_id = uid, level = lvl, balance = seed, initial_balance = seed,
              portfolio = [], stock_prices = prices, trade_count = 0,
              total_pnl = 0, created_at = now1, last_updated = now2\<rparr>"
  note init = initialize_simulator_valid [OF assms(2) t(1) t(3) t(4)]
  from assms(3) init [of uid now1 now2 db]
  have res: "res = Inr \<lparr>ir_level = lvl, ir_initial_balance = seed,
                   ir_available_stocks = stocks, ir_stock_prices = prices\<rparr>"
    and db': "db' = db\<lparr>simulator_db := (simulator_db db)(uid \<mapsto> ?st)\<rparr>"
    by simp_all
  have fresh: "simulator_db (snd (initialize_simulator uid lvl now1 now2 empty_store)) uid = Some ?st"
    by (simp add: init)
  have hist: "\<forall>limit. get_trade_history uid limit db' = get_trade_history uid limit db"
    by (simp add: db' get_trade_history_def)
  from res db' fresh hist t show ?thesis
    by (intro exI [of _ "\<lparr>ir_level = lvl, ir_initial_balance = seed,
                   ir_available_stocks = stocks, ir_stock_prices = prices\<rparr>"] exI [of _ ?st])
       simp
qed

theorem reinitialize_keeps_journal_witness:
  "\<exists>st. simulator_db (snd (initialize_simulator ''u1'' ''intermediate'' 9 9 averaged_store)) ''u1''
          = Some st \<and>
        balance st = 5000 \<and> portfolio st = [] \<and> trade_count st = 0 \<and>
        hr_trades (get_trade_history ''u1'' 50
          (snd (initialize_simulator ''u1'' ''intermediate'' 9 9 averaged_store)))
          = [first_trade, second_trade] \<and>
        hr_total_trades (get_trade_history ''u1'' 50
          (snd (initialize_simulator ''u1'' ''intermediate'' 9 9 averaged_store))) = 2"
proof -
  have l: "''intermediate'' \<in> {''beginner'', ''intermediate'', ''advanced''}"
    by simp
  have e: "initialize_simulator ''u1'' ''intermediate'' 9 9 averaged_store =
      (fst (initialize_simulator ''u1'' ''intermediate'' 9 9 averaged_store),
       snd (initialize_simulator ''u1'' ''intermediate'' 9 9 averaged_store))"
    by simp
  from reinitialize_keeps_journal [OF averaged_store_u1 l e] show ?thesis
    by (auto simp: history_averaged py_slice_to_def)
qed

subsection \<open>Initialisation\<close>

text \<open>
  Claim C9. \<^const>\<open>initialize_simulator\<close> fails with \<open>InvalidLevel\<close> for a level outside
  beginner, intermediate and advanced, and then leaves the store as it was. For a valid level
  it stores a session whose balance and initial balance are the seed of the level (2000, 5000,
  10000), whose price table has exactly the symbols of the level, each at its price in
  \<^const>\<open>INITIAL_PRICES\<close>, and whose trade counter is 0.
\<close>

theorem initialize_simulator_levels:
  assumes "initialize_simulator uid lvl now1 now2 db = (res, db')"
  shows "(lvl \<notin> {''beginner'', ''intermediate'', ''advanced''} \<longrightarrow>
            res = Inl InvalidLevel \<and> db' = db) \<and>
         (lvl \<in> {''beginner'', ''intermediate'', ''advanced''} \<longrightarrow>
            (\<exists>st. res = Inr \<lparr>ir_level = lvl, ir_initial_balance = balance st,
                              ir_available_stocks = map fst (stock_prices st),
                              ir_stock_prices = stock_prices st\<rparr> \<and>
                   db' = db\<lparr>simulator_db := (simulator_db db)(uid \<mapsto> st)\<rparr> \<and>
                   balance st = (if lvl = ''beginner'' then 2000
                                 else if lvl = ''intermediate'' then 5000 else 10000) \<and>
                   initial_balance st = balance st \<and>
                   map_of STOCK_DATA lvl = Some (map fst (stock_prices st)) \<and>
                   (\<forall>(s, p) \<in> set (stock_prices st). map_of INITIAL_PRICES s = Some p) \<and>
                   trade_count st = 0 \<and> portfolio st = []))"
proof (cases "lvl \<in> {''beginner'', ''intermediate'', ''advanced''}")
  case False
  with assms show ?thesis
    by (auto simp: initialize_simulator_def)
next
  case True
  from level_tables [OF True] obtain seed stocks prices where t:
    "map_of initial_balances lvl = Some seed"
    "seed = (if lvl = ''beginner'' then 2000 else if lvl = ''intermediate'' then 5000 else 10000)"
    "map_of STOCK_DATA lvl = Some stocks"
    "seed_prices stocks [] = Inr prices"
    "map fst prices = stocks"
    "\<forall>(s, p) \<in> set prices. map_of INITIAL_PRICES s = Some p"
    by blast
  let ?st = "\<lparr>user_id = uid, level = lvl, balance = seed, initial_balance = seed,
              portfolio = [], stock_prices = prices, trade_count = 0,
              total_pnl = 0, created_at = now1, last_updated = now2\<rparr>"
  from assms initialize_simulator_valid [OF True t(1) t(3) t(4), of uid now1 now2 db]
  have "res = Inr \<lparr>ir_level = lvl, ir_initial_balance = seed,
                   ir_available_stocks = stocks, ir_stock_prices = prices\<rparr>"
    and "db' = db\<lparr>simulator_db := (simulator_db db)(uid \<mapsto> ?st)\<rparr>"
    by simp_all
  with t True show ?thesis
    by (intro conjI impI exI [of _ ?st]) simp_all
qed

theorem initialize_simulator_levels_witness:
  "fst (initialize_simulator ''u1'' ''expert'' 1 1 empty_store) = Inl InvalidLevel \<and>
   snd (initialize_simulator ''u1'' ''expert'' 1 1 empty_store) = empty_store \<and>
   (\<exists>st. simulator_db fresh_store ''u1'' = Some st \<and> balance st = 2000 \<and>
      initial_balance st = 2000 \<and> trade_count st = 0 \<and>
      map fst (stock_prices st) = [''AAPL'', ''GOOGL'', ''MSFT'', ''AMZN'', ''TSLA''])"
proof -
  have a: "initialize_simulator ''u1'' ''expert'' 1 1 empty_store =
        (fst (initialize_simulator ''u1'' ''expert'' 1 1 empty_store),
         snd (initialize_simulator ''u1'' ''expert'' 1 1 empty_store))"
    by simp
  have b: "initialize_simulator ''u1'' ''beginner'' 1 1 empty_store =
        (fst (initialize_simulator ''u1'' ''beginner'' 1 1 empty_store), fresh_store)"
    by (simp add: fresh_store_def)
  from initialize_simulator_levels [OF a] have 1:
    "fst (initialize_simulator ''u1'' ''expert'' 1 1 empty_store) = Inl InvalidLevel"
    "snd (initialize_simulator ''u1'' ''expert'' 1 1 empty_store) = empty_store"
    by simp_all
  from initialize_simulator_levels [OF b] obtain st where st:
    "fresh_store = empty_store\<lparr>simulator_db := (simulator_db empty_store)(''u1'' \<mapsto> st)\<rparr>"
    "balance st = 2000" "initial_balance st = balance st" "trade_count st = 0"
    "map_of STOCK_DATA ''beginner'' = Some (map fst (stock_prices st))"
    by auto
  from st(5) have keys:
    "map fst (stock_prices st) = [''AAPL'', ''GOOGL'', ''MSFT'', ''AMZN'', ''TSLA'']"
    by (simp add: STOCK_DATA_def beginner_stocks_def)
  have "simulator_db fresh_store ''u1'' = Some st"
    by (subst st(1)) simp
  with st keys 1 show ?thesis
    by auto
qed

subsection \<open>The trade history\<close>

lemma py_sort_reverse_mset: "mset (py_sort_reverse f xs) = mset xs"
  by (simp add: py_sort_reverse_def)

lemma py_sort_reverse_set: "set (py_sort_reverse f xs) = set xs"
  by (simp add: py_sort_reverse_def)

lemma py_sort_reverse_length: "length (py_sort_reverse f xs) = length xs"
  by (simp add: py_sort_reverse_def)

lemma py_sort_reverse_sorted:
  "sorted_wrt (\<lambda>a b. f b \<le> f a) (py_sort_reverse f xs)"
proof -
  have "sorted (map f (sort_key f (rev xs)))"
    by (rule sorted_sort_key)
  then have "sorted_wrt (\<lambda>a b. f a \<le> f b) (sort_key f (rev xs))"
    by (simp add: sorted_map)
  then show ?thesis
    by (simp add: py_sort_reverse_def sorted_wrt_rev)
qed

lemma py_sort_reverse_stable:
  "filter (\<lambda>x. f x = k) (py_sort_reverse f xs) = filter (\<lambda>x. f x = k) xs"
proof -
  have "filter (\<lambda>x. f x = k) (sort_key f (rev xs)) = filter (\<lambda>x. f x = k) (rev xs)"
    by (rule sort_key_stable)
  then show ?thesis
    by (simp add: py_sort_reverse_def rev_filter [symmetric])
qed

lemma py_sort_reverse_strict:
  assumes "distinct (map f xs)"
  shows "sorted_wrt (\<lambda>a b. f b < f a) (py_sort_reverse f xs)"
proof -
  have "mset (map f (sort_key f (rev xs))) = mset (map f xs)"
    by simp
  with assms have "distinct (map f (sort_key f (rev xs)))"
    by (metis mset_eq_imp_distinct_iff)
  moreover have "sorted (map f (sort_key f (rev xs)))"
    by (rule sorted_sort_key)
  ultimately have "sorted_wrt (<) (map f (sort_key f (rev xs)))"
    by (simp add: strict_sorted_iff)
  then have "sorted_wrt (\<lambda>a b. f a < f b) (sort_key f (rev xs))"
    by (simp add: sorted_wrt_map)
  then show ?thesis
    by (simp add: py_sort_reverse_def sorted_wrt_rev)
qed

lemma py_slice_to_take:
  "py_slice_to xs n = take (if 0 \<le> n then nat n else length xs - nat (- n)) xs"
  by (simp add: py_slice_to_def)

text \<open>
  Claim C10, as amended. With \<open>mine\<close> the journal entries of the user and \<open>ordered\<close> their
  list as sorted by \<^const>\<open>get_trade_history\<close>: the total reported is the length of \<open>mine\<close>;
  \<open>ordered\<close> is a permutation of \<open>mine\<close> in which no timestamp is followed by a later one,
  entries with equal timestamps keep their journal order, and the timestamps strictly descend
  when those of \<open>mine\<close> are distinct; the trades returned are the first \<open>limit\<close> entries of
  \<open>ordered\<close> when \<open>limit\<close> is not negative, and \<open>ordered\<close> without its last \<open>- limit\<close> entries
  when it is; they are trades of the user, and for a limit that is not negative there are
  \<open>min limit (length mine)\<close> of them.
\<close>

theorem trade_history_ordered:
  assumes "mine = filter (\<lambda>t. te_user_id t = uid) (trades_db db)"
    and "ordered = py_sort_reverse te_timestamp mine"
    and "r = get_trade_history uid limit db"
  shows "hr_total_trades r = length mine \<and>
         mset ordered = mset mine \<and>
         sorted_wrt (\<lambda>a b. te_timestamp b \<le> te_timestamp a) ordered \<and>
         (\<forall>k. filter (\<lambda>t. te_timestamp t = k) ordered = filter (\<lambda>t. te_timestamp t = k) mine) \<and>
         (distinct (map te_timestamp mine) \<longrightarrow>
            sorted_wrt (\<lambda>a b. te_timestamp b < te_timestamp a) ordered) \<and>
         hr_trades r = take (if 0 \<le> limit then nat limit else length mine - nat (- limit)) ordered \<and>
         (\<forall>t \<in> set (hr_trades r). te_user_id t = uid \<and> t \<in> set (trades_db db)) \<and>
         sorted_wrt (\<lambda>a b. te_timestamp b \<le> te_timestamp a) (hr_trades r) \<and>
         (0 \<le> limit \<longrightarrow> length (hr_trades r) = min (nat limit) (length mine)) \<and>
         hr_trades (get_trade_history uid default_limit db) = take 50 ordered"
proof -
  have r: "hr_trades r = take (if 0 \<le> limit then nat limit else length mine - nat (- limit)) ordered"
    and n: "hr_total_trades r = length mine"
    using assms
    by (simp_all add: get_trade_history_def Let_def py_slice_to_take py_sort_reverse_length)
  have s: "sorted_wrt (\<lambda>a b. te_timestamp b \<le> te_timestamp a) ordered"
    unfolding assms(2) by (rule py_sort_reverse_sorted)
  have "set (hr_trades r) \<subseteq> set ordered"
    unfolding r by (rule set_take_subset)
  also have "set ordered = set mine"
    unfolding assms(2) by (rule py_sort_reverse_set)
  finally have m: "\<forall>t \<in> set (hr_trades r). te_user_id t = uid \<and> t \<in> set (trades_db db)"
    using assms(1) by auto
  have l: "0 \<le> limit \<longrightarrow> length (hr_trades r) = min (nat limit) (length mine)"
    unfolding r assms(2) by (simp add: py_sort_reverse_length min.commute)
  have t: "sorted_wrt (\<lambda>a b. te_timestamp b \<le> te_timestamp a) (hr_trades r)"
    unfolding r using s by (rule sorted_wrt_take)
  have d: "hr_trades (get_trade_history uid default_limit db) = take 50 ordered"
    using assms(1,2) by (simp add: get_trade_history_def Let_def py_slice_to_take default_limit_def)
  show ?thesis
    using r n s m l t d
    by (simp add: assms(2) py_sort_reverse_mset py_sort_reverse_stable py_sort_reverse_strict)
qed

text \<open>
  Claim C10 as stated has the timestamps strictly descending and at most \<open>limit\<close> entries for
  every limit. Two trades recorded at the same clock reading are returned one after the other,
  and the limit -1 returns one entry of two, which is more than -1.
\<close>

theorem trade_history_ordered_counterexample:
  "hr_trades (get_trade_history ''u1'' 50 averaged_store) = [first_trade, second_trade] \<and>
   te_timestamp first_trade = te_timestamp second_trade \<and>
   \<not> sorted_wrt (\<lambda>a b. te_timestamp b < te_timestamp a)
        (hr_trades (get_trade_history ''u1'' 50 averaged_store)) \<and>
   hr_trades (get_trade_history ''u1'' (- 1) averaged_store) = [first_trade] \<and>
   \<not> int (length (hr_trades (get_trade_history ''u1'' (- 1) averaged_store))) \<le> - 1"
  by (simp add: history_averaged py_slice_to_def first_trade_def second_trade_def)

theorem trade_history_ordered_witness:
  "hr_trades (get_trade_history ''u1'' 2 sold_store) = [third_trade, first_trade] \<and>
   hr_total_trades (get_trade_history ''u1'' 2 sold_store) = 3 \<and>
   map te_timestamp (hr_trades (get_trade_history ''u1'' 2 sold_store)) = [5, 2] \<and>
   hr_trades (get_trade_history ''u1'' 50 closed_store) = [exit_trade, first_trade] \<and>
   sorted_wrt (\<lambda>a b. te_timestamp b < te_timestamp a)
     (hr_trades (get_trade_history ''u1'' 50 closed_store))"
proof -
  let ?mine = "filter (\<lambda>t. te_user_id t = ''u1'') (trades_db closed_store)"
  note b = trade_history_ordered
    [OF refl refl refl, where uid = "''u1''" and db = closed_store and limit = 50]
  have d: "distinct (map te_timestamp ?mine)"
    by (simp add: closed_store_journal first_trade_def exit_trade_def)
  from b d have "sorted_wrt (\<lambda>a b. te_timestamp b < te_timestamp a)
     (py_sort_reverse te_timestamp ?mine)"
    by blast
  moreover from b [THEN conjunct2, THEN conjunct2, THEN conjunct2, THEN conjunct2,
      THEN conjunct2, THEN conjunct1]
  have "hr_trades (get_trade_history ''u1'' 50 closed_store)
      = take (nat 50) (py_sort_reverse te_timestamp ?mine)"
    by simp
  ultimately have s: "sorted_wrt (\<lambda>a b. te_timestamp b < te_timestamp a)
     (hr_trades (get_trade_history ''u1'' 50 closed_store))"
    by (simp add: sorted_wrt_take)
  have c: "hr_trades (get_trade_history ''u1'' 50 closed_store) = [exit_trade, first_trade]"
    by (simp add: get_trade_history_def Let_def closed_store_journal py_sort_reverse_def
        py_slice_to_def first_trade_def exit_trade_def)
  have h: "hr_trades (get_trade_history ''u1'' 2 sold_store) = [third_trade, first_trade]"
    by (simp add: history_sold py_slice_to_def)
  have n: "hr_total_trades (get_trade_history ''u1'' 2 sold_store) = 3"
    by (simp add: history_sold)
  have t: "map te_timestamp [third_trade, first_trade] = [5, 2]"
    by (simp add: first_trade_def third_trade_def)
  from s c h n t show ?thesis
    by simp
qed

section \<open>Properties of the embedding over floats\<close>

subsection \<open>Comparisons of floats\<close>

text \<open>Unless one of the two is NaN, \<^verbatim>\<open>a < b\<close> is false exactly when \<^verbatim>\<open>b <= a\<close> is true.\<close>

lemma not_flt_iff_fle: "a \<noteq> NaN \<Longrightarrow> b \<noteq> NaN \<Longrightarrow> \<not> flt a b \<longleftrightarrow> fle b a"
  by (cases a; cases b) auto

lemma flt_NaN [simp]: "\<not> flt a NaN" "\<not> flt NaN b"
  by (cases a; simp) simp

subsection \<open>Floats that are not negative\<close>

lemma not_negative_cases:
  "not_negative a \<longleftrightarrow> (\<exists>x. a = Finite x \<and> 0 \<le> x) \<or> a = PosInf \<or> a = NaN"
  by (cases a) (auto simp: not_negative_def)

lemma not_negative_simps [simp]:
  "not_negative (Finite x) \<longleftrightarrow> 0 \<le> x"
  "not_negative PosInf"
  "not_negative NaN"
  "\<not> not_negative NegInf"
  by (auto simp: not_negative_def)

lemma keeps_signD: "keeps_sign rnd \<Longrightarrow> 0 \<le> x \<Longrightarrow> not_negative (rnd x)"
  by (simp add: keeps_sign_def)

lemma fadd_not_negative:
  assumes "keeps_sign rnd" and "not_negative a" and "not_negative b"
  shows "not_negative (fadd rnd a b)"
proof (cases a)
  case (Finite x)
  with assms show ?thesis by (cases b) (auto intro: keeps_signD)
next
  case PosInf
  with assms show ?thesis by (cases b) auto
next
  case NegInf
  with assms show ?thesis by simp
next
  case NaN
  then show ?thesis by simp
qed

lemma fmul_not_negative:
  assumes "keeps_sign rnd" and "not_negative a" and "not_negative b"
  shows "not_negative (fmul rnd a b)"
proof (cases a)
  case (Finite x)
  with assms show ?thesis by (cases b) (auto intro: keeps_signD)
next
  case PosInf
  with assms show ?thesis by (cases b) auto
next
  case NegInf
  with assms show ?thesis by simp
next
  case NaN
  then show ?thesis by simp
qed

lemma fsub_not_negative:
  assumes "keeps_sign rnd" and "not_negative a" and "\<not> flt a b"
  shows "not_negative (fsub rnd a b)"
proof (cases a)
  case (Finite x)
  with assms show ?thesis by (cases b) (auto simp: fsub_def intro: keeps_signD)
next
  case PosInf
  with assms show ?thesis by (cases b) (auto simp: fsub_def)
next
  case NegInf
  with assms show ?thesis by simp
next
  case NaN
  then show ?thesis by (simp add: fsub_def)
qed

lemma py_round2_nonneg: "0 \<le> x \<Longrightarrow> 0 \<le> py_round2 x"
  by (auto simp: py_round2_def Let_def)

lemma round2_not_negative:
  assumes "keeps_sign rnd" and "not_negative a"
  shows "not_negative (round2 rnd a)"
  using assms by (cases a) (auto intro: keeps_signD py_round2_nonneg)

lemma to_float_error: "to_float rnd n = Inl e \<Longrightarrow> e = OverflowError"
  by (auto simp: to_float_def split: pyfloat.splits)

lemma to_float_Finite: "to_float rnd n = Inr q \<Longrightarrow> \<exists>x. q = Finite x \<and> rnd (of_int n) = Finite x"
  by (cases "rnd (of_int n)") (auto simp: to_float_def)

lemma to_float_not_negative:
  assumes "keeps_sign rnd" and "0 \<le> n" and "to_float rnd n = Inr q"
  shows "not_negative q"
proof -
  from assms(3) obtain x where "q = Finite x" "rnd (of_int n) = Finite x"
    using to_float_Finite by blast
  moreover have "not_negative (rnd (of_int n))"
    using assms(1,2) by (simp add: keeps_signD)
  ultimately show ?thesis by simp
qed

lemma simulate_price_change_fl_not_negative:
  assumes "keeps_sign rnd" and "not_negative p" and "- 1 \<le> c"
  shows "not_negative (simulate_price_change_fl rnd p c)"
proof -
  have "not_negative (fadd rnd (Finite 1) (Finite c))"
    using assms(1,3) by (simp add: keeps_signD)
  then show ?thesis
    unfolding simulate_price_change_fl_def
    using assms(1,2) by (intro round2_not_negative fmul_not_negative)
qed

subsection \<open>The rounding of the examples\<close>

lemma within_range_exact: "\<bar>x\<bar> \<le> 2 ^ 64 \<Longrightarrow> within_range x = Finite x"
proof -
  have "(2::rat) ^ 64 < overflow_threshold" by (simp add: overflow_threshold_def)
  then show "\<bar>x\<bar> \<le> 2 ^ 64 \<Longrightarrow> within_range x = Finite x" by (simp add: within_range_def)
qed

lemma overflow_threshold_pos: "0 < overflow_threshold"
  by (simp add: overflow_threshold_def)

lemma keeps_sign_within_range: "keeps_sign within_range"
  using overflow_threshold_pos by (auto simp: keeps_sign_def within_range_def)

lemma to_float_within_range:
  "\<bar>n\<bar> \<le> 2 ^ 64 \<Longrightarrow> to_float within_range n = Inr (Finite (of_int n))"
proof -
  assume "\<bar>n\<bar> \<le> 2 ^ 64"
  then have "\<bar>of_int n :: rat\<bar> \<le> of_int (2 ^ 64)"
    by (metis of_int_abs of_int_le_iff)
  then have "\<bar>of_int n :: rat\<bar> \<le> 2 ^ 64" by simp
  then show ?thesis by (simp add: to_float_def within_range_exact)
qed

lemma to_float_overflow: "to_float within_range (10 ^ 400) = Inl OverflowError"
  by (simp add: to_float_def within_range_def overflow_threshold_def)

subsection \<open>The ledger updates over floats\<close>

lemma int_times_error: "int_times rnd n v = Inl e \<Longrightarrow> e = OverflowError"
  by (auto simp: int_times_def split: number.splits sum.splits dest: to_float_error)

lemma number_plus_error: "number_plus rnd v f = Inl e \<Longrightarrow> e = OverflowError"
  by (auto simp: number_plus_def split: number.splits sum.splits dest: to_float_error)

lemma float_div_int_error:
  "float_div_int rnd f n = Inl e \<Longrightarrow> e = OverflowError \<or> e = ZeroDivisionError"
  by (auto simp: float_div_int_def split: sum.splits if_splits dest: to_float_error)

lemma new_avg_of_error:
  "new_avg_of rnd s a q p n = Inl e \<Longrightarrow> e = OverflowError \<or> e = ZeroDivisionError"
  by (auto simp: new_avg_of_def split: sum.splits
      dest: to_float_error int_times_error number_plus_error float_div_int_error)

lemma apply_buy_fl_error:
  "apply_buy_fl rnd symb qty p pf = (Some e, pf1) \<Longrightarrow> e = OverflowError \<or> e = ZeroDivisionError"
  by (auto simp: apply_buy_fl_def Let_def update_conv' split: option.splits if_splits sum.splits
      dest: new_avg_of_error)

lemma portfolio_value_from_error:
  "portfolio_value_from rnd pf prices t = Inl e \<Longrightarrow> e = OverflowError"
  by (induction pf arbitrary: t)
    (auto split: option.splits sum.splits dest: to_float_error)

lemma calculate_portfolio_value_fl_error:
  "calculate_portfolio_value_fl rnd pf prices = Inl e \<Longrightarrow> e = OverflowError"
  by (simp add: calculate_portfolio_value_fl_def portfolio_value_from_error)

lemma apply_sell_fl_all:
  "map_of (apply_sell_fl symb (shares_fl h) h pf) symb = None"
  by (simp add: apply_sell_fl_def Let_def delete_conv')

lemma apply_sell_fl_partial:
  "qty \<noteq> shares_fl h \<Longrightarrow>
   map_of (apply_sell_fl symb qty h pf) symb = Some (h\<lparr>shares_fl := shares_fl h - qty\<rparr>)"
  by (simp add: apply_sell_fl_def Let_def update_conv')

subsection \<open>The paths through execute_trade over floats\<close>

text \<open>
  \<^const>\<open>record_trade_fl\<close> appends the journal entry and stores the session with its
  counters written; it returns the response, or the \<^verbatim>\<open>OverflowError\<close> of the valuation.
\<close>

lemma record_trade_fl_cases:
  obtains
    (raises) st where
      "record_trade_fl rnd uid order execution_price total_value new_id now1 now2 state db =
         (Inl OverflowError,
          \<lparr>simulator_db_fl = (simulator_db_fl db)(uid \<mapsto> st),
           trades_db_fl = trades_db_fl db @
             [\<lparr>te_id_fl = new_id, te_user_id_fl = uid, te_symbol_fl = symbol_fl order,
               te_action_fl = action_fl order, te_quantity_fl = quantity_fl order,
               te_price_fl = execution_price, te_total_value_fl = total_value,
               te_timestamp_fl = now1, te_order_type_fl = order_type_fl order\<rparr>]\<rparr>)"
      "balance_fl st = balance_fl state" "portfolio_fl st = portfolio_fl state"
      "stock_prices_fl st = stock_prices_fl state"
  | (ok) st t where
      "record_trade_fl rnd uid order execution_price total_value new_id now1 now2 state db =
         (Inr t,
          \<lparr>simulator_db_fl = (simulator_db_fl db)(uid \<mapsto> st),
           trades_db_fl = trades_db_fl db @
             [\<lparr>te_id_fl = new_id, te_user_id_fl = uid, te_symbol_fl = symbol_fl order,
               te_action_fl = action_fl order, te_quantity_fl = quantity_fl order,
               te_price_fl = execution_price, te_total_value_fl = total_value,
               te_timestamp_fl = now1, te_order_type_fl = order_type_fl order\<rparr>]\<rparr>)"
      "balance_fl st = balance_fl state" "portfolio_fl st = portfolio_fl state"
      "stock_prices_fl st = stock_prices_fl state"
      "ts_price_fl (tr_trade_fl t) = execution_price"
      "ts_quantity_fl (tr_trade_fl t) = quantity_fl order"
      "tr_new_balance_fl t = balance_fl state"
proof (cases "calculate_portfolio_value_fl rnd (portfolio_fl state) (stock_prices_fl state)")
  case (Inl e)
  then have "e = OverflowError" by (rule calculate_portfolio_value_fl_error)
  with Inl show thesis
    by (intro raises [of "state\<lparr>trade_count_fl := trade_count_fl state + 1,
                                 last_updated_fl := now2\<rparr>"])
      (simp_all add: record_trade_fl_def Let_def)
next
  case (Inr pv)
  define total_value' where "total_value' = fadd rnd (balance_fl state) pv"
  define pnl where "pnl = fsub rnd total_value' (initial_balance_fl state)"
  define st where "st = state\<lparr>trade_count_fl := trade_count_fl state + 1,
    last_updated_fl := now2, total_pnl_fl := pnl\<rparr>"
  define t where "t = \<lparr>tr_trade_fl =
       \<lparr>ts_id_fl = new_id, ts_symbol_fl = symbol_fl order, ts_action_fl = action_fl order,
        ts_quantity_fl = quantity_fl order, ts_price_fl = execution_price,
        ts_total_value_fl = total_value'\<rparr>,
     tr_new_balance_fl = balance_fl state, tr_portfolio_fl = portfolio_fl state,
     tr_total_value_fl = total_value', tr_pnl_fl = pnl\<rparr>"
  show thesis
  proof (rule ok [where st = st and t = t])
    show "record_trade_fl rnd uid order execution_price total_value new_id now1 now2 state db =
         (Inr t,
          \<lparr>simulator_db_fl = (simulator_db_fl db)(uid \<mapsto> st),
           trades_db_fl = trades_db_fl db @
             [\<lparr>te_id_fl = new_id, te_user_id_fl = uid, te_symbol_fl = symbol_fl order,
               te_action_fl = action_fl order, te_quantity_fl = quantity_fl order,
               te_price_fl = execution_price, te_total_value_fl = total_value,
               te_timestamp_fl = now1, te_order_type_fl = order_type_fl order\<rparr>]\<rparr>)"
      using Inr by (simp add: record_trade_fl_def Let_def st_def t_def pnl_def total_value'_def)
  qed (simp_all add: st_def t_def)
qed

lemma execution_price_fl_error:
  "execution_price_fl order p = Inl e \<Longrightarrow> e = MissingLimitPrice \<or> e = UnfavorablePrice"
  by (auto simp: execution_price_fl_def split: if_splits option.splits)

lemma execute_trade_fl_not_initialized:
  "simulator_db_fl db uid = None \<Longrightarrow>
   execute_trade_fl rnd uid order new_id now1 now2 db = (Inl AccountNotInitialized, db)"
  by (simp add: execute_trade_fl_def Let_def)

lemma execute_trade_fl_not_tradeable:
  "simulator_db_fl db uid = Some state \<Longrightarrow>
   map_of (stock_prices_fl state) (symbol_fl order) = None \<Longrightarrow>
   execute_trade_fl rnd uid order new_id now1 now2 db = (Inl SymbolNotTradeable, db)"
  by (simp add: execute_trade_fl_def Let_def)

lemma execute_trade_fl_price_error:
  "simulator_db_fl db uid = Some state \<Longrightarrow>
   map_of (stock_prices_fl state) (symbol_fl order) = Some current_price \<Longrightarrow>
   execution_price_fl order current_price = Inl e \<Longrightarrow>
   execute_trade_fl rnd uid order new_id now1 now2 db = (Inl e, db)"
  by (simp add: execute_trade_fl_def Let_def)

lemma execute_trade_fl_overflow:
  "simulator_db_fl db uid = Some state \<Longrightarrow>
   map_of (stock_prices_fl state) (symbol_fl order) = Some current_price \<Longrightarrow>
   execution_price_fl order current_price = Inr execution_price \<Longrightarrow>
   to_float rnd (quantity_fl order) = Inl e \<Longrightarrow>
   execute_trade_fl rnd uid order new_id now1 now2 db = (Inl e, db)"
  by (simp add: execute_trade_fl_def Let_def)

lemma execute_trade_fl_buy_insufficient:
  "simulator_db_fl db uid = Some state \<Longrightarrow>
   map_of (stock_prices_fl state) (symbol_fl order) = Some current_price \<Longrightarrow>
   execution_price_fl order current_price = Inr execution_price \<Longrightarrow>
   to_float rnd (quantity_fl order) = Inr qty \<Longrightarrow>
   action_fl order = ''buy'' \<Longrightarrow>
   flt (balance_fl state) (fmul rnd execution_price qty) \<Longrightarrow>
   execute_trade_fl rnd uid order new_id now1 now2 db = (Inl InsufficientBalance, db)"
  by (simp add: execute_trade_fl_def Let_def)

lemma execute_trade_fl_buy_raises:
  "simulator_db_fl db uid = Some state \<Longrightarrow>
   map_of (stock_prices_fl state) (symbol_fl order) = Some current_price \<Longrightarrow>
   execution_price_fl order current_price = Inr execution_price \<Longrightarrow>
   to_float rnd (quantity_fl order) = Inr qty \<Longrightarrow>
   action_fl order = ''buy'' \<Longrightarrow>
   \<not> flt (balance_fl state) (fmul rnd execution_price qty) \<Longrightarrow>
   apply_buy_fl rnd (symbol_fl order) (quantity_fl order) execution_price (portfolio_fl state)
     = (Some e, pf1) \<Longrightarrow>
   execute_trade_fl rnd uid order new_id now1 now2 db =
     (Inl e, db\<lparr>simulator_db_fl := (simulator_db_fl db)(uid \<mapsto>
        state\<lparr>balance_fl := fsub rnd (balance_fl state) (fmul rnd execution_price qty),
              portfolio_fl := pf1\<rparr>)\<rparr>)"
  by (simp add: execute_trade_fl_def Let_def)

lemma execute_trade_fl_buy_ok:
  "simulator_db_fl db uid = Some state \<Longrightarrow>
   map_of (stock_prices_fl state) (symbol_fl order) = Some current_price \<Longrightarrow>
   execution_price_fl order current_price = Inr execution_price \<Longrightarrow>
   to_float rnd (quantity_fl order) = Inr qty \<Longrightarrow>
   action_fl order = ''buy'' \<Longrightarrow>
   \<not> flt (balance_fl state) (fmul rnd execution_price qty) \<Longrightarrow>
   apply_buy_fl rnd (symbol_fl order) (quantity_fl order) execution_price (portfolio_fl state)
     = (None, pf2) \<Longrightarrow>
   execute_trade_fl rnd uid order new_id now1 now2 db =
     record_trade_fl rnd uid order execution_price (fmul rnd execution_price qty)
       new_id now1 now2
       (state\<lparr>balance_fl := fsub rnd (balance_fl state) (fmul rnd execution_price qty),
              portfolio_fl := pf2\<rparr>) db"
  by (simp add: execute_trade_fl_def Let_def)

lemma execute_trade_fl_sell_insufficient:
  "simulator_db_fl db uid = Some state \<Longrightarrow>
   map_of (stock_prices_fl state) (symbol_fl order) = Some current_price \<Longrightarrow>
   execution_price_fl order current_price = Inr execution_price \<Longrightarrow>
   to_float rnd (quantity_fl order) = Inr qty \<Longrightarrow>
   action_fl order = ''sell'' \<Longrightarrow>
   (case map_of (portfolio_fl state) (symbol_fl order) of
      None \<Rightarrow> True | Some h \<Rightarrow> shares_fl h < quantity_fl order) \<Longrightarrow>
   execute_trade_fl rnd uid order new_id now1 now2 db = (Inl InsufficientShares, db)"
  by (simp add: execute_trade_fl_def split: option.splits)

lemma execute_trade_fl_sell_ok:
  "simulator_db_fl db uid = Some state \<Longrightarrow>
   map_of (stock_prices_fl state) (symbol_fl order) = Some current_price \<Longrightarrow>
   execution_price_fl order current_price = Inr execution_price \<Longrightarrow>
   to_float rnd (quantity_fl order) = Inr qty \<Longrightarrow>
   action_fl order = ''sell'' \<Longrightarrow>
   map_of (portfolio_fl state) (symbol_fl order) = Some h \<Longrightarrow>
   \<not> shares_fl h < quantity_fl order \<Longrightarrow>
   execute_trade_fl rnd uid order new_id now1 now2 db =
     record_trade_fl rnd uid order execution_price (fmul rnd execution_price qty)
       new_id now1 now2
       (state\<lparr>balance_fl := fadd rnd (balance_fl state) (fmul rnd execution_price qty),
              portfolio_fl := apply_sell_fl (symbol_fl order) (quantity_fl order) h
                                (portfolio_fl state)\<rparr>) db"
  by (simp add: execute_trade_fl_def Let_def)

lemma execute_trade_fl_invalid_action:
  "simulator_db_fl db uid = Some state \<Longrightarrow>
   map_of (stock_prices_fl state) (symbol_fl order) = Some current_price \<Longrightarrow>
   execution_price_fl order current_price = Inr execution_price \<Longrightarrow>
   to_float rnd (quantity_fl order) = Inr qty \<Longrightarrow>
   action_fl order \<noteq> ''buy'' \<Longrightarrow> action_fl order \<noteq> ''sell'' \<Longrightarrow>
   execute_trade_fl rnd uid order new_id now1 now2 db = (Inl InvalidAction, db)"
  by (simp add: execute_trade_fl_def Let_def)

text \<open>Every call of \<^const>\<open>execute_trade_fl\<close> takes exactly one of the ten paths.\<close>

lemma execute_trade_fl_cases [case_names not_initialized not_tradeable price_error overflow
    buy_insufficient buy_raises buy_ok sell_insufficient sell_ok invalid_action]:
  obtains
    (not_initialized) "simulator_db_fl db uid = None"
      "execute_trade_fl rnd uid order new_id now1 now2 db = (Inl AccountNotInitialized, db)"
  | (not_tradeable) state where "simulator_db_fl db uid = Some state"
      "map_of (stock_prices_fl state) (symbol_fl order) = None"
      "execute_trade_fl rnd uid order new_id now1 now2 db = (Inl SymbolNotTradeable, db)"
  | (price_error) state current_price e where "simulator_db_fl db uid = Some state"
      "map_of (stock_prices_fl state) (symbol_fl order) = Some current_price"
      "execution_price_fl order current_price = Inl e"
      "execute_trade_fl rnd uid order new_id now1 now2 db = (Inl e, db)"
  | (overflow) state current_price execution_price where "simulator_db_fl db uid = Some state"
      "map_of (stock_prices_fl state) (symbol_fl order) = Some current_price"
      "execution_price_fl order current_price = Inr execution_price"
      "to_float rnd (quantity_fl order) = Inl OverflowError"
      "execute_trade_fl rnd uid order new_id now1 now2 db = (Inl OverflowError, db)"
  | (buy_insufficient) state current_price execution_price qty where
      "simulator_db_fl db uid = Some state"
      "map_of (stock_prices_fl state) (symbol_fl order) = Some current_price"
      "execution_price_fl order current_price = Inr execution_price"
      "to_float rnd (quantity_fl order) = Inr qty"
      "action_fl order = ''buy''"
      "flt (balance_fl state) (fmul rnd execution_price qty)"
      "execute_trade_fl rnd uid order new_id now1 now2 db = (Inl InsufficientBalance, db)"
  | (buy_raises) state current_price execution_price qty e pf1 where
      "simulator_db_fl db uid = Some state"
      "map_of (stock_prices_fl state) (symbol_fl order) = Some current_price"
      "execution_price_fl order current_price = Inr execution_price"
      "to_float rnd (quantity_fl order) = Inr qty"
      "action_fl order = ''buy''"
      "\<not> flt (balance_fl state) (fmul rnd execution_price qty)"
      "apply_buy_fl rnd (symbol_fl order) (quantity_fl order) execution_price (portfolio_fl state)
         = (Some e, pf1)"
      "e = OverflowError \<or> e = ZeroDivisionError"
      "execute_trade_fl rnd uid order new_id now1 now2 db =
         (Inl e, db\<lparr>simulator_db_fl := (simulator_db_fl db)(uid \<mapsto>
            state\<lparr>balance_fl := fsub rnd (balance_fl state) (fmul rnd execution_price qty),
                  portfolio_fl := pf1\<rparr>)\<rparr>)"
  | (buy_ok) state current_price execution_price qty pf2 where
      "simulator_db_fl db uid = Some state"
      "map_of (stock_prices_fl state) (symbol_fl order) = Some current_price"
      "execution_price_fl order current_price = Inr execution_price"
      "to_float rnd (quantity_fl order) = Inr qty"
      "action_fl order = ''buy''"
      "\<not> flt (balance_fl state) (fmul rnd execution_price qty)"
      "apply_buy_fl rnd (symbol_fl order) (quantity_fl order) execution_price (portfolio_fl state)
         = (None, pf2)"
      "execute_trade_fl rnd uid order new_id now1 now2 db =
         record_trade_fl rnd uid order execution_price (fmul rnd execution_price qty)
           new_id now1 now2
           (state\<lparr>balance_fl := fsub rnd (balance_fl state) (fmul rnd execution_price qty),
                  portfolio_fl := pf2\<rparr>) db"
  | (sell_insufficient) state current_price execution_price qty where
      "simulator_db_fl db uid = Some state"
      "map_of (stock_prices_fl state) (symbol_fl order) = Some current_price"
      "execution_price_fl order current_price = Inr execution_price"
      "to_float rnd (quantity_fl order) = Inr qty"
      "action_fl order = ''sell''"
      "case map_of (portfolio_fl state) (symbol_fl order) of
         None \<Rightarrow> True | Some h \<Rightarrow> shares_fl h < quantity_fl order"
      "execute_trade_fl rnd uid order new_id now1 now2 db = (Inl InsufficientShares, db)"
  | (sell_ok) state current_price execution_price qty h where
      "simulator_db_fl db uid = Some state"
      "map_of (stock_prices_fl state) (symbol_fl order) = Some current_price"
      "execution_price_fl order current_price = Inr execution_price"
      "to_float rnd (quantity_fl order) = Inr qty"
      "action_fl order = ''sell''"
      "map_of (portfolio_fl state) (symbol_fl order) = Some h"
      "\<not> shares_fl h < quantity_fl order"
      "execute_trade_fl rnd uid order new_id now1 now2 db =
         record_trade_fl rnd uid order execution_price (fmul rnd execution_price qty)
           new_id now1 now2
           (state\<lparr>balance_fl := fadd rnd (balance_fl state) (fmul rnd execution_price qty),
                  portfolio_fl := apply_sell_fl (symbol_fl order) (quantity_fl order) h
                                    (portfolio_fl state)\<rparr>) db"
  | (invalid_action) state current_price execution_price qty where
      "simulator_db_fl db uid = Some state"
      "map_of (stock_prices_fl state) (symbol_fl order) = Some current_price"
      "execution_price_fl order current_price = Inr execution_price"
      "to_float rnd (quantity_fl order) = Inr qty"
      "action_fl order \<noteq> ''buy''" "action_fl order \<noteq> ''sell''"
      "execute_trade_fl rnd uid order new_id now1 now2 db = (Inl InvalidAction, db)"
proof (cases "simulator_db_fl db uid")
  case None
  then show thesis
    using not_initialized execute_trade_fl_not_initialized by blast
next
  case (Some state)
  note st = Some
  show thesis
  proof (cases "map_of (stock_prices_fl state) (symbol_fl order)")
    case None
    with st show thesis
      using not_tradeable execute_trade_fl_not_tradeable by blast
  next
    case (Some current_price)
    note cp = Some
    show thesis
    proof (cases "execution_price_fl order current_price")
      case (Inl e)
      with st cp show thesis
        using price_error execute_trade_fl_price_error by blast
    next
      case (Inr execution_price)
      note ep = Inr
      show thesis
      proof (cases "to_float rnd (quantity_fl order)")
        case (Inl e)
        then have "e = OverflowError" by (rule to_float_error)
        with Inl st cp ep show thesis
          using overflow execute_trade_fl_overflow by blast
      next
        case (Inr qty)
        note q = Inr
        consider (b) "action_fl order = ''buy''" | (s) "action_fl order = ''sell''"
          | (o) "action_fl order \<noteq> ''buy''" "action_fl order \<noteq> ''sell''"
          by blast
        then show thesis
        proof cases
          case b
          show thesis
          proof (cases "flt (balance_fl state) (fmul rnd execution_price qty)")
            case True
            with st cp ep q b show thesis
              using buy_insufficient execute_trade_fl_buy_insufficient by blast
          next
            case False
            show thesis
            proof (cases "apply_buy_fl rnd (symbol_fl order) (quantity_fl order) execution_price
                (portfolio_fl state)")
              case (Pair eo pf')
              show thesis
              proof (cases eo)
                case None
                with Pair st cp ep q b False show thesis
                  using buy_ok execute_trade_fl_buy_ok by blast
              next
                case (Some e)
                with Pair have ab: "apply_buy_fl rnd (symbol_fl order) (quantity_fl order)
                    execution_price (portfolio_fl state) = (Some e, pf')"
                  by simp
                from ab have "e = OverflowError \<or> e = ZeroDivisionError"
                  by (rule apply_buy_fl_error)
                then show thesis
                  using buy_raises [OF st cp ep q b False ab]
                    execute_trade_fl_buy_raises [OF st cp ep q b False ab] by blast
              qed
            qed
          qed
        next
          case s
          show thesis
          proof (cases "map_of (portfolio_fl state) (symbol_fl order)")
            case None
            then show thesis
              using sell_insufficient [OF st cp ep q s]
                execute_trade_fl_sell_insufficient [OF st cp ep q s]
              by simp
          next
            case (Some h)
            show thesis
            proof (cases "shares_fl h < quantity_fl order")
              case True
              with Some show thesis
                using sell_insufficient [OF st cp ep q s]
                  execute_trade_fl_sell_insufficient [OF st cp ep q s]
                by simp
            next
              case False
              with Some st cp ep q s show thesis
                using sell_ok execute_trade_fl_sell_ok by blast
            qed
          qed
        next
          case o
          with st cp ep q show thesis
            using invalid_action execute_trade_fl_invalid_action by blast
        qed
      qed
    qed
  qed
qed

lemma execute_trade_fl_Inr:
  assumes "execute_trade_fl rnd uid order new_id now1 now2 db = (Inr t, db')"
  obtains state current_price execution_price qty where
    "simulator_db_fl db uid = Some state"
    "map_of (stock_prices_fl state) (symbol_fl order) = Some current_price"
    "execution_price_fl order current_price = Inr execution_price"
    "to_float rnd (quantity_fl order) = Inr qty"
    "ts_price_fl (tr_trade_fl t) = execution_price"
    "trades_db_fl db' = trades_db_fl db @
       [\<lparr>te_id_fl = new_id, te_user_id_fl = uid, te_symbol_fl = symbol_fl order,
         te_action_fl = action_fl order, te_quantity_fl = quantity_fl order,
         te_price_fl = execution_price, te_total_value_fl = fmul rnd execution_price qty,
         te_timestamp_fl = now1, te_order_type_fl = order_type_fl order\<rparr>]"
proof (cases rule: execute_trade_fl_cases [of db uid rnd order new_id now1 now2])
  case (buy_ok state current_price execution_price qty pf2)
  show ?thesis
  proof (cases rule: record_trade_fl_cases
      [of rnd uid order execution_price "fmul rnd execution_price qty" new_id now1 now2
          "state\<lparr>balance_fl := fsub rnd (balance_fl state) (fmul rnd execution_price qty),
                 portfolio_fl := pf2\<rparr>" db])
    case (raises st)
    with buy_ok(8) assms show ?thesis by simp
  next
    case (ok st t')
    with buy_ok(8) assms have "t' = t"
      and "db' = \<lparr>simulator_db_fl = (simulator_db_fl db)(uid \<mapsto> st),
           trades_db_fl = trades_db_fl db @
             [\<lparr>te_id_fl = new_id, te_user_id_fl = uid, te_symbol_fl = symbol_fl order,
               te_action_fl = action_fl order, te_quantity_fl = quantity_fl order,
               te_price_fl = execution_price, te_total_value_fl = fmul rnd execution_price qty,
               te_timestamp_fl = now1, te_order_type_fl = order_type_fl order\<rparr>]\<rparr>"
      by simp_all
    with ok(5) show ?thesis
      by (intro that [OF buy_ok(1-4)]) simp_all
  qed
next
  case (sell_ok state current_price execution_price qty h)
  show ?thesis
  proof (cases rule: record_trade_fl_cases
      [of rnd uid order execution_price "fmul rnd execution_price qty" new_id now1 now2
          "state\<lparr>balance_fl := fadd rnd (balance_fl state) (fmul rnd execution_price qty),
                 portfolio_fl := apply_sell_fl (symbol_fl order) (quantity_fl order) h
                                   (portfolio_fl state)\<rparr>" db])
    case (raises st)
    with sell_ok(8) assms show ?thesis by simp
  next
    case (ok st t')
    with sell_ok(8) assms have "t' = t"
      and "db' = \<lparr>simulator_db_fl = (simulator_db_fl db)(uid \<mapsto> st),
           trades_db_fl = trades_db_fl db @
             [\<lparr>te_id_fl = new_id, te_user_id_fl = uid, te_symbol_fl = symbol_fl order,
               te_action_fl = action_fl order, te_quantity_fl = quantity_fl order,
               te_price_fl = execution_price, te_total_value_fl = fmul rnd execution_price qty,
               te_timestamp_fl = now1, te_order_type_fl = order_type_fl order\<rparr>]\<rparr>"
      by simp_all
    with ok(5) show ?thesis
      by (intro that [OF sell_ok(1-4)]) simp_all
  qed
qed (use assms in simp_all)

text \<open>Only the check of lines 374-376 raises \<open>UnfavorablePrice\<close>.\<close>

lemma execute_trade_fl_unfavorable:
  assumes "simulator_db_fl db uid = Some state"
    and "map_of (stock_prices_fl state) (symbol_fl order) = Some market_price"
    and "execute_trade_fl rnd uid order new_id now1 now2 db = (res, db')"
  shows "res = Inl UnfavorablePrice \<longleftrightarrow>
         execution_price_fl order market_price = Inl UnfavorablePrice"
proof (cases rule: execute_trade_fl_cases [of db uid rnd order new_id now1 now2])
  case not_initialized
  with assms show ?thesis by simp
next
  case (not_tradeable state')
  with assms show ?thesis by simp
next
  case (price_error state' cp e)
  with assms show ?thesis by auto
next
  case (overflow state' cp ep)
  with assms show ?thesis by auto
next
  case (buy_insufficient state' cp ep qty)
  with assms show ?thesis by auto
next
  case (buy_raises state' cp ep qty e pf1)
  with assms show ?thesis by auto
next
  case (buy_ok state' cp ep qty pf2)
  then show ?thesis
    using assms
    by (cases rule: record_trade_fl_cases
        [of rnd uid order ep "fmul rnd ep qty" new_id now1 now2
            "state'\<lparr>balance_fl := fsub rnd (balance_fl state') (fmul rnd ep qty),
                    portfolio_fl := pf2\<rparr>" db]) auto
next
  case (sell_insufficient state' cp ep qty)
  with assms show ?thesis by auto
next
  case (sell_ok state' cp ep qty h)
  then show ?thesis
    using assms
    by (cases rule: record_trade_fl_cases
        [of rnd uid order ep "fmul rnd ep qty" new_id now1 now2
            "state'\<lparr>balance_fl := fadd rnd (balance_fl state') (fmul rnd ep qty),
                    portfolio_fl := apply_sell_fl (symbol_fl order) (quantity_fl order) h
                                      (portfolio_fl state')\<rparr>" db]) auto
next
  case (invalid_action state' cp ep qty)
  with assms show ?thesis by auto
qed

subsection \<open>The examples over floats, evaluated\<close>

lemma market_order_fl_sel [simp]:
  "symbol_fl (market_order_fl act symb qty) = symb"
  "action_fl (market_order_fl act symb qty) = act"
  "quantity_fl (market_order_fl act symb qty) = qty"
  "order_type_fl (market_order_fl act symb qty) = ''market''"
  "limit_price_fl (market_order_fl act symb qty) = None"
  by (simp_all add: market_order_fl_def)

lemma limit_order_fl_sel [simp]:
  "symbol_fl (limit_order_fl act symb qty lp) = symb"
  "action_fl (limit_order_fl act symb qty lp) = act"
  "quantity_fl (limit_order_fl act symb qty lp) = qty"
  "order_type_fl (limit_order_fl act symb qty lp) = ''limit''"
  "limit_price_fl (limit_order_fl act symb qty lp) = Some lp"
  by (simp_all add: limit_order_fl_def)

lemma fresh_store_fl_u1 [simp]: "simulator_db_fl fresh_store_fl ''u1'' = Some beginner_state_fl"
  by (simp add: fresh_store_fl_def)

lemma traded_store_fl_u1 [simp]: "simulator_db_fl traded_store_fl ''u1'' = Some traded_state_fl"
  by (simp add: traded_store_fl_def)

lemma aapl_fl: "map_of beginner_prices_fl ''AAPL'' = Some (Finite 175.5)"
  by (simp add: beginner_prices_fl_def)

lemma beginner_state_fl_sel [simp]:
  "balance_fl beginner_state_fl = Finite 2000"
  "portfolio_fl beginner_state_fl = []"
  "stock_prices_fl beginner_state_fl = beginner_prices_fl"
  by (simp_all add: beginner_state_fl_def)

lemma traded_state_fl_sel [simp]:
  "balance_fl traded_state_fl = Finite 1122.5"
  "portfolio_fl traded_state_fl = [(''AAPL'', \<lparr>shares_fl = 5, avg_price_fl = PyFloat (Finite 175.5)\<rparr>)]"
  "stock_prices_fl traded_state_fl = beginner_prices_fl"
  by (simp_all add: traded_state_fl_def)

lemma seed_prices_fl_beginner:
  "seed_prices_fl within_range beginner_stocks [] = Inr beginner_prices_fl"
  by (simp add: beginner_stocks_def INITIAL_PRICES_def beginner_prices_fl_def within_range_exact)

lemma fresh_store_fl_eq:
  "initialize_simulator_fl within_range ''u1'' ''beginner'' 1 1 empty_store_fl =
     (Inr \<lparr>ir_level_fl = ''beginner'', ir_initial_balance_fl = 2000,
           ir_available_stocks_fl = beginner_stocks, ir_stock_prices_fl = beginner_prices_fl\<rparr>,
      fresh_store_fl)"
  by (simp add: initialize_simulator_fl_def initial_balances_fl_def STOCK_DATA_def
      seed_prices_fl_beginner empty_store_fl_def fresh_store_fl_def beginner_state_fl_def)

lemmas eval_fl_defs =
  execute_trade_fl_def execution_price_fl_def to_float_within_range within_range_exact
  apply_buy_fl_def apply_sell_fl_def new_avg_of_def int_times_def number_plus_def
  float_div_int_def record_trade_fl_def calculate_portfolio_value_fl_def fsub_def Let_def
  aapl_fl

lemma traded_store_fl_eq:
  "snd (execute_trade_fl within_range ''u1'' (market_order_fl ''buy'' ''AAPL'' 5) ''t1'' 2 2
     fresh_store_fl) = traded_store_fl"
  by (simp add: eval_fl_defs fresh_store_fl_def traded_store_fl_def beginner_state_fl_def
      traded_state_fl_def first_trade_fl_def beginner_prices_fl_def)

subsection \<open>Limit and market orders\<close>




subsection \<open>Sell orders\<close>

text \<open>
  Claim C4, as amended: every outcome of a sell order, whatever the rounding. If one of the
  checks that come before the ledger fails (account missing, symbol not tradeable, limit
  price missing, limit price not favourable) or the quantity is too large for a float
  (\<^verbatim>\<open>OverflowError\<close>, line 381), the call fails with that error and the store is unchanged.
  Otherwise: with no holding in the symbol, or fewer shares held than the quantity, it fails
  with \<open>InsufficientShares\<close> and the store is unchanged, balance and holdings included; a
  sell of exactly the shares held removes the entry of the symbol from the portfolio; a
  sell of fewer shares leaves an entry with the share count reduced by the quantity and the
  average price unchanged. In the last two cases the call returns its response, or raises
  the \<^verbatim>\<open>OverflowError\<close> of the valuation (line 161) after the ledger has been written.
\<close>

theorem sell_outcomes:
  assumes "action_fl order = ''sell''"
    and "execute_trade_fl rnd uid order new_id now1 now2 db = (res, db')"
  shows "case fill_of rnd db uid order of
           Inl e \<Rightarrow> res = Inl e \<and> db' = db
         | Inr (p, qty) \<Rightarrow>
             (case holding_of_fl db uid (symbol_fl order) of
                None \<Rightarrow> res = Inl InsufficientShares \<and> db' = db
              | Some h \<Rightarrow>
                  if shares_fl h < quantity_fl order
                  then res = Inl InsufficientShares \<and> db' = db
                  else if quantity_fl order = shares_fl h
                  then ((\<exists>t. res = Inr t) \<or> res = Inl OverflowError) \<and>
                       holding_of_fl db' uid (symbol_fl order) = None
                  else ((\<exists>t. res = Inr t) \<or> res = Inl OverflowError) \<and>
                       holding_of_fl db' uid (symbol_fl order) =
                         Some \<lparr>shares_fl = shares_fl h - quantity_fl order,
                               avg_price_fl = avg_price_fl h\<rparr>)"
proof (cases rule: execute_trade_fl_cases [of db uid rnd order new_id now1 now2])
  case not_initialized
  with assms(2) show ?thesis by (simp add: fill_of_def)
next
  case (not_tradeable state)
  with assms(2) show ?thesis by (simp add: fill_of_def)
next
  case (price_error state current_price e)
  with assms(2) show ?thesis by (simp add: fill_of_def)
next
  case (overflow state current_price execution_price)
  with assms(2) show ?thesis by (simp add: fill_of_def)
next
  case (buy_insufficient state current_price execution_price qty)
  with assms(1) show ?thesis by simp
next
  case (buy_raises state current_price execution_price qty e pf1)
  with assms(1) show ?thesis by simp
next
  case (buy_ok state current_price execution_price qty pf2)
  with assms(1) show ?thesis by simp
next
  case (sell_insufficient state current_price execution_price qty)
  with assms(2) show ?thesis
    by (auto simp: fill_of_def holding_of_fl_def split: option.splits)
next
  case (sell_ok state current_price execution_price qty h)
  have f: "fill_of rnd db uid order = Inr (execution_price, qty)"
    using sell_ok(1-4) by (simp add: fill_of_def)
  have h: "holding_of_fl db uid (symbol_fl order) = Some h"
    using sell_ok(1,6) by (simp add: holding_of_fl_def)
  have "((\<exists>t. res = Inr t) \<or> res = Inl OverflowError) \<and>
        holding_of_fl db' uid (symbol_fl order) =
          map_of (apply_sell_fl (symbol_fl order) (quantity_fl order) h (portfolio_fl state))
            (symbol_fl order)"
  proof (cases rule: record_trade_fl_cases
      [of rnd uid order execution_price "fmul rnd execution_price qty" new_id now1 now2
          "state\<lparr>balance_fl := fadd rnd (balance_fl state) (fmul rnd execution_price qty),
                 portfolio_fl := apply_sell_fl (symbol_fl order) (quantity_fl order) h
                                   (portfolio_fl state)\<rparr>" db])
    case (raises st)
    with sell_ok(8) assms(2) show ?thesis
      by (auto simp: holding_of_fl_def)
  next
    case (ok st t)
    with sell_ok(8) assms(2) show ?thesis
      by (auto simp: holding_of_fl_def)
  qed
  moreover have "map_of (apply_sell_fl (symbol_fl order) (quantity_fl order) h (portfolio_fl state))
      (symbol_fl order) = None" if "quantity_fl order = shares_fl h"
    using that apply_sell_fl_all [of "symbol_fl order" h "portfolio_fl state"] by simp
  moreover have "map_of (apply_sell_fl (symbol_fl order) (quantity_fl order) h (portfolio_fl state))
      (symbol_fl order) = Some \<lparr>shares_fl = shares_fl h - quantity_fl order,
                                 avg_price_fl = avg_price_fl h\<rparr>"
    if "quantity_fl order \<noteq> shares_fl h"
    using that by (simp add: apply_sell_fl_partial)
  ultimately show ?thesis
    using f h sell_ok(7) by simp
next
  case (invalid_action state current_price execution_price qty)
  with assms(1) show ?thesis by simp
qed

text \<open>
  Claim C4 as stated gives \<open>InsufficientShares\<close> to every sell of more shares than are held,
  or of a symbol with no holding. The checks of lines 360-381 come first: on an account that
  holds 5 AAPL and nothing else (market price 175.50), a sell of 1 share of a symbol that is
  not in the price table fails with \<open>SymbolNotTradeable\<close>, a limit sell of 6 AAPL with a
  limit of 180 fails with \<open>UnfavorablePrice\<close>, and a sell of \<open>10\<^sup>4\<^sup>0\<^sup>0\<close> AAPL raises
  \<^verbatim>\<open>OverflowError\<close>.
\<close>

theorem sell_outcomes_counterexample:
  "snd (execute_trade_fl within_range ''u1'' (market_order_fl ''buy'' ''AAPL'' 5) ''t1'' 2 2
     (snd (initialize_simulator_fl within_range ''u1'' ''beginner'' 1 1 empty_store_fl)))
     = traded_store_fl \<and>
   holding_of_fl traded_store_fl ''u1'' ''ZZZ'' = None \<and>
   fst (execute_trade_fl within_range ''u1'' (market_order_fl ''sell'' ''ZZZ'' 1) ''t2'' 3 3
          traded_store_fl) = Inl SymbolNotTradeable \<and>
   holding_of_fl traded_store_fl ''u1'' ''AAPL''
     = Some \<lparr>shares_fl = 5, avg_price_fl = PyFloat (Finite 175.5)\<rparr> \<and>
   fst (execute_trade_fl within_range ''u1'' (limit_order_fl ''sell'' ''AAPL'' 6 (Finite 180))
          ''t2'' 3 3 traded_store_fl) = Inl UnfavorablePrice \<and>
   fst (execute_trade_fl within_range ''u1'' (market_order_fl ''sell'' ''AAPL'' (10 ^ 400))
          ''t2'' 3 3 traded_store_fl) = Inl OverflowError"
proof -
  have "fst (execute_trade_fl within_range ''u1'' (market_order_fl ''sell'' ''ZZZ'' 1) ''t2'' 3 3
          traded_store_fl) = Inl SymbolNotTradeable"
    by (simp add: execute_trade_fl_def beginner_prices_fl_def)
  moreover have "fst (execute_trade_fl within_range ''u1''
      (limit_order_fl ''sell'' ''AAPL'' 6 (Finite 180)) ''t2'' 3 3 traded_store_fl)
        = Inl UnfavorablePrice"
    by (simp add: execute_trade_fl_def execution_price_fl_def aapl_fl)
  moreover have "fst (execute_trade_fl within_range ''u1''
      (market_order_fl ''sell'' ''AAPL'' (10 ^ 400)) ''t2'' 3 3 traded_store_fl)
        = Inl OverflowError"
    using to_float_overflow
    by (simp add: execute_trade_fl_def execution_price_fl_def aapl_fl)
  ultimately show ?thesis
    by (simp add: fresh_store_fl_eq traded_store_fl_eq holding_of_fl_def)
qed

theorem sell_outcomes_witness:
  "fst (execute_trade_fl within_range ''u1'' (market_order_fl ''sell'' ''AAPL'' 6) ''t2'' 3 3
          traded_store_fl) = Inl InsufficientShares \<and>
   snd (execute_trade_fl within_range ''u1'' (market_order_fl ''sell'' ''AAPL'' 6) ''t2'' 3 3
          traded_store_fl) = traded_store_fl \<and>
   fst (execute_trade_fl within_range ''u1'' (market_order_fl ''sell'' ''GOOGL'' 1) ''t2'' 3 3
          traded_store_fl) = Inl InsufficientShares \<and>
   holding_of_fl
     (snd (execute_trade_fl within_range ''u1'' (market_order_fl ''sell'' ''AAPL'' 5) ''t2'' 3 3
        traded_store_fl)) ''u1'' ''AAPL'' = None \<and>
   holding_of_fl
     (snd (execute_trade_fl within_range ''u1'' (market_order_fl ''sell'' ''AAPL'' 2) ''t2'' 3 3
        traded_store_fl)) ''u1'' ''AAPL''
     = Some \<lparr>shares_fl = 3, avg_price_fl = PyFloat (Finite 175.5)\<rparr> \<and>
   fst (execute_trade_fl within_range ''u1'' (limit_order_fl ''sell'' ''AAPL'' 2 (Finite 180))
          ''t2'' 3 3 traded_store_fl) = Inl UnfavorablePrice"
proof -
  have f: "fill_of within_range traded_store_fl ''u1'' (market_order_fl ''sell'' ''AAPL'' n)
             = Inr (Finite 175.5, Finite (of_int n))" if "\<bar>n\<bar> \<le> 2 ^ 64" for n
    using that by (simp add: fill_of_def execution_price_fl_def aapl_fl to_float_within_range)
  have g: "fill_of within_range traded_store_fl ''u1'' (market_order_fl ''sell'' ''GOOGL'' 1)
             = Inr (Finite 142.8, Finite 1)"
    using to_float_within_range [of 1]
    by (simp add: fill_of_def execution_price_fl_def beginner_prices_fl_def)
  have l: "fill_of within_range traded_store_fl ''u1''
             (limit_order_fl ''sell'' ''AAPL'' 2 (Finite 180)) = Inl UnfavorablePrice"
    by (simp add: fill_of_def execution_price_fl_def aapl_fl)
  have h: "holding_of_fl traded_store_fl ''u1'' ''AAPL''
             = Some \<lparr>shares_fl = 5, avg_price_fl = PyFloat (Finite 175.5)\<rparr>"
    by (simp add: holding_of_fl_def)
  have k: "holding_of_fl traded_store_fl ''u1'' ''GOOGL'' = None"
    by (simp add: holding_of_fl_def)
  have a: "fst (execute_trade_fl within_range ''u1'' (market_order_fl ''sell'' ''AAPL'' 6)
              ''t2'' 3 3 traded_store_fl) = Inl InsufficientShares \<and>
           snd (execute_trade_fl within_range ''u1'' (market_order_fl ''sell'' ''AAPL'' 6)
              ''t2'' 3 3 traded_store_fl) = traded_store_fl"
    using sell_outcomes [of "market_order_fl ''sell'' ''AAPL'' 6" within_range "''u1''" "''t2''"
        3 3 traded_store_fl
        "fst (execute_trade_fl within_range ''u1'' (market_order_fl ''sell'' ''AAPL'' 6)
           ''t2'' 3 3 traded_store_fl)"
        "snd (execute_trade_fl within_range ''u1'' (market_order_fl ''sell'' ''AAPL'' 6)
           ''t2'' 3 3 traded_store_fl)"] f [of 6] h
    by simp
  have b: "fst (execute_trade_fl within_range ''u1'' (market_order_fl ''sell'' ''GOOGL'' 1)
              ''t2'' 3 3 traded_store_fl) = Inl InsufficientShares"
    using sell_outcomes [of "market_order_fl ''sell'' ''GOOGL'' 1" within_range "''u1''" "''t2''"
        3 3 traded_store_fl
        "fst (execute_trade_fl within_range ''u1'' (market_order_fl ''sell'' ''GOOGL'' 1)
           ''t2'' 3 3 traded_store_fl)"
        "snd (execute_trade_fl within_range ''u1'' (market_order_fl ''sell'' ''GOOGL'' 1)
           ''t2'' 3 3 traded_store_fl)"] g k
    by simp
  have c: "holding_of_fl
     (snd (execute_trade_fl within_range ''u1'' (market_order_fl ''sell'' ''AAPL'' 5) ''t2'' 3 3
        traded_store_fl)) ''u1'' ''AAPL'' = None"
    using sell_outcomes [of "market_order_fl ''sell'' ''AAPL'' 5" within_range "''u1''" "''t2''"
        3 3 traded_store_fl
        "fst (execute_trade_fl within_range ''u1'' (market_order_fl ''sell'' ''AAPL'' 5)
           ''t2'' 3 3 traded_store_fl)"
        "snd (execute_trade_fl within_range ''u1'' (market_order_fl ''sell'' ''AAPL'' 5)
           ''t2'' 3 3 traded_store_fl)"] f [of 5] h
    by simp
  have d: "holding_of_fl
     (snd (execute_trade_fl within_range ''u1'' (market_order_fl ''sell'' ''AAPL'' 2) ''t2'' 3 3
        traded_store_fl)) ''u1'' ''AAPL''
     = Some \<lparr>shares_fl = 3, avg_price_fl = PyFloat (Finite 175.5)\<rparr>"
    using sell_outcomes [of "market_order_fl ''sell'' ''AAPL'' 2" within_range "''u1''" "''t2''"
        3 3 traded_store_fl
        "fst (execute_trade_fl within_range ''u1'' (market_order_fl ''sell'' ''AAPL'' 2)
           ''t2'' 3 3 traded_store_fl)"
        "snd (execute_trade_fl within_range ''u1'' (market_order_fl ''sell'' ''AAPL'' 2)
           ''t2'' 3 3 traded_store_fl)"] f [of 2] h
    by simp
  have e: "fst (execute_trade_fl within_range ''u1''
      (limit_order_fl ''sell'' ''AAPL'' 2 (Finite 180)) ''t2'' 3 3 traded_store_fl)
        = Inl UnfavorablePrice"
    using sell_outcomes [of "limit_order_fl ''sell'' ''AAPL'' 2 (Finite 180)" within_range
        "''u1''" "''t2''" 3 3 traded_store_fl
        "fst (execute_trade_fl within_range ''u1''
           (limit_order_fl ''sell'' ''AAPL'' 2 (Finite 180)) ''t2'' 3 3 traded_store_fl)"
        "snd (execute_trade_fl within_range ''u1''
           (limit_order_fl ''sell'' ''AAPL'' 2 (Finite 180)) ''t2'' 3 3 traded_store_fl)"] l
    by simp
  from a b c d e show ?thesis by blast
qed

subsection \<open>The balance is never negative\<close>

lemma INITIAL_PRICES_nonneg: "(s, p) \<in> set INITIAL_PRICES \<Longrightarrow> 0 \<le> p"
  by (auto simp: INITIAL_PRICES_def)

lemma set_update_cases:
  "(s, p) \<in> set (AList.update k v al) \<Longrightarrow> (s, p) = (k, v) \<or> (s, p) \<in> set al"
  by (induction al) (auto split: if_splits)

lemma seed_prices_fl_not_negative:
  assumes "keeps_sign rnd"
    and "seed_prices_fl rnd ss acc = Inr prices"
    and "\<forall>(s, p) \<in> set acc. not_negative p"
  shows "\<forall>(s, p) \<in> set prices. not_negative p"
  using assms(2,3)
proof (induction ss arbitrary: acc)
  case Nil
  then show ?case by simp
next
  case (Cons s ss)
  from Cons.prems(1) obtain p where p: "map_of INITIAL_PRICES s = Some p"
    and r: "seed_prices_fl rnd ss (AList.update s (rnd p) acc) = Inr prices"
    by (auto split: option.splits)
  from p have "0 \<le> p"
    using INITIAL_PRICES_nonneg map_of_SomeD by fast
  then have "not_negative (rnd p)"
    using assms(1) by (rule keeps_signD [rotated])
  with Cons.prems(2) have "\<forall>(s', p') \<in> set (AList.update s (rnd p) acc). not_negative p'"
    using set_update_cases by fastforce
  with r show ?case by (rule Cons.IH)
qed

lemma tick_prices_fl_not_negative:
  assumes "keeps_sign rnd" and "\<forall>k. - 1 \<le> draw k"
  shows "\<forall>(s, p) \<in> set prices. not_negative p \<Longrightarrow>
         \<forall>(s, p) \<in> set (tick_prices_fl rnd draw k prices). not_negative p"
proof (induction prices arbitrary: k)
  case Nil
  then show ?case by simp
next
  case (Cons sp prices)
  obtain s p where sp: "sp = (s, p)" by (cases sp)
  with Cons.prems have "not_negative p" by simp
  then have "not_negative (simulate_price_change_fl rnd p (draw k))"
    using assms by (intro simulate_price_change_fl_not_negative) simp_all
  moreover from Cons.prems
  have "\<forall>(s, p) \<in> set (tick_prices_fl rnd draw (Suc k) prices). not_negative p"
    by (intro Cons.IH) simp
  ultimately show ?case using sp by simp
qed

lemma not_negative_store_update:
  "not_negative_store db \<Longrightarrow> not_negative (balance_fl st) \<Longrightarrow>
   \<forall>(s, p) \<in> set (stock_prices_fl st). not_negative p \<Longrightarrow>
   simulator_db_fl db' = (simulator_db_fl db)(uid \<mapsto> st) \<Longrightarrow>
   not_negative_store db'"
  by (simp add: not_negative_store_def)

lemma not_negative_storeD:
  "not_negative_store db \<Longrightarrow> simulator_db_fl db uid = Some st \<Longrightarrow>
   not_negative (balance_fl st) \<and> (\<forall>(s, p) \<in> set (stock_prices_fl st). not_negative p)"
  by (simp add: not_negative_store_def)

lemma not_negative_empty_store: "not_negative_store empty_store_fl"
  by (simp add: not_negative_store_def empty_store_fl_def)

lemma initialize_simulator_fl_not_negative:
  assumes "keeps_sign rnd" and "not_negative_store db"
  shows "not_negative_store (snd (initialize_simulator_fl rnd uid lvl now1 now2 db))"
proof (cases "initialize_simulator_fl rnd uid lvl now1 now2 db")
  case (Pair res db')
  show ?thesis
  proof (cases res)
    case (Inl e)
    with Pair have "db' = db"
      by (auto simp: initialize_simulator_fl_def split: if_splits option.splits sum.splits)
    with Pair assms(2) show ?thesis by simp
  next
    case (Inr r)
    with Pair obtain seed stocks prices where s: "map_of initial_balances_fl lvl = Some seed"
      and p: "seed_prices_fl rnd stocks [] = Inr prices"
      and d: "simulator_db_fl db' = (simulator_db_fl db)(uid \<mapsto>
                 \<lparr>user_id_fl = uid, level_fl = lvl, balance_fl = Finite (of_int seed),
                  initial_balance_fl = Finite (of_int seed), portfolio_fl = [],
                  stock_prices_fl = prices, trade_count_fl = 0, total_pnl_fl = Finite 0,
                  created_at_fl = now1, last_updated_fl = now2\<rparr>)"
      by (auto simp: initialize_simulator_fl_def split: if_splits option.splits sum.splits)
    from s have "0 \<le> seed"
      by (auto simp: initial_balances_fl_def split: if_splits)
    moreover from p have "\<forall>(s, p) \<in> set prices. not_negative p"
      using seed_prices_fl_not_negative [OF assms(1)] by fastforce
    ultimately have "not_negative_store db'"
      using assms(2) d by (intro not_negative_store_update [OF _ _ _ d]) simp_all
    with Pair show ?thesis by simp
  qed
qed

lemma update_stock_prices_fl_not_negative:
  assumes "keeps_sign rnd" and "not_negative_store db" and "\<forall>k. - 1 \<le> draw k"
  shows "not_negative_store (snd (update_stock_prices_fl rnd uid draw now db))"
proof (cases "simulator_db_fl db uid")
  case None
  with assms(2) show ?thesis by (simp add: update_stock_prices_fl_def)
next
  case (Some state)
  let ?st = "state\<lparr>stock_prices_fl := tick_prices_fl rnd draw 0 (stock_prices_fl state),
                    last_updated_fl := now\<rparr>"
  from Some have d: "simulator_db_fl (snd (update_stock_prices_fl rnd uid draw now db))
      = (simulator_db_fl db)(uid \<mapsto> ?st)"
    by (simp add: update_stock_prices_fl_def Let_def)
  from not_negative_storeD [OF assms(2) Some]
  have b: "not_negative (balance_fl state)"
    and p: "\<forall>(s, p) \<in> set (stock_prices_fl state). not_negative p"
    by simp_all
  from p have "\<forall>(s, p) \<in> set (tick_prices_fl rnd draw 0 (stock_prices_fl state)). not_negative p"
    by (rule tick_prices_fl_not_negative [OF assms(1,3)])
  with b show ?thesis
    by (intro not_negative_store_update [OF assms(2) _ _ d]) simp_all
qed

lemma execution_price_fl_not_negative:
  assumes "execution_price_fl order current_price = Inr execution_price"
    and "not_negative current_price"
    and "case limit_price_fl order of None \<Rightarrow> True
         | Some lp \<Rightarrow> order_type_fl order = ''limit'' \<longrightarrow> not_negative lp"
  shows "not_negative execution_price"
  using assms by (auto simp: execution_price_fl_def split: if_splits option.splits)

lemma execute_trade_fl_not_negative:
  assumes "keeps_sign rnd" and "not_negative_store db"
    and "admissible_fl (Trade_fl uid order new_id now1 now2)"
  shows "not_negative_store (snd (execute_trade_fl rnd uid order new_id now1 now2 db))"
proof (cases rule: execute_trade_fl_cases [of db uid rnd order new_id now1 now2])
  case (buy_raises state current_price execution_price qty e pf1)
  from not_negative_storeD [OF assms(2) buy_raises(1)]
  have b: "not_negative (balance_fl state)"
    and p: "\<forall>(s, p) \<in> set (stock_prices_fl state). not_negative p"
    by simp_all
  from b buy_raises(6)
  have "not_negative (fsub rnd (balance_fl state) (fmul rnd execution_price qty))"
    by (rule fsub_not_negative [OF assms(1)])
  with p buy_raises(9) show ?thesis
    by (intro not_negative_store_update [OF assms(2), where uid = uid and
          st = "state\<lparr>balance_fl := fsub rnd (balance_fl state) (fmul rnd execution_price qty),
                       portfolio_fl := pf1\<rparr>"]) simp_all
next
  case (buy_ok state current_price execution_price qty pf2)
  from not_negative_storeD [OF assms(2) buy_ok(1)]
  have b: "not_negative (balance_fl state)"
    and p: "\<forall>(s, p) \<in> set (stock_prices_fl state). not_negative p"
    by simp_all
  from b buy_ok(6)
  have nb: "not_negative (fsub rnd (balance_fl state) (fmul rnd execution_price qty))"
    by (rule fsub_not_negative [OF assms(1)])
  show ?thesis
  proof (cases rule: record_trade_fl_cases
      [of rnd uid order execution_price "fmul rnd execution_price qty" new_id now1 now2
          "state\<lparr>balance_fl := fsub rnd (balance_fl state) (fmul rnd execution_price qty),
                 portfolio_fl := pf2\<rparr>" db])
    case (raises st)
    with buy_ok(8) nb p show ?thesis
      by (intro not_negative_store_update [OF assms(2), where uid = uid and st = st]) simp_all
  next
    case (ok st t)
    with buy_ok(8) nb p show ?thesis
      by (intro not_negative_store_update [OF assms(2), where uid = uid and st = st]) simp_all
  qed
next
  case (sell_ok state current_price execution_price qty h)
  from not_negative_storeD [OF assms(2) sell_ok(1)]
  have b: "not_negative (balance_fl state)"
    and p: "\<forall>(s, p) \<in> set (stock_prices_fl state). not_negative p"
    by simp_all
  from sell_ok(2) have "(symbol_fl order, current_price) \<in> set (stock_prices_fl state)"
    by (rule map_of_SomeD)
  with p have cp: "not_negative current_price" by auto
  from assms(3) sell_ok(5) have q: "0 \<le> quantity_fl order"
    and l: "case limit_price_fl order of None \<Rightarrow> True
            | Some lp \<Rightarrow> order_type_fl order = ''limit'' \<longrightarrow> not_negative lp"
    by simp_all
  from sell_ok(3) cp l have "not_negative execution_price"
    by (rule execution_price_fl_not_negative)
  moreover from assms(1) q sell_ok(4) have "not_negative qty"
    by (rule to_float_not_negative)
  ultimately have "not_negative (fmul rnd execution_price qty)"
    by (rule fmul_not_negative [OF assms(1)])
  with b have nb: "not_negative (fadd rnd (balance_fl state) (fmul rnd execution_price qty))"
    by (rule fadd_not_negative [OF assms(1)])
  show ?thesis
  proof (cases rule: record_trade_fl_cases
      [of rnd uid order execution_price "fmul rnd execution_price qty" new_id now1 now2
          "state\<lparr>balance_fl := fadd rnd (balance_fl state) (fmul rnd execution_price qty),
                 portfolio_fl := apply_sell_fl (symbol_fl order) (quantity_fl order) h
                                   (portfolio_fl state)\<rparr>" db])
    case (raises st)
    with sell_ok(8) nb p show ?thesis
      by (intro not_negative_store_update [OF assms(2), where uid = uid and st = st]) simp_all
  next
    case (ok st t)
    with sell_ok(8) nb p show ?thesis
      by (intro not_negative_store_update [OF assms(2), where uid = uid and st = st]) simp_all
  qed
qed (use assms(2) in simp_all)

lemma handle_fl_not_negative:
  assumes "keeps_sign rnd" and "not_negative_store db" and "admissible_fl r"
  shows "not_negative_store (handle_fl rnd r db)"
proof (cases r)
  case (Initialize_fl uid lvl now1 now2)
  with assms(1,2) show ?thesis by (simp add: initialize_simulator_fl_not_negative)
next
  case (Trade_fl uid order new_id now1 now2)
  with assms show ?thesis by (simp add: execute_trade_fl_not_negative del: admissible_fl.simps)
next
  case (UpdatePrices_fl uid draw now)
  with assms show ?thesis by (simp add: update_stock_prices_fl_not_negative)
next
  case (GetState_fl uid)
  with assms(2) show ?thesis by simp
next
  case (GetTrades_fl uid limit)
  with assms(2) show ?thesis by simp
qed

lemma run_fl_not_negative:
  assumes "keeps_sign rnd"
  shows "not_negative_store db \<Longrightarrow> \<forall>r \<in> set reqs. admissible_fl r \<Longrightarrow>
         not_negative_store (run_fl rnd reqs db)"
  unfolding run_fl_def
proof (induction reqs arbitrary: db)
  case Nil
  then show ?case by simp
next
  case (Cons r reqs)
  from Cons.prems have "not_negative_store (handle_fl rnd r db)"
    by (intro handle_fl_not_negative [OF assms]) simp_all
  with Cons.prems(2) show ?case
    by (simp add: Cons.IH)
qed

text \<open>
  Claim C6, as amended. From the empty registry, after any sequence of admissible requests
  (initialisations, orders, price ticks and queries, for any users), the balance of every
  account is not negative: the comparison \<^verbatim>\<open>balance < 0\<close> is false. The balance is a finite
  value from 0 on, or, after an overflow, the positive infinity or NaN. A request is
  admissible unless it is a sell order with a negative quantity or a negative limit price;
  the rounding is any that keeps the sign.
\<close>

theorem balance_never_negative:
  assumes "keeps_sign rnd"
    and "\<forall>r \<in> set reqs. admissible_fl r"
    and "simulator_db_fl (run_fl rnd reqs empty_store_fl) uid = Some st"
  shows "not_negative (balance_fl st)"
proof -
  have "not_negative_store (run_fl rnd reqs empty_store_fl)"
    using not_negative_empty_store assms(2) by (rule run_fl_not_negative [OF assms(1)])
  with assms(3) show ?thesis
    by (simp add: not_negative_storeD)
qed

text \<open>
  Claim C6 as stated has no condition on the orders and asks for \<^verbatim>\<open>balance >= 0\<close>.
  \<^verbatim>\<open>execute_trade\<close> checks neither the sign of the quantity nor that of the limit price:
  after a buy of 5 AAPL at 175.50 from a balance of 2000, a limit sell of the 5 shares at
  -1000 leaves a balance of -3877.5, and a market sell of -20 shares leaves -2387.5. And an
  admissible order can leave a balance for which \<^verbatim>\<open>balance >= 0\<close> is false although
  \<^verbatim>\<open>balance < 0\<close> is false too: a limit buy of 1 AAPL with limit price NaN passes lines 374
  and 385 and leaves the balance NaN.
\<close>

theorem balance_never_negative_counterexample:
  "balance_of_fl
     (run_fl within_range
        [Initialize_fl ''u1'' ''beginner'' 1 1,
         Trade_fl ''u1'' (market_order_fl ''buy'' ''AAPL'' 5) ''t1'' 2 2,
         Trade_fl ''u1'' (limit_order_fl ''sell'' ''AAPL'' 5 (Finite (- 1000))) ''t2'' 3 3]
        empty_store_fl) ''u1'' = Some (Finite (- 3877.5)) \<and>
   balance_of_fl
     (run_fl within_range
        [Initialize_fl ''u1'' ''beginner'' 1 1,
         Trade_fl ''u1'' (market_order_fl ''buy'' ''AAPL'' 5) ''t1'' 2 2,
         Trade_fl ''u1'' (market_order_fl ''sell'' ''AAPL'' (- 20)) ''t2'' 3 3]
        empty_store_fl) ''u1'' = Some (Finite (- 2387.5)) \<and>
   admissible_fl (Trade_fl ''u1'' (limit_order_fl ''buy'' ''AAPL'' 1 NaN) ''t1'' 2 2) \<and>
   balance_of_fl
     (run_fl within_range
        [Initialize_fl ''u1'' ''beginner'' 1 1,
         Trade_fl ''u1'' (limit_order_fl ''buy'' ''AAPL'' 1 NaN) ''t1'' 2 2]
        empty_store_fl) ''u1'' = Some NaN \<and>
   fle (Finite 0) NaN = False"
proof -
  have a: "balance_of_fl (snd (execute_trade_fl within_range ''u1''
      (limit_order_fl ''sell'' ''AAPL'' 5 (Finite (- 1000))) ''t2'' 3 3 traded_store_fl)) ''u1''
        = Some (Finite (- 3877.5))"
    by (simp add: eval_fl_defs balance_of_fl_def)
  have b: "balance_of_fl (snd (execute_trade_fl within_range ''u1''
      (market_order_fl ''sell'' ''AAPL'' (- 20)) ''t2'' 3 3 traded_store_fl)) ''u1''
        = Some (Finite (- 2387.5))"
    by (simp add: eval_fl_defs balance_of_fl_def)
  have c: "balance_of_fl (snd (execute_trade_fl within_range ''u1''
      (limit_order_fl ''buy'' ''AAPL'' 1 NaN) ''t1'' 2 2 fresh_store_fl)) ''u1'' = Some NaN"
    by (simp add: eval_fl_defs balance_of_fl_def)
  from a b c show ?thesis
    by (simp add: run_fl_def fresh_store_fl_eq traded_store_fl_eq)
qed

theorem balance_never_negative_witness:
  "keeps_sign within_range \<and>
   list_all admissible_fl
     [Initialize_fl ''u1'' ''beginner'' 1 1,
      Trade_fl ''u1'' (market_order_fl ''buy'' ''AAPL'' 5) ''t1'' 2 2,
      Trade_fl ''u1'' (limit_order_fl ''sell'' ''AAPL'' 2 (Finite 170)) ''t2'' 3 3,
      GetState_fl ''u1''] \<and>
   balance_of_fl
     (run_fl within_range
        [Initialize_fl ''u1'' ''beginner'' 1 1,
         Trade_fl ''u1'' (market_order_fl ''buy'' ''AAPL'' 5) ''t1'' 2 2,
         Trade_fl ''u1'' (limit_order_fl ''sell'' ''AAPL'' 2 (Finite 170)) ''t2'' 3 3,
         GetState_fl ''u1'']
        empty_store_fl) ''u1'' = Some (Finite 1462.5) \<and>
   not_negative (Finite 1462.5)"
proof -
  let ?reqs = "[Initialize_fl ''u1'' ''beginner'' 1 1,
         Trade_fl ''u1'' (market_order_fl ''buy'' ''AAPL'' 5) ''t1'' 2 2,
         Trade_fl ''u1'' (limit_order_fl ''sell'' ''AAPL'' 2 (Finite 170)) ''t2'' 3 3,
         GetState_fl ''u1'']"
  have adm: "\<forall>r \<in> set ?reqs. admissible_fl r" by simp
  have "balance_of_fl (snd (execute_trade_fl within_range ''u1''
      (limit_order_fl ''sell'' ''AAPL'' 2 (Finite 170)) ''t2'' 3 3 traded_store_fl)) ''u1''
        = Some (Finite 1462.5)"
    by (simp add: eval_fl_defs balance_of_fl_def)
  then have bal: "balance_of_fl (run_fl within_range ?reqs empty_store_fl) ''u1''
      = Some (Finite 1462.5)"
    by (simp add: run_fl_def fresh_store_fl_eq traded_store_fl_eq)
  then obtain st where st: "simulator_db_fl (run_fl within_range ?reqs empty_store_fl) ''u1''
      = Some st" and b: "balance_fl st = Finite 1462.5"
    by (auto simp: balance_of_fl_def)
  from balance_never_negative [OF keeps_sign_within_range adm st] b
  have "not_negative (Finite 1462.5)" by simp
  moreover from adm have "list_all admissible_fl ?reqs"
    unfolding list_all_iff .
  ultimately show ?thesis
    using keeps_sign_within_range bal by blast
qed

end
